theory Spec2Isabelle
  imports Complex_Main
begin

section \<open>Material tensors of seidart (routines/materials.py)\<close>

text \<open>
  The module computes elastic stiffness tensors (6 by 6, Voigt notation) and dielectric
  tensors (3 by 3) with numpy. The embedding keeps the arrays as lists of rows and reads
  Python's floats as real numbers: rounding error, infinities and NaN results of float
  arithmetic are outside the model, and every statement below is about the exact
  arithmetic the float code approximates. Exceptions are values of the type
  \<open>error\<close>: a function that can raise returns \<open>error + 'a\<close>. The value
  \<open>NaNResult\<close> is no exception: it marks the few places where numpy would go on with
  an infinity or NaN, which the real numbers cannot carry.
\<close>

subsection \<open>Exceptions and arrays\<close>

datatype error = KeyError | NameError | TypeError | ValueError | IndexError
  | ZeroDivisionError | LinAlgError | FileNotFoundError | NaNResult

text \<open>A two-dimensional array is the list of its rows; \<open>shape\<close> is numpy's shape.\<close>

definition shape :: "'a list list \<Rightarrow> nat \<times> nat" where
  "shape A = (length A, if A = [] then 0 else length (hd A))"

definition zeros :: "nat \<Rightarrow> nat \<Rightarrow> real list list" where
  "zeros m n = replicate m (replicate n 0)"

definition eye :: "nat \<Rightarrow> real list list" where
  "eye n = map (\<lambda>i. map (\<lambda>j. if i = j then 1 else 0) [0..<n]) [0..<n]"

text \<open>\<open>C[i,j] = v\<close>, for an index inside the array (all uses below are).\<close>

definition setitem :: "'a list list \<Rightarrow> nat \<Rightarrow> nat \<Rightarrow> 'a \<Rightarrow> 'a list list" where
  "setitem C i j v = C[i := (C ! i)[j := v]]"

text \<open>\<open>C[0:m,0:n] = v\<close>: the slice assignment of a scalar to a leading block.\<close>

definition setblock :: "'a list list \<Rightarrow> nat \<Rightarrow> nat \<Rightarrow> 'a \<Rightarrow> 'a list list" where
  "setblock C m n v =
     map (\<lambda>i. map (\<lambda>j. if i < m \<and> j < n then v else C ! i ! j) [0..<length (C ! i)])
       [0..<length C]"

definition diagonal :: "'a list list \<Rightarrow> 'a list" where
  "diagonal C = map (\<lambda>i. C ! i ! i) [0..<length C]"

definition fill_diagonal :: "'a list list \<Rightarrow> 'a list \<Rightarrow> 'a list list" where
  "fill_diagonal C vals = map (\<lambda>i. (C ! i)[i := vals ! i]) [0..<length C]"

text \<open>\<open>xs[a:b]\<close> for \<open>0 \<le> a \<le> b\<close>: a slice is cut short, never an error.\<close>

definition slice :: "nat \<Rightarrow> nat \<Rightarrow> 'a list \<Rightarrow> 'a list" where
  "slice a b xs = take (b - a) (drop a xs)"

text \<open>
  \<open>np.eye(3,3) * sigma\<close> for a two-dimensional \<open>sigma\<close>: the elementwise product
  with numpy's broadcasting, which stretches an axis of length 1 and refuses every shape
  other than 1 or 3 along an axis.
\<close>

definition eye3_times :: "real list list \<Rightarrow> error + real list list" where
  "eye3_times sigma =
     (case shape sigma of (r, c) \<Rightarrow>
        if (r = 1 \<or> r = 3) \<and> (c = 1 \<or> c = 3)
        then Inr (map (\<lambda>i. map (\<lambda>j. (if i = j then 1 else 0)
                        * sigma ! (if r = 1 then 0 else i) ! (if c = 1 then 0 else j))
                      [0..<3]) [0..<3])
        else Inl ValueError)"

text \<open>\<open>np.eye(3,3) * x\<close> for a scalar \<open>x\<close>.\<close>

definition eye3_scaled :: "'a::comm_ring_1 \<Rightarrow> 'a list list" where
  "eye3_scaled x = map (\<lambda>i. map (\<lambda>j. (if i = j then 1 else 0) * x) [0..<3]) [0..<(3::nat)]"

text \<open>An array is either of a real or of a complex dtype (\<open>np.iscomplexobj\<close>).\<close>

datatype ndarray = RealArray "real list list" | ComplexArray "complex list list"

subsection \<open>Global constants and the material catalog\<close>

definition eps0 :: real where
  "eps0 = 8.85418782 / 10 ^ 12"

text \<open>
  \<open>isotropic_materials\<close>: for each name the array
  \<open>[Vp_min, Vp_max, Vs_min, Vs_max, Rel_Perm_min, Rel_Perm_max, Conductivity_min,
  Conductivity_max]\<close>. A name that is not a key raises \<open>KeyError\<close>.
\<close>

definition isotropic_materials :: "string \<Rightarrow> real list option" where
  "isotropic_materials = map_of
    [(''air'',       [343, 343, 0, 0, 1, 1, 1 / 10 ^ 16, 1 / 10 ^ 15]),
     (''ice1h'',     [3400, 3800, 1700, 1900, 3.1, 3.22, 1 / 10 ^ 7, 1 / 10 ^ 6]),
     (''snow'',      [100, 2000, 50, 500, 1, 70, 1 / 10 ^ 9, 1 / 10 ^ 4]),
     (''soil'',      [300, 700, 100, 300, 3.9, 29.4, 1 / 10 ^ 2, 1 / 10]),
     (''water'',     [1450, 1500, 0, 0, 80.36, 80.36, 5.5 / 10 ^ 6, 5 / 10 ^ 2]),
     (''oil'',       [1200, 1250, 0, 0, 2.07, 2.14, 5.7 / 10 ^ 8, 2.1 / 10 ^ 7]),
     (''dry_sand'',  [400, 1200, 100, 500, 2.9, 4.7, 1 / 10 ^ 3, 1 / 10 ^ 3]),
     (''wet_sand'',  [1500, 2000, 400, 600, 2.9, 105, 2.5 / 10 ^ 4, 1.2 / 10 ^ 3]),
     (''granite'',   [4500, 6000, 2500, 3300, 4.8, 18.9, 4 / 10 ^ 5, 2.5 / 10 ^ 4]),
     (''gneiss'',    [4400, 5200, 2700, 3200, 8.5, 8.5, 2.5 / 10 ^ 4, 2.5 / 10 ^ 3]),
     (''basalt'',    [5000, 6000, 2800, 3400, 12, 12, 1 / 10 ^ 6, 1 / 10 ^ 4]),
     (''limestone'', [3500, 6000, 2000, 3300, 7.8, 8.5, 2.5 / 10 ^ 4, 1 / 10 ^ 3]),
     (''anhydrite'', [4000, 5500, 2200, 3100, 5, 11.5, 1 / 10 ^ 6, 1 / 10 ^ 5]),
     (''coal'',      [2200, 2700, 1000, 1400, 5.6, 6.3, 1 / 10 ^ 8, 1 / 10 ^ 3]),
     (''salt'',      [4500, 5500, 2500, 3100, 5.6, 5.6, 1 / 10 ^ 7, 10 ^ 2])]"

subsection \<open>Isotropic tensors\<close>

text \<open>
  \<open>isotropic_stiffness_tensor(pressure, density, material_limits)\<close>. The slices
  \<open>material_limits[0:2]\<close> and \<open>[2:4]\<close> of a short array are short, and reading
  \<open>Vp[1]\<close> or \<open>Vs[1]\<close> from them raises \<open>IndexError\<close>.
\<close>

definition isotropic_stiffness_tensor :: "real \<Rightarrow> real \<Rightarrow> real list \<Rightarrow> error + real list list" where
  "isotropic_stiffness_tensor pressure density material_limits =
    (let Vp = slice 0 2 material_limits;
         Vs = slice 2 4 material_limits
     in if length Vp < 2 \<or> length Vs < 2 then Inl IndexError
        else
          let cp = 2 * (Vp ! 1 - Vp ! 0) / pi;
              cs = 2 * (Vs ! 1 - Vs ! 0) / pi;
              pvelocity = cp * arctan pressure + Vp ! 0;
              svelocity = cs * arctan pressure + Vs ! 0;
              mu = density * svelocity\<^sup>2;
              lam = density * pvelocity\<^sup>2 - 2 * mu;
              C = zeros 6 6;
              C = setblock C 3 3 lam;
              C = fill_diagonal C (map (\<lambda>d. d + mu) (diagonal C));
              C = setitem C 0 0 (lam + 2 * mu);
              C = setitem C 1 1 (C ! 1 ! 1 + mu);
              C = setitem C 2 2 (C ! 2 ! 2 + mu)
          in Inr C)"

text \<open>
  \<open>isotropic_permittivity_tensor(temperature, porosity, water_content, material_name)\<close>
  returns the pair (permittivity, conductivity). The branches compare the name with the
  source's literals, \<open>'dry sand'\<close> with a space among them.
\<close>

definition isotropic_permittivity_tensor ::
    "real \<Rightarrow> real \<Rightarrow> real \<Rightarrow> string \<Rightarrow> error + (real list list \<times> real list list)" where
  "isotropic_permittivity_tensor temperature porosity water_content material_name =
    (case isotropic_materials material_name of
       None \<Rightarrow> Inl KeyError
     | Some material_limits \<Rightarrow>
        let perm0 = material_limits ! 4;
            perm1 = material_limits ! 5;
            cond0 = material_limits ! 6;
            cond1 = material_limits ! 7
        in if material_name = ''ice1h'' then
             (let perm0 = 3.1884 + 9.1 / 10 ^ 4 * temperature;
                  perm_coef = (perm1 - perm0) / 85;
                  cond_coef = (cond1 - cond0) / 85
              in Inr (eye3_scaled (perm_coef * porosity + perm0),
                      eye3_scaled (cond_coef * porosity + cond0)))
           else if material_name = ''soil'' \<or> material_name = ''dry sand'' then
             (let perm_coef = (perm1 - perm0) / 55;
                  cond_coef = (cond1 - cond0) / 55
              in Inr (eye3_scaled (perm_coef * porosity + perm0),
                      eye3_scaled (cond_coef * porosity + cond0)))
           else if material_name = ''salt'' then
             (let cond_coef = (cond1 - cond0) / 20
              in Inr (eye3_scaled perm0,
                      eye3_scaled (cond_coef * water_content + cond0)))
           else if material_name = ''water'' \<or> material_name = ''oil'' then
             Inr (eye3_scaled (material_limits ! 4), eye3_scaled (material_limits ! 6))
           else
             (let perm_coef = (perm1 - perm0) / 3;
                  cond_coef = (cond1 - cond0) / 3
              in Inr (eye3_scaled (perm_coef * porosity + perm0),
                      eye3_scaled (cond_coef * porosity + cond0))))"

subsection \<open>Single-crystal ice\<close>

text \<open>\<open>ice_stiffness(temperature, pressure)\<close>, temperature in Celsius, pressure in kbar.\<close>

definition ice_stiffness :: "real \<Rightarrow> real \<Rightarrow> real list list" where
  "ice_stiffness temperature pressure =
    (let C = zeros 6 6;
         C = setitem C 0 0 (136.813 - 0.28940 * temperature - 0.00178270 * temperature\<^sup>2
               + 4.6648 * pressure - 0.13501 * pressure\<^sup>2);
         C = setitem C 0 1 (69.4200 - 0.14673 * temperature - 0.00090362 * temperature\<^sup>2
               + 5.0743 * pressure + 0.085917 * pressure\<^sup>2);
         C = setitem C 0 2 (56.3410 - 0.11916 * temperature - 0.00073120 * temperature\<^sup>2
               + 6.4189 * pressure - 0.52490 * pressure\<^sup>2);
         C = setitem C 2 2 (147.607 - 0.31129 * temperature - 0.0018948 * temperature\<^sup>2
               + 4.7546 * pressure - 0.11307 * pressure\<^sup>2);
         C = setitem C 3 3 (29.7260 - 0.062874 * temperature - 0.00038956 * temperature\<^sup>2
               + 0.5662 * pressure + 0.036917 * pressure\<^sup>2);
         C = setitem C 1 1 (C ! 0 ! 0);
         C = setitem C 1 0 (C ! 0 ! 1);
         C = setitem C 2 0 (C ! 0 ! 2);
         C = setitem C 1 2 (C ! 0 ! 2);
         C = setitem C 2 1 (C ! 0 ! 2);
         C = setitem C 4 4 (C ! 3 ! 3);
         C = setitem C 5 5 ((C ! 0 ! 0 - C ! 0 ! 1) / 2)
     in map (map (\<lambda>x. x * 10 ^ 8)) C)"

subsection \<open>Conductivity of snow and ice\<close>

text \<open>
  \<open>snow_conductivity(lwc=None, permittivity=None, frequency=None)\<close>. With a complex
  array the conductivity is \<open>np.eye(3,3) * (permittivity.imag * frequency * eps0)\<close>;
  a frequency left at \<open>None\<close> cannot be multiplied (\<open>TypeError\<close>). In every other case
  the body reads the names \<open>temperature\<close>, \<open>density\<close> and \<open>porosity\<close>, which are
  neither parameters nor module globals: evaluating the first of them raises
  \<open>NameError\<close> before \<open>porewater_correction\<close> is entered.
\<close>

definition snow_conductivity ::
    "real option \<Rightarrow> ndarray option \<Rightarrow> real option \<Rightarrow> error + real list list" where
  "snow_conductivity lwc permittivity frequency =
    (case permittivity of
       Some (ComplexArray P) \<Rightarrow>
         (case frequency of
            None \<Rightarrow> Inl TypeError
          | Some f \<Rightarrow> eye3_times (map (map (\<lambda>z. Im z * f * eps0)) P))
     | _ \<Rightarrow> Inl NameError)"

subsection \<open>High-frequency stability conditions\<close>

text \<open>
  \<open>highfreq_stability_conditions(T)\<close> returns the three values and prints a line for
  each one that is positive; the printed lines are the second component. The entries
  read are \<open>T[0,0]\<close>, \<open>T[0,1]\<close>, \<open>T[1,1]\<close> and \<open>T[2,2]\<close>, so an array with fewer
  than three rows or columns raises \<open>IndexError\<close>.
\<close>

definition highfreq_stability_conditions ::
    "real list list \<Rightarrow> error + ((real \<times> real \<times> real) \<times> string list)" where
  "highfreq_stability_conditions T =
    (case shape T of (r, c) \<Rightarrow>
       if r < 3 \<or> c < 3 then Inl IndexError
       else
         let cond1 = ((T ! 0 ! 1 + T ! 2 ! 2)\<^sup>2 - T ! 0 ! 0 * (T ! 1 ! 1 - T ! 2 ! 2))
                     * ((T ! 0 ! 1 + T ! 2 ! 2)\<^sup>2 + T ! 2 ! 2 * (T ! 1 ! 1 - T ! 2 ! 2));
             cond2 = (T ! 0 ! 1 + 2 * T ! 2 ! 2)\<^sup>2 - T ! 0 ! 0 * T ! 1 ! 1;
             cond3 = (T ! 0 ! 1 + T ! 2 ! 2)\<^sup>2 - T ! 0 ! 0 * T ! 2 ! 2 - (T ! 2 ! 2)\<^sup>2
         in Inr ((cond1, cond2, cond3),
                 (if cond1 > 0 then [''Failed to pass high frequency stability condition 1.''] else [])
               @ (if cond2 > 0 then [''Failed to pass high frequency stability condition 2.''] else [])
               @ (if cond3 > 0 then [''Failed to pass high frequency stability condition 3.''] else [])))"

subsection \<open>Sequencing, indexing and rounding\<close>

text \<open>An exception ends the computation: \<open>bind_err\<close> passes the first error on.\<close>

definition bind_err :: "error + 'a \<Rightarrow> ('a \<Rightarrow> error + 'b) \<Rightarrow> error + 'b" where
  "bind_err x f = (case x of Inl e \<Rightarrow> Inl e | Inr v \<Rightarrow> f v)"

text \<open>\<open>xs[i]\<close> for \<open>i \<ge> 0\<close>.\<close>

definition getitem :: "'a list \<Rightarrow> nat \<Rightarrow> error + 'a" where
  "getitem xs i = (if i < length xs then Inr (xs ! i) else Inl IndexError)"

text \<open>
  \<open>np.round\<close> rounds to the nearest integer and a tie to the even one;
  \<open>np.round(x, 3)\<close> does the same at the third decimal.
\<close>

definition np_round :: "real \<Rightarrow> real" where
  "np_round x =
     (let f = \<lfloor>x\<rfloor>;
          d = x - of_int f
      in of_int (if d < 1 / 2 then f else if d > 1 / 2 then f + 1
                 else if even f then f else f + 1))"

definition np_round3 :: "real \<Rightarrow> real" where
  "np_round3 x = np_round (x * 10 ^ 3) / 10 ^ 3"

subsection \<open>Linear algebra\<close>

text \<open>
  The arrays multiplied, transposed and inverted below are square, 6 by 6 or 3 by 3, by
  construction; \<open>mat n A\<close> says that \<open>A\<close> has \<open>n\<close> rows of \<open>n\<close> entries.
  \<open>matmul\<close> is \<open>np.matmul\<close>, \<open>mat_T\<close> is \<open>A.T\<close>, \<open>mat_add\<close> and
  \<open>mat_div\<close> are the elementwise \<open>A + B\<close> and \<open>A / p\<close>.
\<close>

definition mat :: "nat \<Rightarrow> 'a list list \<Rightarrow> bool" where
  "mat n A \<longleftrightarrow> length A = n \<and> list_all (\<lambda>r. length r = n) A"

definition matmul :: "real list list \<Rightarrow> real list list \<Rightarrow> real list list" where
  "matmul A B =
     map (\<lambda>row. map (\<lambda>j. sum_list (map (\<lambda>k. row ! k * B ! k ! j) [0..<length B]))
                    [0..<snd (shape B)]) A"

definition mat_T :: "'a list list \<Rightarrow> 'a list list" where
  "mat_T A = map (\<lambda>j. map (\<lambda>row. row ! j) A) [0..<snd (shape A)]"

definition mat_add :: "real list list \<Rightarrow> real list list \<Rightarrow> real list list" where
  "mat_add A B = map2 (map2 (+)) A B"

definition mat_div :: "real list list \<Rightarrow> real \<Rightarrow> real list list" where
  "mat_div A p = map (map (\<lambda>x. x / p)) A"

text \<open>
  \<open>np.linalg.inv\<close> is LAPACK's: it returns the inverse of a square array and raises
  \<open>LinAlgError\<close> for an array that is not square or is singular. Over the real
  numbers the inverse is unique, so the model may compute it by any exact method; it
  uses Gauss-Jordan elimination on the pair (A, identity), taking in each column the
  first row at or below the diagonal with a non-zero entry as the pivot.
  \<open>elim_step k p A X\<close> applies to \<open>X\<close> the row operations that clear column
  \<open>k\<close> of \<open>A\<close> with the pivot row \<open>p\<close>: the rows \<open>k\<close> and \<open>p\<close> are
  exchanged, the new row \<open>k\<close> is divided by the pivot, and its multiples are taken off
  the other rows. Lemmas \<open>linalg_inv_sound\<close> and \<open>linalg_inv_complete\<close> below show that
  the result is the two-sided inverse exactly when one exists. This is the inverse of
  the idealisation to real numbers: in floating point LAPACK raises only when its
  factorisation meets a pivot that is exactly zero, and for a nearly singular array it
  returns an inverse with huge entries where the exact arithmetic of the model finds a
  singular array. The arrays the two pipelines invert (the tensor of ice, diagonal
  tensors with positive entries, rotations and their Bond matrices) are far from
  singular.
\<close>

definition find_pivot :: "real list list \<Rightarrow> nat \<Rightarrow> nat option" where
  "find_pivot A k = List.find (\<lambda>p. A ! p ! k \<noteq> 0) [k..<length A]"

definition elim_step :: "nat \<Rightarrow> nat \<Rightarrow> real list list \<Rightarrow> real list list \<Rightarrow> real list list" where
  "elim_step k p A X =
     (let piv = A ! p ! k;
          pivot_row = map (\<lambda>x. x / piv) (X ! p)
      in map (\<lambda>i. if i = k then pivot_row
                  else let s = (if i = p then k else i)
                       in map2 (\<lambda>x y. x - A ! s ! k * y) (X ! s) pivot_row)
           [0..<length X])"

primrec gauss_jordan ::
    "nat list \<Rightarrow> real list list \<times> real list list \<Rightarrow> (real list list \<times> real list list) option" where
  "gauss_jordan [] AB = Some AB"
| "gauss_jordan (k # ks) AB =
     (case find_pivot (fst AB) k of
        None \<Rightarrow> None
      | Some p \<Rightarrow>
          gauss_jordan ks (elim_step k p (fst AB) (fst AB), elim_step k p (fst AB) (snd AB)))"

definition linalg_inv :: "real list list \<Rightarrow> error + real list list" where
  "linalg_inv A =
     (if \<not> mat (length A) A then Inl LinAlgError
      else case gauss_jordan [0..<length A] (A, eye (length A)) of
             None \<Rightarrow> Inl LinAlgError
           | Some AB \<Rightarrow> Inr (snd AB))"

text \<open>
  Three notions used only to prove the elimination correct: the row operation that
  undoes \<open>elim_step\<close>, the columns already reduced to those of the identity, and the
  invariant of the elimination (the right half times the input is the left half, and
  the operations done so far can be undone).
\<close>

definition unelim_step :: "nat \<Rightarrow> nat \<Rightarrow> real list list \<Rightarrow> real list list \<Rightarrow> real list list" where
  "unelim_step k p A Y =
     map (\<lambda>s. if s = p then map (\<lambda>y. A ! p ! k * y) (Y ! k)
               else map2 (\<lambda>x y. x + A ! s ! k * y) (Y ! (if s = k then p else s)) (Y ! k))
       [0..<length Y]"

definition reduced :: "nat \<Rightarrow> nat \<Rightarrow> real list list \<Rightarrow> bool" where
  "reduced k n A \<longleftrightarrow> (\<forall>j<k. \<forall>i<n. A ! i ! j = (if i = j then 1 else 0))"

definition row_equiv :: "nat \<Rightarrow> real list list \<Rightarrow> real list list \<Rightarrow> real list list \<Rightarrow> bool" where
  "row_equiv n A0 A B \<longleftrightarrow>
     mat n A \<and> mat n B \<and> matmul B A0 = A \<and>
     (\<exists>U. (\<forall>X. mat n X \<longrightarrow> mat n (U X))
        \<and> (\<forall>X Y. mat n X \<longrightarrow> mat n Y \<longrightarrow> U (matmul X Y) = matmul (U X) Y)
        \<and> U A = A0 \<and> U B = eye n)"

text \<open>
  A tensor is symmetric when it is square and \<open>T[i,j] = T[j,i]\<close> for all indices.
\<close>

definition symmetric :: "'a list list \<Rightarrow> bool" where
  "symmetric T \<longleftrightarrow>
     mat (length T) T
     \<and> list_all (\<lambda>i. list_all (\<lambda>j. T ! i ! j = T ! j ! i) [0..<length T]) [0..<length T]"

subsection \<open>Orientation files\<close>

text \<open>
  \<open>read_ang(filepath)\<close> loads the file with
  \<open>pd.read_table(filepath, delimiter = " ").to_numpy()\<close>. Reading and parsing are
  pandas'; the model starts from the array they yield, a rectangular table of cells that
  hold a number or NaN (pandas pads short rows with NaN), and takes the file system
  as a map from paths to these tables. \<open>read_ang_array\<close> is the rest of the body: the
  table is cut to the columns \<open>0:3\<close> when it has more than 3 rows
  (\<open>euler.shape[0] > 3\<close>), flattened, freed from NaN and reshaped to \<open>m\<close> rows of
  \<open>int(len(euler)/m)\<close> columns. A table without rows comes from pandas as an
  array of dtype object, on which \<open>np.isnan\<close> raises \<open>TypeError\<close> before the
  division by \<open>m = 0\<close> is reached; \<open>reshape\<close> raises \<open>ValueError\<close> when the
  sizes differ.
\<close>

datatype cell = Num real | NaN

fun reshape :: "nat \<Rightarrow> nat \<Rightarrow> 'a list \<Rightarrow> 'a list list" where
  "reshape 0 k xs = []"
| "reshape (Suc m) k xs = take k xs # reshape m k (drop k xs)"

definition not_nan :: "cell list \<Rightarrow> real list" where
  "not_nan xs = concat (map (\<lambda>c. case c of Num x \<Rightarrow> [x] | NaN \<Rightarrow> []) xs)"

definition read_ang_array :: "cell list list \<Rightarrow> error + real list list" where
  "read_ang_array table =
     (let euler = (if fst (shape table) > 3 then map (slice 0 3) table else table);
          m = fst (shape euler);
          euler = not_nan (concat euler)
      in if m = 0 then Inl TypeError
         else if m * (length euler div m) \<noteq> length euler then Inl ValueError
         else Inr (reshape m (length euler div m) euler))"

definition read_ang :: "(string \<Rightarrow> cell list list option) \<Rightarrow> string \<Rightarrow> error + real list list" where
  "read_ang files filepath =
     (case files filepath of
        None \<Rightarrow> Inl FileNotFoundError
      | Some table \<Rightarrow> read_ang_array table)"

subsection \<open>Rotations\<close>

text \<open>
  \<open>rotator_zxz(eul)\<close> reads \<open>eul[0]\<close>, \<open>eul[1]\<close> and \<open>eul[2]\<close>
  (\<open>IndexError\<close> on a shorter row) and returns \<open>D C B\<close>; \<open>bond(R)\<close> is the 6 by 6
  Bond matrix of a 3 by 3 rotation.
\<close>

definition rotator_zxz :: "real list \<Rightarrow> error + real list list" where
  "rotator_zxz eul =
     (if length eul < 3 then Inl IndexError
      else
        let D = [[cos (eul ! 0), - sin (eul ! 0), 0],
                 [sin (eul ! 0), cos (eul ! 0), 0],
                 [0, 0, 1]];
            C = [[1, 0, 0],
                 [0, cos (eul ! 1), - sin (eul ! 1)],
                 [0, sin (eul ! 1), cos (eul ! 1)]];
            B = [[cos (eul ! 2), - sin (eul ! 2), 0],
                 [sin (eul ! 2), cos (eul ! 2), 0],
                 [0, 0, 1]]
        in Inr (matmul D (matmul C B)))"

definition bond :: "real list list \<Rightarrow> real list list" where
  "bond R =
     [[(R ! 0 ! 0)\<^sup>2, (R ! 0 ! 1)\<^sup>2, (R ! 0 ! 2)\<^sup>2,
       2 * R ! 0 ! 1 * R ! 0 ! 2, 2 * R ! 0 ! 2 * R ! 0 ! 0, 2 * R ! 0 ! 0 * R ! 0 ! 1],
      [(R ! 1 ! 0)\<^sup>2, (R ! 1 ! 1)\<^sup>2, (R ! 1 ! 2)\<^sup>2,
       2 * R ! 1 ! 1 * R ! 1 ! 2, 2 * R ! 1 ! 2 * R ! 1 ! 0, 2 * R ! 1 ! 0 * R ! 1 ! 1],
      [(R ! 2 ! 0)\<^sup>2, (R ! 2 ! 1)\<^sup>2, (R ! 2 ! 2)\<^sup>2,
       2 * R ! 2 ! 1 * R ! 2 ! 2, 2 * R ! 2 ! 2 * R ! 2 ! 0, 2 * R ! 2 ! 0 * R ! 2 ! 1],
      [R ! 1 ! 0 * R ! 2 ! 0, R ! 1 ! 1 * R ! 2 ! 1, R ! 1 ! 2 * R ! 2 ! 2,
       R ! 1 ! 1 * R ! 2 ! 2 + R ! 1 ! 2 * R ! 2 ! 1,
       R ! 1 ! 2 * R ! 2 ! 0 + R ! 1 ! 0 * R ! 2 ! 2,
       R ! 1 ! 0 * R ! 2 ! 1 + R ! 1 ! 1 * R ! 2 ! 0],
      [R ! 2 ! 0 * R ! 0 ! 0, R ! 2 ! 1 * R ! 0 ! 1, R ! 2 ! 2 * R ! 0 ! 2,
       R ! 2 ! 1 * R ! 0 ! 2 + R ! 2 ! 2 * R ! 0 ! 1,
       R ! 2 ! 2 * R ! 0 ! 0 + R ! 2 ! 0 * R ! 0 ! 2,
       R ! 2 ! 0 * R ! 0 ! 1 + R ! 2 ! 1 * R ! 0 ! 0],
      [R ! 0 ! 0 * R ! 1 ! 0, R ! 0 ! 1 * R ! 1 ! 1, R ! 0 ! 2 * R ! 1 ! 2,
       R ! 0 ! 1 * R ! 1 ! 2 + R ! 0 ! 2 * R ! 1 ! 1,
       R ! 0 ! 2 * R ! 1 ! 0 + R ! 0 ! 0 * R ! 1 ! 2,
       R ! 0 ! 0 * R ! 1 ! 1 + R ! 0 ! 1 * R ! 1 ! 0]]"

subsection \<open>Voigt, Reuss and Hill averages\<close>

text \<open>
  The homogenization of \<open>get_seismic\<close> (the anisotropic branch, from
  \<open>p = len(euler[:,0])\<close> to the Hill average), for the single-crystal tensor \<open>C\<close>
  and the array \<open>euler\<close> of \<open>read_ang\<close>. \<open>stiffness_loop\<close> is the loop over the
  orientations with its two accumulators. The result is the triple (Voigt average,
  Reuss average, Hill average); \<open>get_seismic\<close> keeps the last. \<open>euler[:,0]\<close> raises
  \<open>IndexError\<close> on an array without columns. An array without rows, which
  \<open>read_ang\<close> never returns, would make numpy divide 0 by 0 into NaN: the model marks
  it \<open>NaNResult\<close>, which is no exception of the source.
\<close>

fun stiffness_loop ::
    "real list list \<Rightarrow> real list list \<Rightarrow> real list list
       \<Rightarrow> real list list \<times> real list list \<Rightarrow> error + (real list list \<times> real list list)" where
  "stiffness_loop C S [] (cvoigt, creuss) = Inr (cvoigt, creuss)"
| "stiffness_loop C S (eul # euler) (cvoigt, creuss) =
     bind_err (rotator_zxz eul) (\<lambda>R.
       let M = bond R in
       bind_err (linalg_inv M) (\<lambda>N.
         stiffness_loop C S euler
           (mat_add cvoigt (matmul M (matmul C (mat_T M))),
            mat_add creuss (matmul N (matmul S (mat_T N))))))"

definition voigt_reuss_hill ::
    "real list list \<Rightarrow> real list list
       \<Rightarrow> error + (real list list \<times> real list list \<times> real list list)" where
  "voigt_reuss_hill C euler =
     (if euler = [] then Inl NaNResult
      else if snd (shape euler) = 0 then Inl IndexError
      else
        let p = real (length euler) in
        bind_err (linalg_inv C) (\<lambda>S.
        bind_err (stiffness_loop C S euler (zeros 6 6, zeros 6 6)) (\<lambda>(cvoigt, creuss).
          let cvoigt = mat_div cvoigt p;
              creuss = mat_div creuss p
          in bind_err (linalg_inv creuss) (\<lambda>creuss.
               Inr (cvoigt, creuss, mat_div (mat_add cvoigt creuss) 2)))))"

text \<open>
  The homogenization of \<open>get_perm\<close>, for the real permittivity and conductivity
  tensors: the rotation itself transforms the tensors, and the loop carries four
  accumulators.
\<close>

fun dielectric_loop ::
    "real list list \<Rightarrow> real list list \<Rightarrow> real list list \<Rightarrow> real list list \<Rightarrow> real list list
       \<Rightarrow> (real list list \<times> real list list \<times> real list list \<times> real list list)
       \<Rightarrow> error + (real list list \<times> real list list \<times> real list list \<times> real list list)" where
  "dielectric_loop permittivity conductivity Sp Sc [] (pvoigt, cvoigt, preuss, creuss) =
     Inr (pvoigt, cvoigt, preuss, creuss)"
| "dielectric_loop permittivity conductivity Sp Sc (eul # euler) (pvoigt, cvoigt, preuss, creuss) =
     bind_err (rotator_zxz eul) (\<lambda>R.
       bind_err (linalg_inv R) (\<lambda>Ri.
         dielectric_loop permittivity conductivity Sp Sc euler
           (mat_add pvoigt (matmul R (matmul permittivity (mat_T R))),
            mat_add cvoigt (matmul R (matmul conductivity (mat_T R))),
            mat_add preuss (matmul Ri (matmul Sp (mat_T Ri))),
            mat_add creuss (matmul Ri (matmul Sc (mat_T Ri))))))"

record hill_dielectric =
  voigt_permittivity :: "real list list"
  reuss_permittivity :: "real list list"
  hill_permittivity :: "real list list"
  voigt_conductivity :: "real list list"
  reuss_conductivity :: "real list list"
  hill_conductivity :: "real list list"

definition voigt_reuss_hill_dielectric ::
    "real list list \<Rightarrow> real list list \<Rightarrow> real list list \<Rightarrow> error + hill_dielectric" where
  "voigt_reuss_hill_dielectric permittivity conductivity euler =
     (if euler = [] then Inl NaNResult
      else if snd (shape euler) = 0 then Inl IndexError
      else
        let p = real (length euler) in
        bind_err (linalg_inv permittivity) (\<lambda>Sp.
        bind_err (linalg_inv conductivity) (\<lambda>Sc.
        bind_err (dielectric_loop permittivity conductivity Sp Sc euler
                    (zeros 3 3, zeros 3 3, zeros 3 3, zeros 3 3)) (\<lambda>(pv, cv, pr, cr).
          let pv = mat_div pv p;
              cv = mat_div cv p;
              pr = mat_div pr p;
              cr = mat_div cr p
          in bind_err (linalg_inv pr) (\<lambda>pr.
             bind_err (linalg_inv cr) (\<lambda>cr.
               Inr \<lparr>voigt_permittivity = pv, reuss_permittivity = pr,
                    hill_permittivity = mat_div (mat_add pv pr) 2,
                    voigt_conductivity = cv, reuss_conductivity = cr,
                    hill_conductivity = mat_div (mat_add cv cr) 2\<rparr>))))))"

subsection \<open>Porewater correction\<close>

text \<open>
  The parameters are Python floats, for which a division by zero raises
  \<open>ZeroDivisionError\<close>. \<open>rho_water_correction()\<close> without an argument is the value
  at temperature 0.
\<close>

definition rho_water_correction :: "real \<Rightarrow> error + real" where
  "rho_water_correction temperature =
     (if 1 + 16.897850 / 10 ^ 3 * temperature = 0 then Inl ZeroDivisionError
      else Inr ((999.83952 + 16.945176 * temperature
                 - 7.9870401 / 10 ^ 3 * temperature\<^sup>2
                 - 46.170461 / 10 ^ 6 * temperature ^ 3
                 + 105.56302 / 10 ^ 9 * temperature ^ 4
                 - 280.54253 / 10 ^ 12 * temperature ^ 5)
                / (1 + 16.897850 / 10 ^ 3 * temperature)))"

definition porewater_correction ::
    "real \<Rightarrow> real \<Rightarrow> real \<Rightarrow> real \<Rightarrow> error + (real \<times> real \<times> real)" where
  "porewater_correction temperature density porosity liquid_water_content =
     (if 8.2057338 / 10 ^ 5 * (273 + temperature) = 0 then Inl ZeroDivisionError
      else
        let rho_air = 0.02897 / (8.2057338 / 10 ^ 5 * (273 + temperature)) in
        bind_err (rho_water_correction temperature) (\<lambda>rho_water.
          let rho_water = max rho_water 950 in
          bind_err (rho_water_correction 0) (\<lambda>rho_water_0.
            let rho_water = min rho_water rho_water_0;
                grams_air = (1 - liquid_water_content / 100) * rho_air;
                grams_water = (liquid_water_content / 100) * rho_water;
                rho_wc = grams_air + grams_water;
                density = (1 - porosity / 100) * density + (porosity / 100) * rho_wc
            in Inr (density, grams_air, grams_water))))"

subsection \<open>Permittivity of ice and snow\<close>

text \<open>
  \<open>A_interp\<close>, \<open>B_interp\<close> and \<open>C_interp\<close> are scipy's cubic interpolations of
  the tabulated coefficients; the model takes the three functions as parameters.
  \<open>fujita_complex_permittivity\<close> is \<open>A/f + B f\<^sup>C\<close> for the frequency \<open>f\<close> in
  GHz. For \<open>f \<le> 0\<close> the numpy arithmetic yields an infinity or NaN (a finite power
  only for a negative base with an integer exponent, which the model leaves out as
  well): the model marks it \<open>NaNResult\<close>.
\<close>

record fujita_tables =
  A_interp :: "real \<Rightarrow> real"
  B_interp :: "real \<Rightarrow> real"
  C_interp :: "real \<Rightarrow> real"

definition fujita_complex_permittivity :: "fujita_tables \<Rightarrow> real \<Rightarrow> real \<Rightarrow> error + real" where
  "fujita_complex_permittivity tables temperature frequency =
     (let temperature = temperature + 273;
          frequency = frequency / 10 ^ 9;
          A_val = A_interp tables temperature;
          B_val = B_interp tables temperature;
          C_val = C_interp tables temperature
      in if frequency \<le> 0 then Inl NaNResult
         else Inr (A_val / frequency + B_val * (frequency powr C_val)))"

text \<open>
  \<open>ice_permittivity(temperature, density, center_frequency, method)\<close>: a real array
  for the method \<open>kovacs\<close>, a complex one otherwise; only the method \<open>fujita\<close> adds
  \<open>dP\<close> to the entry \<open>[2,2]\<close>.
\<close>

definition ice_permittivity ::
    "fujita_tables \<Rightarrow> real \<Rightarrow> real \<Rightarrow> real \<Rightarrow> string \<Rightarrow> error + ndarray" where
  "ice_permittivity tables temperature density center_frequency method =
     (if method = ''kovacs'' then
        (let perm = (1 + 0.845 * density)\<^sup>2
         in Inr (RealArray (eye3_scaled perm)))
      else
        (let perm = 3.1884 + 9.1 / 10 ^ 4 * temperature;
             dP = 0.0256 + 3.57 / 10 ^ 5 * (6 / 10 ^ 6) * temperature
         in bind_err (fujita_complex_permittivity tables temperature center_frequency)
              (\<lambda>complex_perm.
                 let perm = Complex perm complex_perm;
                     permittivity = eye3_scaled perm
                 in Inr (ComplexArray
                      (if method = ''fujita''
                       then setitem permittivity 2 2 (perm + complex_of_real dP)
                       else permittivity)))))"

text \<open>\<open>P.imag\<close> and \<open>P.real\<close> of an array, and \<open>.mean()\<close> of a vector.\<close>

definition imag :: "ndarray \<Rightarrow> real list list" where
  "imag P = (case P of RealArray A \<Rightarrow> map (map (\<lambda>x. 0)) A
                     | ComplexArray A \<Rightarrow> map (map Im) A)"

definition real_part :: "ndarray \<Rightarrow> real list list" where
  "real_part P = (case P of RealArray A \<Rightarrow> A | ComplexArray A \<Rightarrow> map (map Re) A)"

definition mean :: "real list \<Rightarrow> real" where
  "mean xs = sum_list xs / real (length xs)"

text \<open>
  \<open>snow_permittivity(density, temperature, lwc, porosity, center_frequency, method)\<close>
  returns the complex tensor and the corrected density in g/cm3. The last method
  (Liebe) divides by the temperature in Kelvin.
\<close>

definition snow_permittivity ::
    "fujita_tables \<Rightarrow> real \<Rightarrow> real \<Rightarrow> real \<Rightarrow> real \<Rightarrow> real \<Rightarrow> string
       \<Rightarrow> error + (complex list list \<times> real)" where
  "snow_permittivity tables density temperature lwc porosity center_frequency method =
     bind_err (porewater_correction temperature density porosity lwc)
       (\<lambda>(rho_d, grams_air, grams_water).
          let lwc = grams_water / 1000;
              rho_d = rho_d / 1000;
              T = temperature + 273.15
          in bind_err
               (if method = ''shivola-tiuri'' then
                  Inr (8.8 * lwc + 70.4 * lwc\<^sup>2 + 1 + 1.17 * rho_d + 0.7 * rho_d\<^sup>2)
                else if method = ''wise'' then
                  Inr (1 + 1.202 * rho_d + 0.983 * rho_d\<^sup>2 + 21.3 * lwc)
                else if method = ''jones'' then
                  Inr (78.51 * (1 - 4.579 * (1 / 10 ^ 3) * (T - 298)
                                 + 1.19 * (1 / 10 ^ 5) * (T - 298)\<^sup>2
                                 - 2.8 * (1 / 10 ^ 8) * (T - 298) ^ 3))
                else if T = 0 then Inl ZeroDivisionError
                else Inr (77.66 - 103.3 * (1 - 300 / T)))
               (\<lambda>perm.
                  bind_err
                    (if lwc > 0 then Inr (0.8 * lwc + 0.72 * lwc\<^sup>2)
                     else bind_err (ice_permittivity tables temperature 917 center_frequency ''fujita'')
                            (\<lambda>P. let eps_i = mean (diagonal (imag P))
                                  in Inr (eps_i * (0.52 * rho_d + 0.62 * rho_d\<^sup>2))))
                    (\<lambda>complex_permittivity.
                       Inr (eye3_scaled (Complex perm complex_permittivity), rho_d))))"

subsection \<open>The records of get_seismic and get_perm\<close>

text \<open>
  The \<open>Material\<close> object holds one array per attribute, indexed by the material.
  \<open>get_seismic\<close> computes for each index the corrected density and the stiffness
  tensor, rounds the tensor with \<open>np.round\<close> and stores the 21 upper-triangular
  entries and the density as row \<open>ind\<close> of \<open>self.stiffness_coefficients\<close>, here a
  map from the row label to the row. The lines printed on the way (the stability
  conditions, positive definiteness) do not change the records and are left out; the
  call of \<open>highfreq_stability_conditions\<close> is kept for its possible exception.
\<close>

record Material =
  material_temp :: "real list"
  material_rho :: "real list"
  material_porosity :: "real list"
  material_lwc :: "real list"
  material_is_anisotropic :: "bool list"
  material_material :: "string list"
  material_angfile :: "string list"

definition seismic_stiffness ::
    "(string \<Rightarrow> cell list list option) \<Rightarrow> Material \<Rightarrow> nat \<Rightarrow> real \<Rightarrow> error + real list list" where
  "seismic_stiffness files material ind density =
     bind_err (getitem (material_is_anisotropic material) ind) (\<lambda>anisotropic.
     bind_err (getitem (material_material material) ind) (\<lambda>name.
       if anisotropic \<and> name = ''ice1h'' then
         bind_err (getitem (material_angfile material) ind) (\<lambda>angfile.
         bind_err (read_ang files angfile) (\<lambda>euler.
         bind_err (getitem (material_temp material) ind) (\<lambda>temperature.
           let pressure = 0.1 * (1 / 10);
               C = ice_stiffness temperature pressure
           in bind_err (voigt_reuss_hill C euler) (\<lambda>(cvoigt, creuss, C). Inr C))))
       else if \<not> anisotropic \<and> name = ''ice1h'' then
         bind_err (getitem (material_temp material) ind) (\<lambda>temperature.
           Inr (ice_stiffness temperature 0.1))
       else
         (case isotropic_materials name of
            None \<Rightarrow> Inl KeyError
          | Some material_limits \<Rightarrow> isotropic_stiffness_tensor 0.1 density material_limits)))"

definition seismic_row ::
    "(string \<Rightarrow> cell list list option) \<Rightarrow> Material \<Rightarrow> nat \<Rightarrow> error + real list" where
  "seismic_row files material ind =
     bind_err (getitem (material_temp material) ind) (\<lambda>temperature.
     bind_err (getitem (material_rho material) ind) (\<lambda>rho.
     bind_err (getitem (material_porosity material) ind) (\<lambda>porosity.
     bind_err (getitem (material_lwc material) ind) (\<lambda>lwc.
     bind_err (porewater_correction temperature rho porosity lwc) (\<lambda>(density, grams_air, grams_water).
     bind_err (seismic_stiffness files material ind density) (\<lambda>C.
     bind_err (highfreq_stability_conditions C) (\<lambda>conds.
       let C = map (map np_round) C
       in Inr [C ! 0 ! 0, C ! 0 ! 1, C ! 0 ! 2, C ! 0 ! 3, C ! 0 ! 4, C ! 0 ! 5,
               C ! 1 ! 1, C ! 1 ! 2, C ! 1 ! 3, C ! 1 ! 4, C ! 1 ! 5,
               C ! 2 ! 2, C ! 2 ! 3, C ! 2 ! 4, C ! 2 ! 5,
               C ! 3 ! 3, C ! 3 ! 4, C ! 3 ! 5,
               C ! 4 ! 4, C ! 4 ! 5,
               C ! 5 ! 5,
               density])))))))"

fun get_seismic_loop ::
    "(string \<Rightarrow> cell list list option) \<Rightarrow> Material \<Rightarrow> nat list
       \<Rightarrow> (nat \<Rightarrow> real list option) \<Rightarrow> error + (nat \<Rightarrow> real list option)" where
  "get_seismic_loop files material [] stiffness_coefficients = Inr stiffness_coefficients"
| "get_seismic_loop files material (ind # inds) stiffness_coefficients =
     bind_err (seismic_row files material ind) (\<lambda>row.
       get_seismic_loop files material inds (stiffness_coefficients(ind \<mapsto> row)))"

definition get_seismic ::
    "(string \<Rightarrow> cell list list option) \<Rightarrow> (nat \<Rightarrow> real list option) \<Rightarrow> Material
       \<Rightarrow> error + (nat \<Rightarrow> real list option)" where
  "get_seismic files stiffness_coefficients material =
     get_seismic_loop files material [0..<length (material_temp material)] stiffness_coefficients"

text \<open>
  \<open>get_perm\<close>: the tensors of one material before the homogenization
  (\<open>dielectric_tensors\<close>, the real parts of what the three branches compute at the
  centre frequency \<open>self.f0\<close>), and the two rows of six entries it stores.
\<close>

definition dielectric_tensors ::
    "fujita_tables \<Rightarrow> real \<Rightarrow> Material \<Rightarrow> nat \<Rightarrow> error + (real list list \<times> real list list)" where
  "dielectric_tensors tables f0 material ind =
     bind_err (getitem (material_material material) ind) (\<lambda>name.
       if name = ''ice1h'' then
         bind_err (getitem (material_temp material) ind) (\<lambda>temperature.
         bind_err (getitem (material_rho material) ind) (\<lambda>rho.
         bind_err (ice_permittivity tables temperature rho f0 ''fujita'') (\<lambda>permittivity.
         bind_err (snow_conductivity None (Some permittivity) (Some f0)) (\<lambda>conductivity.
           Inr (real_part permittivity, conductivity)))))
       else if name = ''snow'' then
         bind_err (getitem (material_temp material) ind) (\<lambda>temperature.
         bind_err (getitem (material_lwc material) ind) (\<lambda>lwc.
         bind_err (getitem (material_porosity material) ind) (\<lambda>porosity.
         bind_err (snow_permittivity tables 917 temperature lwc porosity f0 ''shivola-tiuri'')
           (\<lambda>(permittivity, rho_d).
         bind_err (snow_conductivity None (Some (ComplexArray permittivity)) (Some f0))
           (\<lambda>conductivity.
           Inr (real_part (ComplexArray permittivity), conductivity))))))
       else
         bind_err (getitem (material_temp material) ind) (\<lambda>temperature.
         bind_err (getitem (material_porosity material) ind) (\<lambda>porosity.
         bind_err (getitem (material_lwc material) ind) (\<lambda>lwc.
         bind_err (isotropic_permittivity_tensor temperature porosity lwc name)
           (\<lambda>(permittivity, c).
         bind_err (isotropic_permittivity_tensor temperature porosity lwc name)
           (\<lambda>(p, conductivity).
           Inr (map (map np_round3) permittivity, conductivity)))))))"

definition perm_rows ::
    "(string \<Rightarrow> cell list list option) \<Rightarrow> fujita_tables \<Rightarrow> real \<Rightarrow> Material \<Rightarrow> nat
       \<Rightarrow> error + (real list \<times> real list)" where
  "perm_rows files tables f0 material ind =
     bind_err (dielectric_tensors tables f0 material ind) (\<lambda>(permittivity, conductivity).
     bind_err (getitem (material_is_anisotropic material) ind) (\<lambda>anisotropic.
     bind_err
       (if anisotropic then
          bind_err (getitem (material_angfile material) ind) (\<lambda>angfile.
          bind_err (read_ang files angfile) (\<lambda>euler.
          bind_err (voigt_reuss_hill_dielectric permittivity conductivity euler) (\<lambda>r.
            Inr (hill_permittivity r, hill_conductivity r))))
        else Inr (permittivity, conductivity))
       (\<lambda>(permittivity, conductivity).
          Inr ([permittivity ! 0 ! 0, permittivity ! 0 ! 1, permittivity ! 0 ! 2,
                permittivity ! 1 ! 1, permittivity ! 1 ! 2,
                permittivity ! 2 ! 2],
               [conductivity ! 0 ! 0, conductivity ! 0 ! 1, conductivity ! 0 ! 2,
                conductivity ! 1 ! 1, conductivity ! 1 ! 2,
                conductivity ! 2 ! 2]))))"

fun get_perm_loop ::
    "(string \<Rightarrow> cell list list option) \<Rightarrow> fujita_tables \<Rightarrow> real \<Rightarrow> Material \<Rightarrow> nat list
       \<Rightarrow> (nat \<Rightarrow> real list option) \<times> (nat \<Rightarrow> real list option)
       \<Rightarrow> error + ((nat \<Rightarrow> real list option) \<times> (nat \<Rightarrow> real list option))" where
  "get_perm_loop files tables f0 material [] coefficients = Inr coefficients"
| "get_perm_loop files tables f0 material (ind # inds) coefficients =
     bind_err (perm_rows files tables f0 material ind) (\<lambda>(prow, crow).
       get_perm_loop files tables f0 material inds
         ((fst coefficients)(ind \<mapsto> prow), (snd coefficients)(ind \<mapsto> crow)))"

definition get_perm ::
    "(string \<Rightarrow> cell list list option) \<Rightarrow> fujita_tables \<Rightarrow> real
       \<Rightarrow> (nat \<Rightarrow> real list option) \<times> (nat \<Rightarrow> real list option) \<Rightarrow> Material
       \<Rightarrow> error + ((nat \<Rightarrow> real list option) \<times> (nat \<Rightarrow> real list option))" where
  "get_perm files tables f0 coefficients material =
     get_perm_loop files tables f0 material [0..<length (material_temp material)] coefficients"

section \<open>Evaluation lemmas\<close>

lemma replicate6: "replicate 6 x = [x, x, x, x, x, x]"
  by (simp add: eval_nat_numeral)

lemma zeros66:
  "zeros 6 6 = [[0, 0, 0, 0, 0, 0], [0, 0, 0, 0, 0, 0], [0, 0, 0, 0, 0, 0],
                [0, 0, 0, 0, 0, 0], [0, 0, 0, 0, 0, 0], [0, 0, 0, 0, 0, 0]]"
  by (simp add: zeros_def replicate6)

lemma upt3: "[0..<3] = [0, 1, 2]"
  by (simp add: upt_rec)

lemma upt6: "[0..<6] = [0, 1, 2, 3, 4, 5]"
  by (simp add: upt_rec)

lemma eye3_scaled_rows: "eye3_scaled x = [[x, 0, 0], [0, x, 0], [0, 0, x]]"
  by (simp add: eye3_scaled_def upt3)

lemma slices4:
  assumes "4 \<le> length ml"
  shows "length (slice 0 2 ml) = 2" "length (slice 2 4 ml) = 2"
    "slice 0 2 ml ! 0 = ml ! 0" "slice 0 2 ml ! Suc 0 = ml ! 1"
    "slice 2 4 ml ! 0 = ml ! 2" "slice 2 4 ml ! Suc 0 = ml ! 3"
  using assms by (simp_all add: slice_def)

lemma isotropic_stiffness_tensor_rows:
  assumes "4 \<le> length ml"
  shows "isotropic_stiffness_tensor pressure density ml =
    (let Vp = ml ! 0 + (2 / pi) * (ml ! 1 - ml ! 0) * arctan pressure;
         Vs = ml ! 2 + (2 / pi) * (ml ! 3 - ml ! 2) * arctan pressure;
         mu = density * Vs\<^sup>2;
         lam = density * Vp\<^sup>2 - 2 * mu
     in Inr [[lam + 2 * mu, lam, lam, 0, 0, 0],
             [lam, lam + 2 * mu, lam, 0, 0, 0],
             [lam, lam, lam + 2 * mu, 0, 0, 0],
             [0, 0, 0, mu, 0, 0],
             [0, 0, 0, 0, mu, 0],
             [0, 0, 0, 0, 0, mu]])"
  unfolding isotropic_stiffness_tensor_def
  by (simp add: slices4[OF assms] Let_def zeros66 setblock_def fill_diagonal_def diagonal_def
      setitem_def upt6 add.commute)

lemma granite_limits:
  "isotropic_materials ''granite''
     = Some [4500, 6000, 2500, 3300, 4.8, 18.9, 4 / 10 ^ 5, 2.5 / 10 ^ 4]"
  by (simp add: isotropic_materials_def)

lemma dry_sand_limits:
  "isotropic_materials ''dry_sand''
     = Some [400, 1200, 100, 500, 2.9, 4.7, 1 / 10 ^ 3, 1 / 10 ^ 3]"
  by (simp add: isotropic_materials_def)

lemma dry_sand_with_space_is_no_key: "isotropic_materials ''dry sand'' = None"
  by (simp add: isotropic_materials_def)

lemma highfreq_isotropic_eval:
  "highfreq_stability_conditions
     [[3, 1, 1, 0, 0, 0], [1, 3, 1, 0, 0, 0], [1, 1, 3, 0, 0, 0],
      [0, 0, 0, 1, 0, 0], [0, 0, 0, 0, 1, 0], [0, 0, 0, 0, 0, 1]]
   = Inr ((256, 40, -2),
          [''Failed to pass high frequency stability condition 1.'',
           ''Failed to pass high frequency stability condition 2.''])"
  by (simp add: highfreq_stability_conditions_def shape_def Let_def power2_eq_square)

lemma highfreq_isotropic_2d_eval:
  "highfreq_stability_conditions [[3, 1, 0], [1, 3, 0], [0, 0, 1]] = Inr ((- 12, 0, 0), [])"
  by (simp add: highfreq_stability_conditions_def shape_def Let_def power2_eq_square)

lemma snow_conductivity_complex_eval:
  "snow_conductivity lwc (Some (ComplexArray (eye3_scaled (Complex 3 1)))) (Some (10 ^ 7))
     = Inr (eye3_scaled (1 * 10 ^ 7 * eps0))"
  by (simp add: snow_conductivity_def eye3_times_def shape_def eye3_scaled_rows upt3)

section \<open>Matrix algebra\<close>

lemma sum_list_upt: "sum_list (map f [0..<n]) = (\<Sum>k = 0..<n. f k)"
  by (simp add: interv_sum_list_conv_sum_set_nat)

lemma mat_length: "mat n A \<Longrightarrow> length A = n"
  by (simp add: mat_def)

lemma mat_row_length: "mat n A \<Longrightarrow> i < n \<Longrightarrow> length (A ! i) = n"
  by (simp add: mat_def list_all_length)

lemma shape_mat: "mat n A \<Longrightarrow> shape A = (n, n)"
  by (cases A) (auto simp add: mat_def shape_def)

lemma mat_eqI:
  assumes "mat n A" and "mat n B"
    and "\<And>i j. i < n \<Longrightarrow> j < n \<Longrightarrow> A ! i ! j = B ! i ! j"
  shows "A = B"
proof (rule nth_equalityI)
  show "length A = length B"
    using assms(1,2) by (simp add: mat_length)
next
  fix i assume "i < length A"
  then have i: "i < n" using assms(1) by (simp add: mat_length)
  show "A ! i = B ! i"
  proof (rule nth_equalityI)
    show "length (A ! i) = length (B ! i)"
      using i assms(1,2) by (simp add: mat_row_length)
  next
    fix j assume "j < length (A ! i)"
    then have "j < n" using i assms(1) by (simp add: mat_row_length)
    then show "A ! i ! j = B ! i ! j" using i assms(3) by simp
  qed
qed

lemma mat_map_upt: "mat n (map (\<lambda>i. map (f i) [0..<n]) [0..<n])"
  by (simp add: mat_def list_all_length)

lemma matmul_nth:
  assumes "mat n A" and "mat n B" and "i < n" and "j < n"
  shows "matmul A B ! i ! j = (\<Sum>k = 0..<n. A ! i ! k * B ! k ! j)"
  using assms
  by (simp add: matmul_def shape_mat mat_length sum_list_upt)

lemma mat_matmul:
  assumes "mat n A" and "mat n B"
  shows "mat n (matmul A B)"
  using assms
  by (simp add: matmul_def shape_mat mat_def list_all_length)

lemma eye_nth: "i < n \<Longrightarrow> j < n \<Longrightarrow> eye n ! i ! j = (if i = j then 1 else 0)"
  by (simp add: eye_def)

lemma mat_eye: "mat n (eye n)"
  by (simp add: eye_def mat_def list_all_length)

lemma zeros_nth: "i < n \<Longrightarrow> j < n \<Longrightarrow> zeros n n ! i ! j = 0"
  by (simp add: zeros_def)

lemma mat_zeros: "mat n (zeros n n)"
  by (simp add: zeros_def mat_def list_all_length)

lemma matmul_eye_left:
  assumes "mat n A"
  shows "matmul (eye n) A = A"
proof (rule mat_eqI[OF mat_matmul[OF mat_eye assms] assms])
  fix i j assume ij: "i < n" "j < n"
  have "matmul (eye n) A ! i ! j = (\<Sum>k = 0..<n. (if i = k then 1 else 0) * A ! k ! j)"
    using ij by (simp add: matmul_nth[OF mat_eye assms] eye_nth)
  also have "\<dots> = (\<Sum>k = 0..<n. if k = i then A ! k ! j else 0)"
    by (rule sum.cong) auto
  also have "\<dots> = A ! i ! j"
    using ij by simp
  finally show "matmul (eye n) A ! i ! j = A ! i ! j" .
qed

lemma matmul_eye_right:
  assumes "mat n A"
  shows "matmul A (eye n) = A"
proof (rule mat_eqI[OF mat_matmul[OF assms mat_eye] assms])
  fix i j assume ij: "i < n" "j < n"
  have "matmul A (eye n) ! i ! j = (\<Sum>k = 0..<n. A ! i ! k * (if k = j then 1 else 0))"
    using ij by (simp add: matmul_nth[OF assms mat_eye] eye_nth)
  also have "\<dots> = (\<Sum>k = 0..<n. if k = j then A ! i ! k else 0)"
    by (rule sum.cong) auto
  also have "\<dots> = A ! i ! j"
    using ij by simp
  finally show "matmul A (eye n) ! i ! j = A ! i ! j" .
qed

lemma matmul_assoc:
  assumes "mat n A" and "mat n B" and "mat n C"
  shows "matmul (matmul A B) C = matmul A (matmul B C)"
proof (rule mat_eqI[OF mat_matmul[OF mat_matmul[OF assms(1,2)] assms(3)]
                       mat_matmul[OF assms(1) mat_matmul[OF assms(2,3)]]])
  fix i j assume ij: "i < n" "j < n"
  have "matmul (matmul A B) C ! i ! j
          = (\<Sum>k = 0..<n. (\<Sum>l = 0..<n. A ! i ! l * B ! l ! k) * C ! k ! j)"
    using ij by (simp add: matmul_nth[OF mat_matmul[OF assms(1,2)] assms(3)] matmul_nth[OF assms(1,2)])
  also have "\<dots> = (\<Sum>k = 0..<n. \<Sum>l = 0..<n. A ! i ! l * (B ! l ! k * C ! k ! j))"
    by (simp add: sum_distrib_right mult.assoc)
  also have "\<dots> = (\<Sum>l = 0..<n. \<Sum>k = 0..<n. A ! i ! l * (B ! l ! k * C ! k ! j))"
    by (rule sum.swap)
  also have "\<dots> = (\<Sum>l = 0..<n. A ! i ! l * (\<Sum>k = 0..<n. B ! l ! k * C ! k ! j))"
    by (simp add: sum_distrib_left)
  also have "\<dots> = matmul A (matmul B C) ! i ! j"
    using ij by (simp add: matmul_nth[OF assms(1) mat_matmul[OF assms(2,3)]] matmul_nth[OF assms(2,3)])
  finally show "matmul (matmul A B) C ! i ! j = matmul A (matmul B C) ! i ! j" .
qed

lemma matmul_zeros_right:
  assumes "mat n A"
  shows "matmul A (zeros n n) = zeros n n"
proof (rule mat_eqI[OF mat_matmul[OF assms mat_zeros] mat_zeros])
  fix i j assume ij: "i < n" "j < n"
  show "matmul A (zeros n n) ! i ! j = zeros n n ! i ! j"
    using ij by (simp add: matmul_nth[OF assms mat_zeros] zeros_nth)
qed

lemma mat_T_nth:
  assumes "mat n A" and "i < n" and "j < n"
  shows "mat_T A ! i ! j = A ! j ! i"
  using assms by (simp add: mat_T_def shape_mat mat_length)

lemma mat_mat_T:
  assumes "mat n A"
  shows "mat n (mat_T A)"
  by (simp add: mat_T_def shape_mat[OF assms] mat_length[OF assms] mat_def list_all_length)

lemma mat_T_matmul:
  assumes "mat n A" and "mat n B"
  shows "mat_T (matmul A B) = matmul (mat_T B) (mat_T A)"
proof (rule mat_eqI[OF mat_mat_T[OF mat_matmul[OF assms]]
                       mat_matmul[OF mat_mat_T[OF assms(2)] mat_mat_T[OF assms(1)]]])
  fix i j assume ij: "i < n" "j < n"
  have "matmul (mat_T B) (mat_T A) ! i ! j = (\<Sum>k = 0..<n. mat_T B ! i ! k * mat_T A ! k ! j)"
    using ij by (simp add: matmul_nth[OF mat_mat_T[OF assms(2)] mat_mat_T[OF assms(1)]])
  also have "\<dots> = (\<Sum>k = 0..<n. A ! j ! k * B ! k ! i)"
    using ij by (intro sum.cong) (simp_all add: mat_T_nth[OF assms(1)] mat_T_nth[OF assms(2)])
  finally show "mat_T (matmul A B) ! i ! j = matmul (mat_T B) (mat_T A) ! i ! j"
    using ij by (simp add: mat_T_nth[OF mat_matmul[OF assms]] matmul_nth[OF assms])
qed

lemma mat_T_eye: "mat_T (eye n) = eye n"
  by (rule mat_eqI[OF mat_mat_T[OF mat_eye] mat_eye]) (auto simp add: mat_T_nth[OF mat_eye] eye_nth)

section \<open>Correctness of the inverse\<close>

lemma elim_step_nth:
  assumes "mat n A" and "mat n X" and "k < n" and "p < n" and "i < n" and "j < n"
  shows "elim_step k p A X ! i ! j =
     (if i = k then X ! p ! j / A ! p ! k
      else X ! (if i = p then k else i) ! j
             - A ! (if i = p then k else i) ! k * (X ! p ! j / A ! p ! k))"
  using assms
  by (simp add: elim_step_def Let_def mat_length mat_row_length)

lemma mat_elim_step:
  assumes "mat n A" and "mat n X" and "k < n" and "p < n"
  shows "mat n (elim_step k p A X)"
  using assms
  by (simp add: elim_step_def Let_def mat_def list_all_length)

lemma unelim_step_nth:
  assumes "mat n A" and "mat n Y" and "k < n" and "p < n" and "s < n" and "j < n"
  shows "unelim_step k p A Y ! s ! j =
     (if s = p then A ! p ! k * Y ! k ! j
      else Y ! (if s = k then p else s) ! j + A ! s ! k * Y ! k ! j)"
  using assms
  by (simp add: unelim_step_def mat_length mat_row_length)

lemma mat_unelim_step:
  assumes "mat n A" and "mat n Y" and "k < n" and "p < n"
  shows "mat n (unelim_step k p A Y)"
  using assms
  by (simp add: unelim_step_def mat_def list_all_length)

lemma unelim_elim:
  assumes A: "mat n A" and X: "mat n X" and k: "k < n" and p: "p < n" and piv: "A ! p ! k \<noteq> 0"
  shows "unelim_step k p A (elim_step k p A X) = X"
proof (rule mat_eqI[OF mat_unelim_step[OF A mat_elim_step[OF A X k p] k p] X])
  fix s j assume sj: "s < n" "j < n"
  show "unelim_step k p A (elim_step k p A X) ! s ! j = X ! s ! j"
    using sj k p piv
    by (simp add: unelim_step_nth[OF A mat_elim_step[OF A X k p] k p]
        elim_step_nth[OF A X k p])
qed

lemma elim_matmul:
  assumes A: "mat n A" and X: "mat n X" and Y: "mat n Y" and k: "k < n" and p: "p < n"
  shows "elim_step k p A (matmul X Y) = matmul (elim_step k p A X) Y"
proof (rule mat_eqI[OF mat_elim_step[OF A mat_matmul[OF X Y] k p]
                       mat_matmul[OF mat_elim_step[OF A X k p] Y]])
  fix i j assume ij: "i < n" "j < n"
  have rhs: "matmul (elim_step k p A X) Y ! i ! j
      = (\<Sum>l = 0..<n. (if i = k then X ! p ! l / A ! p ! k
            else X ! (if i = p then k else i) ! l
                 - A ! (if i = p then k else i) ! k * (X ! p ! l / A ! p ! k)) * Y ! l ! j)"
    unfolding matmul_nth[OF mat_elim_step[OF A X k p] Y ij]
    using ij k p by (intro sum.cong) (simp_all add: elim_step_nth[OF A X k p])
  show "elim_step k p A (matmul X Y) ! i ! j = matmul (elim_step k p A X) Y ! i ! j"
  proof (cases "i = k")
    case True
    have "matmul (elim_step k p A X) Y ! i ! j = (\<Sum>l = 0..<n. X ! p ! l * Y ! l ! j / A ! p ! k)"
      unfolding rhs using True by simp
    also have "\<dots> = elim_step k p A (matmul X Y) ! i ! j"
      using True ij k p
      by (simp add: elim_step_nth[OF A mat_matmul[OF X Y] k p] matmul_nth[OF X Y]
          sum_divide_distrib)
    finally show ?thesis by simp
  next
    case False
    define s where "s = (if i = p then k else i)"
    have s: "s < n" using ij k by (simp add: s_def)
    have "matmul (elim_step k p A X) Y ! i ! j
        = (\<Sum>l = 0..<n. X ! s ! l * Y ! l ! j - A ! s ! k * (X ! p ! l * Y ! l ! j / A ! p ! k))"
      using False by (simp add: rhs s_def algebra_simps)
    also have "\<dots> = (\<Sum>l = 0..<n. X ! s ! l * Y ! l ! j)
                     - A ! s ! k * ((\<Sum>l = 0..<n. X ! p ! l * Y ! l ! j) / A ! p ! k)"
      by (simp add: sum_subtractf sum_distrib_left sum_divide_distrib)
    also have "\<dots> = elim_step k p A (matmul X Y) ! i ! j"
      using False ij k p s
      by (simp add: elim_step_nth[OF A mat_matmul[OF X Y] k p] matmul_nth[OF X Y] s_def)
    finally show ?thesis by simp
  qed
qed

lemma unelim_matmul:
  assumes A: "mat n A" and X: "mat n X" and Y: "mat n Y" and k: "k < n" and p: "p < n"
  shows "unelim_step k p A (matmul X Y) = matmul (unelim_step k p A X) Y"
proof (rule mat_eqI[OF mat_unelim_step[OF A mat_matmul[OF X Y] k p]
                       mat_matmul[OF mat_unelim_step[OF A X k p] Y]])
  fix s j assume sj: "s < n" "j < n"
  have rhs: "matmul (unelim_step k p A X) Y ! s ! j
      = (\<Sum>l = 0..<n. (if s = p then A ! p ! k * X ! k ! l
            else X ! (if s = k then p else s) ! l + A ! s ! k * X ! k ! l) * Y ! l ! j)"
    unfolding matmul_nth[OF mat_unelim_step[OF A X k p] Y sj]
    using sj k p by (intro sum.cong) (simp_all add: unelim_step_nth[OF A X k p])
  show "unelim_step k p A (matmul X Y) ! s ! j = matmul (unelim_step k p A X) Y ! s ! j"
  proof (cases "s = p")
    case True
    have "matmul (unelim_step k p A X) Y ! s ! j = (\<Sum>l = 0..<n. A ! p ! k * (X ! k ! l * Y ! l ! j))"
      unfolding rhs using True by (simp add: mult.assoc)
    also have "\<dots> = unelim_step k p A (matmul X Y) ! s ! j"
      using True sj k p
      by (simp add: unelim_step_nth[OF A mat_matmul[OF X Y] k p] matmul_nth[OF X Y]
          sum_distrib_left)
    finally show ?thesis by simp
  next
    case False
    define t where "t = (if s = k then p else s)"
    have t: "t < n" using sj p by (simp add: t_def)
    have "matmul (unelim_step k p A X) Y ! s ! j
        = (\<Sum>l = 0..<n. X ! t ! l * Y ! l ! j + A ! s ! k * (X ! k ! l * Y ! l ! j))"
      using False by (simp add: rhs t_def algebra_simps)
    also have "\<dots> = (\<Sum>l = 0..<n. X ! t ! l * Y ! l ! j)
                     + A ! s ! k * (\<Sum>l = 0..<n. X ! k ! l * Y ! l ! j)"
      by (simp add: sum.distrib sum_distrib_left)
    also have "\<dots> = unelim_step k p A (matmul X Y) ! s ! j"
      using False sj k p t
      by (simp add: unelim_step_nth[OF A mat_matmul[OF X Y] k p] matmul_nth[OF X Y] t_def)
    finally show ?thesis by simp
  qed
qed

lemma reduced_elim_step:
  assumes A: "mat n A" and k: "k < n" and p: "p < n" and kp: "k \<le> p"
    and piv: "A ! p ! k \<noteq> 0" and red: "reduced k n A"
  shows "reduced (Suc k) n (elim_step k p A A)"
  unfolding reduced_def
proof (intro allI impI)
  fix j i assume j: "j < Suc k" and i: "i < n"
  have jn: "j < n" using j k by simp
  show "elim_step k p A A ! i ! j = (if i = j then 1 else 0)"
  proof (cases "j = k")
    case True
    then show ?thesis
      using i k p piv by (simp add: elim_step_nth[OF A A k p])
  next
    case False
    then have jk: "j < k" using j by simp
    have col: "\<And>r. r < n \<Longrightarrow> A ! r ! j = (if r = j then 1 else 0)"
      using red jk by (simp add: reduced_def)
    have pj: "A ! p ! j = 0"
      using col[OF p] jk kp by simp
    show ?thesis
      using i k p jk kp pj col[OF i] col[OF k]
      by (simp add: elim_step_nth[OF A A k p i jn] split: if_splits)
  qed
qed

lemma row_equiv_init:
  assumes "mat n A0"
  shows "row_equiv n A0 A0 (eye n)"
  unfolding row_equiv_def
proof (intro conjI)
  show "\<exists>U. (\<forall>X. mat n X \<longrightarrow> mat n (U X))
        \<and> (\<forall>X Y. mat n X \<longrightarrow> mat n Y \<longrightarrow> U (matmul X Y) = matmul (U X) Y)
        \<and> U A0 = A0 \<and> U (eye n) = eye n"
    by (rule exI[of _ "\<lambda>X. X"]) simp
qed (simp_all add: assms mat_eye matmul_eye_left)

lemma row_equivE:
  assumes "row_equiv n A0 A B"
  obtains U where "mat n A" and "mat n B" and "matmul B A0 = A"
    and "\<And>X. mat n X \<Longrightarrow> mat n (U X)"
    and "\<And>X Y. mat n X \<Longrightarrow> mat n Y \<Longrightarrow> U (matmul X Y) = matmul (U X) Y"
    and "U A = A0" and "U B = eye n"
proof -
  from assms have AB: "mat n A" "mat n B" "matmul B A0 = A"
    by (simp_all add: row_equiv_def)
  from assms have "\<exists>U. (\<forall>X. mat n X \<longrightarrow> mat n (U X))
        \<and> (\<forall>X Y. mat n X \<longrightarrow> mat n Y \<longrightarrow> U (matmul X Y) = matmul (U X) Y)
        \<and> U A = A0 \<and> U B = eye n"
    unfolding row_equiv_def by (elim conjE)
  then obtain U where U: "(\<forall>X. mat n X \<longrightarrow> mat n (U X))
        \<and> (\<forall>X Y. mat n X \<longrightarrow> mat n Y \<longrightarrow> U (matmul X Y) = matmul (U X) Y)
        \<and> U A = A0 \<and> U B = eye n" ..
  show thesis
    by (rule that[of U]) (use AB U in simp_all)
qed

lemma row_equiv_step:
  assumes A0: "mat n A0" and re: "row_equiv n A0 A B"
    and k: "k < n" and p: "p < n" and piv: "A ! p ! k \<noteq> 0"
  shows "row_equiv n A0 (elim_step k p A A) (elim_step k p A B)"
proof -
  from re obtain U where A: "mat n A" and B: "mat n B" and BA: "matmul B A0 = A"
    and Umat: "\<And>X. mat n X \<Longrightarrow> mat n (U X)"
    and Ulin: "\<And>X Y. mat n X \<Longrightarrow> mat n Y \<Longrightarrow> U (matmul X Y) = matmul (U X) Y"
    and UA: "U A = A0" and UB: "U B = eye n"
    by (rule row_equivE) (rule that)
  let ?U = "\<lambda>X. U (unelim_step k p A X)"
  have 1: "matmul (elim_step k p A B) A0 = elim_step k p A A"
    using elim_matmul[OF A B A0 k p] BA by simp
  have 2: "\<forall>X. mat n X \<longrightarrow> mat n (?U X)"
    by (simp add: Umat mat_unelim_step[OF A _ k p])
  have 3: "\<forall>X Y. mat n X \<longrightarrow> mat n Y \<longrightarrow> ?U (matmul X Y) = matmul (?U X) Y"
    by (simp add: unelim_matmul[OF A _ _ k p] Ulin mat_unelim_step[OF A _ k p])
  have 4: "?U (elim_step k p A A) = A0"
    by (simp add: unelim_elim[OF A A k p piv] UA)
  have 5: "?U (elim_step k p A B) = eye n"
    by (simp add: unelim_elim[OF A B k p piv] UB)
  show ?thesis
    unfolding row_equiv_def
  proof (intro conjI)
    show "\<exists>V. (\<forall>X. mat n X \<longrightarrow> mat n (V X))
        \<and> (\<forall>X Y. mat n X \<longrightarrow> mat n Y \<longrightarrow> V (matmul X Y) = matmul (V X) Y)
        \<and> V (elim_step k p A A) = A0 \<and> V (elim_step k p A B) = eye n"
      by (rule exI[of _ ?U]) (intro conjI 2 3 4 5)
  qed (simp_all add: 1 mat_elim_step[OF A A k p] mat_elim_step[OF A B k p])
qed

lemma find_pivot_Some:
  assumes "mat n A" and "find_pivot A k = Some p"
  shows "k \<le> p \<and> p < n \<and> A ! p ! k \<noteq> 0"
proof -
  from assms(2) obtain i where i: "i < length [k..<length A]"
    and P: "A ! ([k..<length A] ! i) ! k \<noteq> 0" and pe: "p = [k..<length A] ! i"
    unfolding find_pivot_def find_Some_iff by blast
  from i have "p = k + i" "k + i < n"
    using pe assms(1) by (simp_all add: mat_length)
  then show ?thesis using P pe by simp
qed

lemma find_pivot_None:
  assumes "mat n A" and "find_pivot A k = None" and "k \<le> i" and "i < n"
  shows "A ! i ! k = 0"
proof -
  have "i \<in> set [k..<length A]"
    using assms by (simp add: mat_length)
  then show ?thesis
    using assms(2) unfolding find_pivot_def find_None_iff by blast
qed

lemma reduced_eye:
  assumes "mat n A" and "reduced n n A"
  shows "A = eye n"
  by (rule mat_eqI[OF assms(1) mat_eye]) (use assms(2) in \<open>simp add: reduced_def eye_nth\<close>)

lemma gauss_jordan_Some:
  assumes A0: "mat n A0"
  shows "k \<le> n \<Longrightarrow> row_equiv n A0 A B \<Longrightarrow> reduced k n A
     \<Longrightarrow> gauss_jordan [k..<n] (A, B) = Some (A', B')
     \<Longrightarrow> row_equiv n A0 A' B' \<and> reduced n n A'"
proof (induction "n - k" arbitrary: k A B)
  case 0
  then show ?case by simp
next
  case (Suc d)
  then have k: "k < n" by simp
  have A: "mat n A" using Suc.prems(2) by (simp add: row_equiv_def)
  have upt: "[k..<n] = k # [Suc k..<n]" using k by (simp add: upt_conv_Cons)
  from Suc.prems(4) obtain p where fp: "find_pivot A k = Some p"
    and rest: "gauss_jordan [Suc k..<n] (elim_step k p A A, elim_step k p A B) = Some (A', B')"
    unfolding upt by (auto split: option.splits)
  from find_pivot_Some[OF A fp] have kp: "k \<le> p" and p: "p < n" and piv: "A ! p ! k \<noteq> 0"
    by simp_all
  show ?case
  proof (rule Suc.hyps(1)[OF _ _ _ _ rest])
    show "d = n - Suc k" using Suc.hyps(2) by simp
    show "Suc k \<le> n" using k by simp
    show "row_equiv n A0 (elim_step k p A A) (elim_step k p A B)"
      by (rule row_equiv_step[OF A0 Suc.prems(2) k p piv])
    show "reduced (Suc k) n (elim_step k p A A)"
      by (rule reduced_elim_step[OF A k p kp piv Suc.prems(3)])
  qed
qed

lemma no_pivot_singular:
  assumes A0: "mat n A0" and re: "row_equiv n A0 A B" and red: "reduced k n A"
    and k: "k < n" and nopiv: "\<And>i. k \<le> i \<Longrightarrow> i < n \<Longrightarrow> A ! i ! k = 0"
    and C: "mat n C" and CA: "matmul C A0 = eye n"
  shows False
proof -
  from re obtain U where A: "mat n A"
    and Umat: "\<And>X. mat n X \<Longrightarrow> mat n (U X)"
    and Ulin: "\<And>X Y. mat n X \<Longrightarrow> mat n Y \<Longrightarrow> U (matmul X Y) = matmul (U X) Y"
    and UA: "U A = A0"
    by (rule row_equivE) (rule that)
  define x where "x = (\<lambda>l. if l < k then A ! l ! k else if l = k then - 1 else 0)"
  define X where "X = map (\<lambda>r. map (\<lambda>c. x r) [0..<n]) [0..<n]"
  let ?Z = "zeros n n"
  have X: "mat n X" unfolding X_def by (rule mat_map_upt)
  have Xnth: "\<And>r c. r < n \<Longrightarrow> c < n \<Longrightarrow> X ! r ! c = x r"
    by (simp add: X_def)
  have AX: "matmul A X = ?Z"
  proof (rule mat_eqI[OF mat_matmul[OF A X] mat_zeros])
    fix i j assume ij: "i < n" "j < n"
    have "matmul A X ! i ! j = (\<Sum>l = 0..<n. A ! i ! l * x l)"
      unfolding matmul_nth[OF A X ij] using ij by (intro sum.cong) (simp_all add: Xnth)
    also have "\<dots> = (\<Sum>l = 0..<n. (if l = i then (if i < k then A ! i ! k else 0) else 0)
                                  + (if l = k then - A ! i ! k else 0))"
    proof (rule sum.cong)
      fix l assume "l \<in> {0..<n}"
      show "A ! i ! l * x l = (if l = i then (if i < k then A ! i ! k else 0) else 0)
                                  + (if l = k then - A ! i ! k else 0)"
      proof (cases "l < k")
        case True
        then have "A ! i ! l = (if i = l then 1 else 0)"
          using red ij by (simp add: reduced_def)
        then show ?thesis using True by (auto simp add: x_def)
      next
        case False
        then show ?thesis by (auto simp add: x_def)
      qed
    qed simp
    also have "\<dots> = (if i < k then A ! i ! k else 0) - A ! i ! k"
      using ij k by (simp add: sum.distrib)
    also have "\<dots> = 0"
      using nopiv[of i] ij by simp
    finally show "matmul A X ! i ! j = ?Z ! i ! j"
      using ij by (simp add: zeros_nth)
  qed
  have UZ: "U ?Z = ?Z"
  proof -
    have "U ?Z = U (matmul ?Z ?Z)"
      by (simp add: matmul_zeros_right[OF mat_zeros])
    also have "\<dots> = matmul (U ?Z) ?Z"
      by (rule Ulin[OF mat_zeros mat_zeros])
    also have "\<dots> = ?Z"
      by (rule matmul_zeros_right[OF Umat[OF mat_zeros]])
    finally show ?thesis .
  qed
  have "matmul A0 X = ?Z"
    using Ulin[OF A X] UA AX UZ by simp
  then have "matmul C (matmul A0 X) = ?Z"
    by (simp add: matmul_zeros_right[OF C])
  then have "matmul (matmul C A0) X = ?Z"
    by (simp add: matmul_assoc[OF C A0 X])
  then have "X = ?Z"
    by (simp add: CA matmul_eye_left[OF X])
  then have "X ! k ! 0 = ?Z ! k ! 0" by simp
  then show False
    using k by (simp add: Xnth zeros_nth x_def)
qed

lemma gauss_jordan_None:
  assumes A0: "mat n A0" and C: "mat n C" and CA: "matmul C A0 = eye n"
  shows "k \<le> n \<Longrightarrow> row_equiv n A0 A B \<Longrightarrow> reduced k n A
     \<Longrightarrow> gauss_jordan [k..<n] (A, B) \<noteq> None"
proof (induction "n - k" arbitrary: k A B)
  case 0
  then show ?case by simp
next
  case (Suc d)
  then have k: "k < n" by simp
  have A: "mat n A" using Suc.prems(2) by (simp add: row_equiv_def)
  have upt: "[k..<n] = k # [Suc k..<n]" using k by (simp add: upt_conv_Cons)
  show ?case
  proof (cases "find_pivot A k")
    case None
    have "False"
      by (rule no_pivot_singular[OF A0 Suc.prems(2,3) k find_pivot_None[OF A None] C CA])
    then show ?thesis ..
  next
    case (Some p)
    from find_pivot_Some[OF A Some] have kp: "k \<le> p" and p: "p < n" and piv: "A ! p ! k \<noteq> 0"
      by simp_all
    have "gauss_jordan [Suc k..<n] (elim_step k p A A, elim_step k p A B) \<noteq> None"
    proof (rule Suc.hyps(1))
      show "d = n - Suc k" using Suc.hyps(2) by simp
      show "Suc k \<le> n" using k by simp
      show "row_equiv n A0 (elim_step k p A A) (elim_step k p A B)"
        by (rule row_equiv_step[OF A0 Suc.prems(2) k p piv])
      show "reduced (Suc k) n (elim_step k p A A)"
        by (rule reduced_elim_step[OF A k p kp piv Suc.prems(3)])
    qed
    then show ?thesis unfolding upt using Some by simp
  qed
qed

lemma linalg_inv_sound:
  assumes "linalg_inv A = Inr B"
  shows "mat (length A) A \<and> mat (length A) B
       \<and> matmul B A = eye (length A) \<and> matmul A B = eye (length A)"
proof -
  let ?n = "length A"
  from assms have A: "mat ?n A"
    by (auto simp add: linalg_inv_def split: if_splits)
  from assms obtain A' where gj: "gauss_jordan [0..<?n] (A, eye ?n) = Some (A', B)"
    using A by (auto simp add: linalg_inv_def split: option.splits)
  have "row_equiv ?n A A' B \<and> reduced ?n ?n A'"
    by (rule gauss_jordan_Some[OF A _ row_equiv_init[OF A] _ gj]) (simp_all add: reduced_def)
  then have re: "row_equiv ?n A A' B" and red: "reduced ?n ?n A'" by simp_all
  from re obtain U where A': "mat ?n A'" and B: "mat ?n B" and BA: "matmul B A = A'"
    and Ulin: "\<And>X Y. mat ?n X \<Longrightarrow> mat ?n Y \<Longrightarrow> U (matmul X Y) = matmul (U X) Y"
    and UA: "U A' = A" and UB: "U B = eye ?n"
    by (rule row_equivE) (rule that)
  have A'eye: "A' = eye ?n" by (rule reduced_eye[OF A' red])
  have "matmul A B = matmul (U (eye ?n)) B"
    using UA A'eye by simp
  also have "\<dots> = U (matmul (eye ?n) B)"
    by (rule Ulin[OF mat_eye B, symmetric])
  also have "\<dots> = eye ?n"
    by (simp add: matmul_eye_left[OF B] UB)
  finally show ?thesis
    using A B BA A'eye by simp
qed

lemma linalg_inv_complete:
  assumes A: "mat n A" and C: "mat n C" and CA: "matmul C A = eye n"
  shows "\<exists>B. linalg_inv A = Inr B"
proof -
  have n: "length A = n" by (rule mat_length[OF A])
  have "gauss_jordan [0..<n] (A, eye n) \<noteq> None"
    by (rule gauss_jordan_None[OF A C CA _ row_equiv_init[OF A]]) (simp_all add: reduced_def)
  then show ?thesis
    using A by (auto simp add: linalg_inv_def n)
qed

lemma inverse_unique:
  assumes "mat n A" and "mat n B" and "mat n C"
    and "matmul B A = eye n" and "matmul A C = eye n"
  shows "B = C"
proof -
  have "B = matmul B (matmul A C)"
    by (simp add: assms(5) matmul_eye_right[OF assms(2)])
  also have "\<dots> = matmul (matmul B A) C"
    by (rule matmul_assoc[OF assms(2,1,3), symmetric])
  also have "\<dots> = C"
    by (simp add: assms(4) matmul_eye_left[OF assms(3)])
  finally show ?thesis .
qed

lemma linalg_inv_eqI:
  assumes A: "mat n A" and B: "mat n B" and BA: "matmul B A = eye n"
  shows "linalg_inv A = Inr B"
proof -
  from linalg_inv_complete[OF A B BA] obtain B' where B': "linalg_inv A = Inr B'" by blast
  have n: "length A = n" by (rule mat_length[OF A])
  from linalg_inv_sound[OF B'] have "mat n B'" "matmul A B' = eye n"
    by (simp_all add: n)
  then have "B = B'" by (rule inverse_unique[OF A B _ BA])
  then show ?thesis using B' by simp
qed

lemma linalg_inv_inv:
  assumes "linalg_inv A = Inr B"
  shows "linalg_inv B = Inr A"
proof -
  from linalg_inv_sound[OF assms]
  have A: "mat (length A) A" and B: "mat (length A) B" and AB: "matmul A B = eye (length A)"
    by simp_all
  show ?thesis by (rule linalg_inv_eqI[OF B A AB])
qed

lemma linalg_inv_eye: "linalg_inv (eye n) = Inr (eye n)"
  by (rule linalg_inv_eqI[OF mat_eye mat_eye]) (simp add: matmul_eye_left[OF mat_eye])

section \<open>Symmetry and the identity rotation\<close>

lemma mat_add_nth:
  assumes "mat n A" and "mat n B" and "i < n" and "j < n"
  shows "mat_add A B ! i ! j = A ! i ! j + B ! i ! j"
  using assms by (simp add: mat_add_def mat_length mat_row_length)

lemma mat_mat_add:
  assumes "mat n A" and "mat n B"
  shows "mat n (mat_add A B)"
  using assms by (simp add: mat_add_def mat_def list_all_length)

lemma mat_div_nth:
  assumes "mat n A" and "i < n" and "j < n"
  shows "mat_div A p ! i ! j = A ! i ! j / p"
  using assms by (simp add: mat_div_def mat_length mat_row_length)

lemma mat_mat_div:
  assumes "mat n A"
  shows "mat n (mat_div A p)"
  using assms by (simp add: mat_div_def mat_def list_all_length)

lemma mat_add_zeros_left:
  assumes "mat n A"
  shows "mat_add (zeros n n) A = A"
  by (rule mat_eqI[OF mat_mat_add[OF mat_zeros assms] assms])
     (simp add: mat_add_nth[OF mat_zeros assms] zeros_nth)

lemma mat_div_one:
  assumes "mat n A"
  shows "mat_div A 1 = A"
  by (rule mat_eqI[OF mat_mat_div[OF assms] assms]) (simp add: mat_div_nth[OF assms])

lemma hill_of_equal:
  assumes "mat n A"
  shows "mat_div (mat_add A A) 2 = A"
  by (rule mat_eqI[OF mat_mat_div[OF mat_mat_add[OF assms assms]] assms])
     (simp add: mat_div_nth[OF mat_mat_add[OF assms assms]] mat_add_nth[OF assms assms])

lemma mat_T_mat_T:
  assumes "mat n A"
  shows "mat_T (mat_T A) = A"
  by (rule mat_eqI[OF mat_mat_T[OF mat_mat_T[OF assms]] assms])
     (simp add: mat_T_nth[OF mat_mat_T[OF assms]] mat_T_nth[OF assms])

lemma mat_T_mat_add:
  assumes "mat n A" and "mat n B"
  shows "mat_T (mat_add A B) = mat_add (mat_T A) (mat_T B)"
  by (rule mat_eqI[OF mat_mat_T[OF mat_mat_add[OF assms]]
                      mat_mat_add[OF mat_mat_T[OF assms(1)] mat_mat_T[OF assms(2)]]])
     (simp add: mat_T_nth[OF mat_mat_add[OF assms]] mat_add_nth[OF assms]
        mat_add_nth[OF mat_mat_T[OF assms(1)] mat_mat_T[OF assms(2)]]
        mat_T_nth[OF assms(1)] mat_T_nth[OF assms(2)])

lemma mat_T_mat_div:
  assumes "mat n A"
  shows "mat_T (mat_div A p) = mat_div (mat_T A) p"
  by (rule mat_eqI[OF mat_mat_T[OF mat_mat_div[OF assms]] mat_mat_div[OF mat_mat_T[OF assms]]])
     (simp add: mat_T_nth[OF mat_mat_div[OF assms]] mat_div_nth[OF assms]
        mat_div_nth[OF mat_mat_T[OF assms]] mat_T_nth[OF assms])

lemma congruence_symmetric:
  assumes M: "mat n M" and C: "mat n C" and sym: "mat_T C = C"
  shows "mat_T (matmul M (matmul C (mat_T M))) = matmul M (matmul C (mat_T M))"
proof -
  have MT: "mat n (mat_T M)" by (rule mat_mat_T[OF M])
  have "mat_T (matmul M (matmul C (mat_T M))) = matmul (mat_T (matmul C (mat_T M))) (mat_T M)"
    by (rule mat_T_matmul[OF M mat_matmul[OF C MT]])
  also have "\<dots> = matmul (matmul M C) (mat_T M)"
    by (simp add: mat_T_matmul[OF C MT] mat_T_mat_T[OF M] sym)
  also have "\<dots> = matmul M (matmul C (mat_T M))"
    by (rule matmul_assoc[OF M C MT])
  finally show ?thesis .
qed

lemma inverse_symmetric:
  assumes inv: "linalg_inv A = Inr B" and sym: "mat_T A = A"
  shows "mat_T B = B"
proof -
  let ?n = "length A"
  from linalg_inv_sound[OF inv]
  have A: "mat ?n A" and B: "mat ?n B" and BA: "matmul B A = eye ?n" and AB: "matmul A B = eye ?n"
    by simp_all
  have "matmul (mat_T B) A = mat_T (matmul A B)"
    by (simp add: mat_T_matmul[OF A B] sym)
  also have "\<dots> = eye ?n"
    by (simp add: AB mat_T_eye)
  finally have "matmul (mat_T B) A = eye ?n" .
  then show ?thesis
    by (rule inverse_unique[OF A mat_mat_T[OF B] B _ AB])
qed

lemma symmetric_nth:
  assumes "mat n A" and "mat_T A = A" and "i < n" and "j < n"
  shows "A ! i ! j = A ! j ! i"
  using mat_T_nth[OF assms(1,4,3)] assms(2) by simp

lemma mat_bond: "mat 6 (bond R)"
  by (simp add: bond_def mat_def)

lemma eye3_rows: "eye 3 = [[1, 0, 0], [0, 1, 0], [0, 0, 1]]"
  by (simp add: eye_def upt3)

lemma eye6_rows:
  "eye 6 = [[1, 0, 0, 0, 0, 0], [0, 1, 0, 0, 0, 0], [0, 0, 1, 0, 0, 0],
            [0, 0, 0, 1, 0, 0], [0, 0, 0, 0, 1, 0], [0, 0, 0, 0, 0, 1]]"
  by (simp add: eye_def upt6)

lemma rotator_zxz_zero: "rotator_zxz [0, 0, 0] = Inr (eye 3)"
  by (simp add: rotator_zxz_def eye3_rows matmul_def shape_def upt3)

lemma bond_eye: "bond (eye 3) = eye 6"
  by (simp add: bond_def eye3_rows eye6_rows)

lemma mat_rotator_zxz:
  assumes "rotator_zxz eul = Inr R"
  shows "mat 3 R"
proof -
  have m: "\<And>a b c d e f g h i :: real. mat 3 [[a, b, c], [d, e, f], [g, h, i]]"
    by (simp add: mat_def)
  from assms show ?thesis
    by (auto simp add: rotator_zxz_def Let_def split: if_splits intro!: mat_matmul m)
qed

lemma bind_err_Inr_iff:
  "bind_err x f = Inr y \<longleftrightarrow> (\<exists>v. x = Inr v \<and> f v = Inr y)"
  by (cases x) (simp_all add: bind_err_def)

lemma bind_err_Inr [simp]: "bind_err (Inr v) f = f v"
  by (simp add: bind_err_def)

lemma bind_err_Inl [simp]: "bind_err (Inl e) f = Inl e"
  by (simp add: bind_err_def)

lemma shape_one_triple: "shape [[a, b, c]] = (1, 3)"
  by (simp add: shape_def)

lemma voigt_reuss_hill_identity:
  assumes inv: "linalg_inv C = Inr S" and len: "length C = 6"
  shows "voigt_reuss_hill C [[0, 0, 0]] = Inr (C, C, C)"
proof -
  from linalg_inv_sound[OF inv] len have C: "mat 6 C" and S: "mat 6 S"
    by simp_all
  have loop: "stiffness_loop C S [[0, 0, 0]] (zeros 6 6, zeros 6 6) = Inr (C, S)"
    by (simp add: rotator_zxz_zero bond_eye linalg_inv_eye mat_T_eye
        matmul_eye_right[OF C] matmul_eye_right[OF S] matmul_eye_left[OF C] matmul_eye_left[OF S]
        mat_add_zeros_left[OF C] mat_add_zeros_left[OF S])
  show ?thesis
    by (simp add: voigt_reuss_hill_def shape_one_triple inv loop mat_div_one[OF C]
        mat_div_one[OF S] linalg_inv_inv[OF inv] hill_of_equal[OF C] del: stiffness_loop.simps)
qed

lemma voigt_reuss_hill_dielectric_identity:
  assumes invp: "linalg_inv P = Inr Sp" and lenp: "length P = 3"
    and invc: "linalg_inv Cd = Inr Sc" and lenc: "length Cd = 3"
  shows "voigt_reuss_hill_dielectric P Cd [[0, 0, 0]]
    = Inr \<lparr>voigt_permittivity = P, reuss_permittivity = P, hill_permittivity = P,
           voigt_conductivity = Cd, reuss_conductivity = Cd, hill_conductivity = Cd\<rparr>"
proof -
  from linalg_inv_sound[OF invp] lenp have P: "mat 3 P" and Sp: "mat 3 Sp"
    by simp_all
  from linalg_inv_sound[OF invc] lenc have Cd: "mat 3 Cd" and Sc: "mat 3 Sc"
    by simp_all
  have loop: "dielectric_loop P Cd Sp Sc [[0, 0, 0]] (zeros 3 3, zeros 3 3, zeros 3 3, zeros 3 3)
      = Inr (P, Cd, Sp, Sc)"
    by (simp add: rotator_zxz_zero linalg_inv_eye mat_T_eye
        matmul_eye_right[OF P] matmul_eye_right[OF Sp] matmul_eye_left[OF P] matmul_eye_left[OF Sp]
        matmul_eye_right[OF Cd] matmul_eye_right[OF Sc] matmul_eye_left[OF Cd] matmul_eye_left[OF Sc]
        mat_add_zeros_left[OF P] mat_add_zeros_left[OF Sp]
        mat_add_zeros_left[OF Cd] mat_add_zeros_left[OF Sc])
  show ?thesis
    by (simp add: voigt_reuss_hill_dielectric_def shape_one_triple invp invc loop
        mat_div_one[OF P] mat_div_one[OF Sp] mat_div_one[OF Cd] mat_div_one[OF Sc]
        linalg_inv_inv[OF invp] linalg_inv_inv[OF invc] hill_of_equal[OF P] hill_of_equal[OF Cd]
        del: dielectric_loop.simps)
qed

lemma stiffness_loop_symmetric:
  assumes C: "mat 6 C" and symC: "mat_T C = C" and S: "mat 6 S" and symS: "mat_T S = S"
  shows "stiffness_loop C S euler (V, R) = Inr (V', R')
    \<Longrightarrow> mat 6 V \<Longrightarrow> mat_T V = V \<Longrightarrow> mat 6 R \<Longrightarrow> mat_T R = R
    \<Longrightarrow> (mat 6 V' \<and> mat_T V' = V') \<and> (mat 6 R' \<and> mat_T R' = R')"
proof (induction euler arbitrary: V R)
  case Nil
  then show ?case by simp
next
  case (Cons eul euler)
  from Cons.prems(1) obtain R0 N where R0: "rotator_zxz eul = Inr R0"
    and N: "linalg_inv (bond R0) = Inr N"
    and rest: "stiffness_loop C S euler
        (mat_add V (matmul (bond R0) (matmul C (mat_T (bond R0)))),
         mat_add R (matmul N (matmul S (mat_T N)))) = Inr (V', R')"
    by (auto simp add: bind_err_Inr_iff Let_def)
  let ?M = "bond R0"
  have M: "mat 6 ?M" by (rule mat_bond)
  from linalg_inv_sound[OF N] have Nm: "mat 6 N"
    using mat_length[OF M] by simp
  let ?tv = "matmul ?M (matmul C (mat_T ?M))"
  let ?tr = "matmul N (matmul S (mat_T N))"
  have tv: "mat 6 ?tv" by (intro mat_matmul M C mat_mat_T)
  have tr: "mat 6 ?tr" by (intro mat_matmul Nm S mat_mat_T)
  show ?case
  proof (rule Cons.IH[OF rest])
    show "mat 6 (mat_add V ?tv)" by (rule mat_mat_add[OF Cons.prems(2) tv])
    show "mat 6 (mat_add R ?tr)" by (rule mat_mat_add[OF Cons.prems(4) tr])
    show "mat_T (mat_add V ?tv) = mat_add V ?tv"
      by (simp add: mat_T_mat_add[OF Cons.prems(2) tv] Cons.prems(3)
          congruence_symmetric[OF M C symC])
    show "mat_T (mat_add R ?tr) = mat_add R ?tr"
      by (simp add: mat_T_mat_add[OF Cons.prems(4) tr] Cons.prems(5)
          congruence_symmetric[OF Nm S symS])
  qed
qed

lemma mat_T_zeros: "mat_T (zeros n n) = zeros n n"
  by (rule mat_eqI[OF mat_mat_T[OF mat_zeros] mat_zeros])
     (simp add: mat_T_nth[OF mat_zeros] zeros_nth)

lemma voigt_reuss_hill_symmetric:
  assumes vrh: "voigt_reuss_hill C euler = Inr (V, R, H)"
    and C: "mat 6 C" and symC: "mat_T C = C"
  shows "(mat 6 V \<and> mat_T V = V) \<and> (mat 6 R \<and> mat_T R = R) \<and> (mat 6 H \<and> mat_T H = H)"
proof -
  from vrh obtain S V0 R0 where S: "linalg_inv C = Inr S"
    and loop: "stiffness_loop C S euler (zeros 6 6, zeros 6 6) = Inr (V0, R0)"
    and V: "V = mat_div V0 (real (length euler))"
    and R: "linalg_inv (mat_div R0 (real (length euler))) = Inr R"
    and H: "H = mat_div (mat_add V R) 2"
    by (auto simp add: voigt_reuss_hill_def bind_err_Inr_iff Let_def split: if_splits)
  from linalg_inv_sound[OF S] have Sm: "mat 6 S"
    using mat_length[OF C] by simp
  have symS: "mat_T S = S" by (rule inverse_symmetric[OF S symC])
  from stiffness_loop_symmetric[OF C symC Sm symS loop mat_zeros mat_T_zeros mat_zeros mat_T_zeros]
  have V0: "mat 6 V0" "mat_T V0 = V0" and R0: "mat 6 R0" "mat_T R0 = R0"
    by simp_all
  have Vm: "mat 6 V" unfolding V by (rule mat_mat_div[OF V0(1)])
  have Vs: "mat_T V = V" unfolding V by (simp add: mat_T_mat_div[OF V0(1)] V0(2))
  let ?R1 = "mat_div R0 (real (length euler))"
  have R1: "mat 6 ?R1" by (rule mat_mat_div[OF R0(1)])
  have R1s: "mat_T ?R1 = ?R1" by (simp add: mat_T_mat_div[OF R0(1)] R0(2))
  from linalg_inv_sound[OF R] have Rm: "mat 6 R"
    using mat_length[OF R1] by simp
  have Rs: "mat_T R = R" by (rule inverse_symmetric[OF R R1s])
  have Hm: "mat 6 H" unfolding H by (intro mat_mat_div mat_mat_add Vm Rm)
  have Hs: "mat_T H = H"
    unfolding H by (simp add: mat_T_mat_div[OF mat_mat_add[OF Vm Rm]] mat_T_mat_add[OF Vm Rm] Vs Rs)
  show ?thesis using Vm Vs Rm Rs Hm Hs by simp
qed

lemma dielectric_loop_symmetric:
  assumes P: "mat 3 P" and symP: "mat_T P = P" and Cd: "mat 3 Cd" and symC: "mat_T Cd = Cd"
    and Sp: "mat 3 Sp" and symSp: "mat_T Sp = Sp" and Sc: "mat 3 Sc" and symSc: "mat_T Sc = Sc"
  shows "dielectric_loop P Cd Sp Sc euler (pv, cv, pr, cr) = Inr (pv', cv', pr', cr')
    \<Longrightarrow> mat 3 pv \<and> mat_T pv = pv \<Longrightarrow> mat 3 cv \<and> mat_T cv = cv
    \<Longrightarrow> mat 3 pr \<and> mat_T pr = pr \<Longrightarrow> mat 3 cr \<and> mat_T cr = cr
    \<Longrightarrow> (mat 3 pv' \<and> mat_T pv' = pv') \<and> (mat 3 cv' \<and> mat_T cv' = cv')
      \<and> (mat 3 pr' \<and> mat_T pr' = pr') \<and> (mat 3 cr' \<and> mat_T cr' = cr')"
proof (induction euler arbitrary: pv cv pr cr)
  case Nil
  then show ?case by simp
next
  case (Cons eul euler)
  from Cons.prems(1) obtain R Ri where R: "rotator_zxz eul = Inr R"
    and Ri: "linalg_inv R = Inr Ri"
    and rest: "dielectric_loop P Cd Sp Sc euler
        (mat_add pv (matmul R (matmul P (mat_T R))),
         mat_add cv (matmul R (matmul Cd (mat_T R))),
         mat_add pr (matmul Ri (matmul Sp (mat_T Ri))),
         mat_add cr (matmul Ri (matmul Sc (mat_T Ri)))) = Inr (pv', cv', pr', cr')"
    by (auto simp add: bind_err_Inr_iff)
  have Rm: "mat 3 R" by (rule mat_rotator_zxz[OF R])
  from linalg_inv_sound[OF Ri] have Rim: "mat 3 Ri"
    using mat_length[OF Rm] by simp
  have step: "mat 3 (mat_add X (matmul M (matmul T (mat_T M))))
      \<and> mat_T (mat_add X (matmul M (matmul T (mat_T M)))) = mat_add X (matmul M (matmul T (mat_T M)))"
    if "mat 3 X \<and> mat_T X = X" and M: "mat 3 M" and T: "mat 3 T" and symT: "mat_T T = T"
    for X M T
  proof -
    have t: "mat 3 (matmul M (matmul T (mat_T M)))"
      by (intro mat_matmul M T mat_mat_T)
    from that(1) have X: "mat 3 X" and symX: "mat_T X = X" by simp_all
    show ?thesis
      by (simp add: mat_mat_add[OF X t] mat_T_mat_add[OF X t] symX
          congruence_symmetric[OF M T symT])
  qed
  show ?case
  proof (rule Cons.IH[OF rest])
    show "mat 3 (mat_add pv (matmul R (matmul P (mat_T R))))
      \<and> mat_T (mat_add pv (matmul R (matmul P (mat_T R)))) = mat_add pv (matmul R (matmul P (mat_T R)))"
      by (rule step[OF Cons.prems(2) Rm P symP])
    show "mat 3 (mat_add cv (matmul R (matmul Cd (mat_T R))))
      \<and> mat_T (mat_add cv (matmul R (matmul Cd (mat_T R)))) = mat_add cv (matmul R (matmul Cd (mat_T R)))"
      by (rule step[OF Cons.prems(3) Rm Cd symC])
    show "mat 3 (mat_add pr (matmul Ri (matmul Sp (mat_T Ri))))
      \<and> mat_T (mat_add pr (matmul Ri (matmul Sp (mat_T Ri)))) = mat_add pr (matmul Ri (matmul Sp (mat_T Ri)))"
      by (rule step[OF Cons.prems(4) Rim Sp symSp])
    show "mat 3 (mat_add cr (matmul Ri (matmul Sc (mat_T Ri))))
      \<and> mat_T (mat_add cr (matmul Ri (matmul Sc (mat_T Ri)))) = mat_add cr (matmul Ri (matmul Sc (mat_T Ri)))"
      by (rule step[OF Cons.prems(5) Rim Sc symSc])
  qed
qed

lemma voigt_reuss_hill_dielectric_symmetric:
  assumes vrh: "voigt_reuss_hill_dielectric P Cd euler = Inr r"
    and P: "mat 3 P" and symP: "mat_T P = P" and Cd: "mat 3 Cd" and symC: "mat_T Cd = Cd"
  shows "(mat 3 (voigt_permittivity r) \<and> mat_T (voigt_permittivity r) = voigt_permittivity r)
       \<and> (mat 3 (reuss_permittivity r) \<and> mat_T (reuss_permittivity r) = reuss_permittivity r)
       \<and> (mat 3 (hill_permittivity r) \<and> mat_T (hill_permittivity r) = hill_permittivity r)
       \<and> (mat 3 (voigt_conductivity r) \<and> mat_T (voigt_conductivity r) = voigt_conductivity r)
       \<and> (mat 3 (reuss_conductivity r) \<and> mat_T (reuss_conductivity r) = reuss_conductivity r)
       \<and> (mat 3 (hill_conductivity r) \<and> mat_T (hill_conductivity r) = hill_conductivity r)"
proof -
  let ?p = "real (length euler)"
  from vrh obtain Sp Sc pv cv pr cr pr' cr' where Sp: "linalg_inv P = Inr Sp"
    and Sc: "linalg_inv Cd = Inr Sc"
    and loop: "dielectric_loop P Cd Sp Sc euler (zeros 3 3, zeros 3 3, zeros 3 3, zeros 3 3)
        = Inr (pv, cv, pr, cr)"
    and pr': "linalg_inv (mat_div pr ?p) = Inr pr'"
    and cr': "linalg_inv (mat_div cr ?p) = Inr cr'"
    and r: "r = \<lparr>voigt_permittivity = mat_div pv ?p, reuss_permittivity = pr',
                hill_permittivity = mat_div (mat_add (mat_div pv ?p) pr') 2,
                voigt_conductivity = mat_div cv ?p, reuss_conductivity = cr',
                hill_conductivity = mat_div (mat_add (mat_div cv ?p) cr') 2\<rparr>"
    by (auto simp add: voigt_reuss_hill_dielectric_def bind_err_Inr_iff Let_def split: if_splits)
  from linalg_inv_sound[OF Sp] have Spm: "mat 3 Sp" using mat_length[OF P] by simp
  from linalg_inv_sound[OF Sc] have Scm: "mat 3 Sc" using mat_length[OF Cd] by simp
  have symSp: "mat_T Sp = Sp" by (rule inverse_symmetric[OF Sp symP])
  have symSc: "mat_T Sc = Sc" by (rule inverse_symmetric[OF Sc symC])
  have z: "mat 3 (zeros 3 3) \<and> mat_T (zeros 3 3) = zeros 3 3"
    by (simp add: mat_zeros mat_T_zeros)
  from dielectric_loop_symmetric[OF P symP Cd symC Spm symSp Scm symSc loop z z z z]
  have pv: "mat 3 pv" "mat_T pv = pv" and cv: "mat 3 cv" "mat_T cv = cv"
    and pr: "mat 3 pr" "mat_T pr = pr" and cr: "mat 3 cr" "mat_T cr = cr"
    by simp_all
  have div: "mat 3 (mat_div X ?p) \<and> mat_T (mat_div X ?p) = mat_div X ?p"
    if "mat 3 X" "mat_T X = X" for X
    by (simp add: mat_mat_div[OF that(1)] mat_T_mat_div[OF that(1)] that(2))
  have inv: "mat 3 Y \<and> mat_T Y = Y"
    if "linalg_inv (mat_div X ?p) = Inr Y" "mat 3 X" "mat_T X = X" for X Y
  proof -
    from div[OF that(2,3)] have d: "mat 3 (mat_div X ?p)" "mat_T (mat_div X ?p) = mat_div X ?p"
      by simp_all
    from linalg_inv_sound[OF that(1)] have "mat 3 Y" using mat_length[OF d(1)] by simp
    moreover have "mat_T Y = Y" by (rule inverse_symmetric[OF that(1) d(2)])
    ultimately show ?thesis by simp
  qed
  have hill: "mat 3 (mat_div (mat_add X Y) 2) \<and> mat_T (mat_div (mat_add X Y) 2) = mat_div (mat_add X Y) 2"
    if "mat 3 X \<and> mat_T X = X" "mat 3 Y \<and> mat_T Y = Y" for X Y
  proof -
    from that have X: "mat 3 X" "mat_T X = X" and Y: "mat 3 Y" "mat_T Y = Y" by simp_all
    have s: "mat 3 (mat_add X Y)" by (rule mat_mat_add[OF X(1) Y(1)])
    show ?thesis
      by (simp add: mat_mat_div[OF s] mat_T_mat_div[OF s] mat_T_mat_add[OF X(1) Y(1)] X(2) Y(2))
  qed
  show ?thesis
    unfolding r
    using div[OF pv] div[OF cv] inv[OF pr' pr] inv[OF cr' cr]
      hill[OF div[OF pv] inv[OF pr' pr]] hill[OF div[OF cv] inv[OF cr' cr]]
    by simp
qed

section \<open>Reading orientation tables\<close>

lemma not_nan_append: "not_nan (xs @ ys) = not_nan xs @ not_nan ys"
  by (simp add: not_nan_def)

lemma not_nan_concat: "not_nan (concat rows) = concat (map not_nan rows)"
  by (induction rows) (simp_all add: not_nan_append not_nan_def)

lemma length_concat_const:
  "\<forall>r\<in>set rows. length r = k \<Longrightarrow> length (concat rows) = length rows * k"
  by (induction rows) simp_all

lemma reshape_concat:
  "\<forall>r\<in>set rows. length r = k \<Longrightarrow> reshape (length rows) k (concat rows) = rows"
  by (induction rows) simp_all

lemma read_ang_array_rows:
  assumes rows: "3 < length table"
    and k: "\<forall>row\<in>set table. length (not_nan (slice 0 3 row)) = k"
  shows "read_ang_array table = Inr (map (\<lambda>row. not_nan (slice 0 3 row)) table)"
proof -
  let ?rows = "map (\<lambda>row. not_nan (slice 0 3 row)) table"
  have k': "\<forall>r\<in>set ?rows. length r = k" using k by simp
  have flat: "not_nan (concat (map (slice 0 3) table)) = concat ?rows"
    by (simp add: not_nan_concat comp_def)
  have len: "length (concat ?rows) = length table * k"
    using length_concat_const[OF k'] by simp
  have m: "fst (shape (map (slice 0 3) table)) = length table" "fst (shape table) = length table"
    by (simp_all add: shape_def)
  have "reshape (length table) k (concat ?rows) = ?rows"
    using reshape_concat[OF k'] by simp
  moreover have "table \<noteq> []" using rows by auto
  ultimately show ?thesis
    using rows by (simp add: read_ang_array_def m flat len Let_def)
qed

lemma length8: "length [a, b, c, d, e, f, g, h] = 8"
  by simp

lemma length12: "length [a, b, c, d, e, f, g, h, i, j, k, l] = 12"
  by simp

lemma reshape_2_4: "reshape 2 4 [a, b, c, d, e, f, g, h] = [[a, b, c, d], [e, f, g, h]]"
  by (simp add: eval_nat_numeral)

lemma reshape_4_2:
  "reshape 4 2 [a, b, c, d, e, f, g, h] = [[a, b], [c, d], [e, f], [g, h]]"
  by (simp add: eval_nat_numeral)

lemma reshape_4_3:
  "reshape 4 3 [a, b, c, d, e, f, g, h, i, j, k, l] = [[a, b, c], [d, e, f], [g, h, i], [j, k, l]]"
  by (simp add: eval_nat_numeral)

lemma slice_0_3: "slice 0 3 (a # b # c # xs) = [a, b, c]"
  by (simp add: slice_def eval_nat_numeral)

lemma read_ang_short_table:
  "read_ang_array [[Num 1, Num 2, Num 3, Num 4], [Num 5, Num 6, Num 7, Num 8]]
     = Inr [[1, 2, 3, 4], [5, 6, 7, 8]]"
proof -
  let ?T = "[[Num 1, Num 2, Num 3, Num 4], [Num 5, Num 6, Num 7, Num 8]]"
  have 1: "fst (shape ?T) = 2"
    by (simp add: shape_def)
  have 2: "not_nan [Num 1, Num 2, Num 3, Num 4, Num 5, Num 6, Num 7, Num 8]
      = [1, 2, 3, 4, 5, 6, 7, 8]"
    by (simp add: not_nan_def)
  show ?thesis
    by (simp add: read_ang_array_def Let_def 1 2 length8 reshape_2_4 del: length_Cons list.size)
qed

lemma read_ang_nan_column:
  "read_ang_array [[NaN, Num 2, Num 3, Num 4], [NaN, Num 6, Num 7, Num 8],
                   [NaN, Num 1, Num 2, Num 3], [NaN, Num 4, Num 5, Num 6]]
     = Inr [[2, 3], [6, 7], [1, 2], [4, 5]]"
proof -
  let ?T = "[[NaN, Num 2, Num 3, Num 4], [NaN, Num 6, Num 7, Num 8],
             [NaN, Num 1, Num 2, Num 3], [NaN, Num 4, Num 5, Num 6]]"
  let ?E = "[[NaN, Num 2, Num 3], [NaN, Num 6, Num 7], [NaN, Num 1, Num 2], [NaN, Num 4, Num 5]]"
  have 0: "map (slice 0 3) ?T = ?E"
    by (simp add: slice_0_3)
  have 1: "fst (shape ?T) = 4" "fst (shape ?E) = 4"
    by (simp_all add: shape_def)
  have 2: "not_nan [NaN, Num 2, Num 3, NaN, Num 6, Num 7, NaN, Num 1, Num 2, NaN, Num 4, Num 5]
      = [2, 3, 6, 7, 1, 2, 4, 5]"
    by (simp add: not_nan_def)
  show ?thesis
    unfolding read_ang_array_def Let_def 1 0
    by (simp add: 1 2 length8 reshape_4_2 del: length_Cons list.size)
qed

section \<open>Singular and invertible tensors\<close>

lemma linalg_inv_error: "linalg_inv A = Inl e \<Longrightarrow> e = LinAlgError"
  by (auto simp add: linalg_inv_def split: if_splits option.splits)

lemma linalg_inv_zero_row:
  assumes A: "mat n A" and r: "r < n" and zero: "\<And>j. j < n \<Longrightarrow> A ! r ! j = 0"
  shows "linalg_inv A = Inl LinAlgError"
proof (cases "linalg_inv A")
  case (Inl e)
  then show ?thesis using linalg_inv_error[OF Inl] by simp
next
  case (Inr B)
  have n: "length A = n" by (rule mat_length[OF A])
  from linalg_inv_sound[OF Inr] have B: "mat n B" and AB: "matmul A B = eye n"
    by (simp_all add: n)
  have "matmul A B ! r ! r = (\<Sum>k = 0..<n. A ! r ! k * B ! k ! r)"
    by (rule matmul_nth[OF A B r r])
  also have "\<dots> = 0"
    by (rule sum.neutral) (simp add: zero)
  finally have "eye n ! r ! r = 0" using AB by simp
  then show ?thesis using r by (simp add: eye_nth)
qed

lemma water_limits:
  "isotropic_materials ''water''
     = Some [1450, 1500, 0, 0, 80.36, 80.36, 5.5 / 10 ^ 6, 5 / 10 ^ 2]"
  by (simp add: isotropic_materials_def)

lemma water_stiffness:
  "isotropic_stiffness_tensor 0 1000 [1450, 1500, 0, 0, 80.36, 80.36, 5.5 / 10 ^ 6, 5 / 10 ^ 2]
     = Inr [[2102500000, 2102500000, 2102500000, 0, 0, 0],
            [2102500000, 2102500000, 2102500000, 0, 0, 0],
            [2102500000, 2102500000, 2102500000, 0, 0, 0],
            [0, 0, 0, 0, 0, 0],
            [0, 0, 0, 0, 0, 0],
            [0, 0, 0, 0, 0, 0]]"
  by (simp add: isotropic_stiffness_tensor_rows Let_def)

lemma water_stiffness_singular:
  "linalg_inv [[2102500000, 2102500000, 2102500000, 0, 0, 0],
               [2102500000, 2102500000, 2102500000, 0, 0, 0],
               [2102500000, 2102500000, 2102500000, 0, 0, 0],
               [0, 0, 0, 0, 0, 0],
               [0, 0, 0, 0, 0, 0],
               [0, 0, 0, 0, 0, 0]] = Inl LinAlgError"
proof (rule linalg_inv_zero_row[where n = 6 and r = 3])
  fix j :: nat assume "j < 6"
  then have "j \<in> set [0..<6]" by simp
  then show "[[2102500000, 2102500000, 2102500000, 0, 0, 0],
               [2102500000, 2102500000, 2102500000, 0, 0, 0],
               [2102500000, 2102500000, 2102500000, 0, 0, 0],
               [0, 0, 0, 0, 0, 0],
               [0, 0, 0, 0, 0, 0],
               [0, 0, 0, 0, 0, 0::real]] ! 3 ! j = 0"
    unfolding upt6 by auto
qed (simp_all add: mat_def)

lemma ice_stiffness_rows:
  "ice_stiffness t p =
    (let c11 = (136.813 - 0.28940 * t - 0.00178270 * t\<^sup>2 + 4.6648 * p - 0.13501 * p\<^sup>2);
         c12 = (69.4200 - 0.14673 * t - 0.00090362 * t\<^sup>2 + 5.0743 * p + 0.085917 * p\<^sup>2);
         c13 = (56.3410 - 0.11916 * t - 0.00073120 * t\<^sup>2 + 6.4189 * p - 0.52490 * p\<^sup>2);
         c33 = (147.607 - 0.31129 * t - 0.0018948 * t\<^sup>2 + 4.7546 * p - 0.11307 * p\<^sup>2);
         c44 = (29.7260 - 0.062874 * t - 0.00038956 * t\<^sup>2 + 0.5662 * p + 0.036917 * p\<^sup>2)
     in [[c11 * 10 ^ 8, c12 * 10 ^ 8, c13 * 10 ^ 8, 0, 0, 0],
         [c12 * 10 ^ 8, c11 * 10 ^ 8, c13 * 10 ^ 8, 0, 0, 0],
         [c13 * 10 ^ 8, c13 * 10 ^ 8, c33 * 10 ^ 8, 0, 0, 0],
         [0, 0, 0, c44 * 10 ^ 8, 0, 0],
         [0, 0, 0, 0, c44 * 10 ^ 8, 0],
         [0, 0, 0, 0, 0, (c11 - c12) / 2 * 10 ^ 8]])"
  by (simp add: ice_stiffness_def zeros66 setitem_def Let_def)

lemma ice_stiffness_0_0:
  "ice_stiffness 0 0 =
     [[13681300000, 6942000000, 5634100000, 0, 0, 0],
      [6942000000, 13681300000, 5634100000, 0, 0, 0],
      [5634100000, 5634100000, 14760700000, 0, 0, 0],
      [0, 0, 0, 2972600000, 0, 0],
      [0, 0, 0, 0, 2972600000, 0],
      [0, 0, 0, 0, 0, 3369650000]]"
  by (simp add: ice_stiffness_rows Let_def)

lemma matmul_rows6:
  fixes a0 a1 a2 a3 a4 a5 :: "real list"
  assumes "mat 6 B"
  shows "matmul [a0, a1, a2, a3, a4, a5] B =
    map (\<lambda>row. map (\<lambda>j. row ! 0 * B ! 0 ! j + row ! 1 * B ! 1 ! j + row ! 2 * B ! 2 ! j
                       + row ! 3 * B ! 3 ! j + row ! 4 * B ! 4 ! j + row ! 5 * B ! 5 ! j)
                  [0, 1, 2, 3, 4, 5]) [a0, a1, a2, a3, a4, a5]"
  by (simp add: matmul_def shape_mat[OF assms] mat_length[OF assms] upt6 add.assoc)

lemma ice_stiffness_0_0_inverse:
  "linalg_inv (ice_stiffness 0 0) =
     Inr [[1702024821 / 16236872746455170000, - (7072569659 / 162368727464551700000),
           - (56341 / 2409281786900000), 0, 0, 0],
          [- (7072569659 / 162368727464551700000), 1702024821 / 16236872746455170000,
           - (56341 / 2409281786900000), 0, 0, 0],
          [- (56341 / 2409281786900000), - (56341 / 2409281786900000),
           206233 / 2409281786900000, 0, 0, 0],
          [0, 0, 0, 1 / 2972600000, 0, 0],
          [0, 0, 0, 0, 1 / 2972600000, 0],
          [0, 0, 0, 0, 0, 1 / 3369650000]]"
  unfolding ice_stiffness_0_0
proof (rule linalg_inv_eqI[where n = 6])
  show "matmul [[1702024821 / 16236872746455170000, - (7072569659 / 162368727464551700000),
           - (56341 / 2409281786900000), 0, 0, 0],
          [- (7072569659 / 162368727464551700000), 1702024821 / 16236872746455170000,
           - (56341 / 2409281786900000), 0, 0, 0],
          [- (56341 / 2409281786900000), - (56341 / 2409281786900000),
           206233 / 2409281786900000, 0, 0, 0],
          [0, 0, 0, 1 / 2972600000, 0, 0],
          [0, 0, 0, 0, 1 / 2972600000, 0],
          [0, 0, 0, 0, 0, 1 / 3369650000]]
      [[13681300000, 6942000000, 5634100000, 0, 0, 0],
      [6942000000, 13681300000, 5634100000, 0, 0, 0],
      [5634100000, 5634100000, 14760700000, 0, 0, 0],
      [0, 0, 0, 2972600000, 0, 0],
      [0, 0, 0, 0, 2972600000, 0],
      [0, 0, 0, 0, 0, 3369650000]] = eye 6"
    by (subst matmul_rows6) (simp_all add: mat_def eye6_rows)
qed (simp_all add: mat_def)

lemma linalg_inv_eye3_scaled:
  assumes "x \<noteq> 0"
  shows "linalg_inv (eye3_scaled x) = Inr (eye3_scaled (1 / x))"
proof (rule linalg_inv_eqI[where n = 3])
  show "matmul (eye3_scaled (1 / x)) (eye3_scaled x) = eye 3"
    using assms by (simp add: eye3_scaled_rows eye3_rows matmul_def shape_def upt3)
qed (simp_all add: eye3_scaled_rows mat_def)

section \<open>Symmetric tensors\<close>

lemma symmetricI:
  assumes "mat n A" and "mat_T A = A"
  shows "symmetric A"
proof -
  have n: "length A = n" by (rule mat_length[OF assms(1)])
  have "A ! i ! j = A ! j ! i" if "i < n" "j < n" for i j
    by (rule symmetric_nth[OF assms that])
  then show ?thesis
    using assms(1) by (simp add: symmetric_def n list_all_iff)
qed

lemma symmetric_index:
  assumes "symmetric A" and "i < length A" and "j < length A"
  shows "A ! i ! j = A ! j ! i"
  using assms by (simp add: symmetric_def list_all_iff)

lemma symmetricD:
  assumes "symmetric A"
  shows "mat (length A) A" and "mat_T A = A"
proof -
  show m: "mat (length A) A" using assms by (simp add: symmetric_def)
  show "mat_T A = A"
    by (rule mat_eqI[OF mat_mat_T[OF m] m])
       (simp add: mat_T_nth[OF m] symmetric_index[OF assms])
qed

lemma symmetric_diag3: "symmetric [[a, 0, 0], [0, b, 0], [0, 0, c]]"
  by (simp add: symmetric_def mat_def upt3)

lemma symmetric_eye3_scaled: "symmetric (eye3_scaled x)"
  by (simp add: eye3_scaled_rows symmetric_diag3)

lemma symmetric_eye3_scaled_setitem: "symmetric (setitem (eye3_scaled x) 2 2 v)"
  by (simp add: eye3_scaled_rows setitem_def symmetric_diag3)

lemma isotropic_stiffness_tensor_Inr:
  assumes "isotropic_stiffness_tensor pressure density ml = Inr C"
  shows "4 \<le> length ml"
proof (rule ccontr)
  assume "\<not> 4 \<le> length ml"
  then have "length (slice 0 2 ml) < 2 \<or> length (slice 2 4 ml) < 2"
    by (auto simp add: slice_def)
  then have "isotropic_stiffness_tensor pressure density ml = Inl IndexError"
    unfolding isotropic_stiffness_tensor_def by (simp only: Let_def if_True)
  then show False using assms by simp
qed

lemma symmetric_isotropic_rows:
  "symmetric [[a, lam, lam, 0, 0, 0],
              [lam, a, lam, 0, 0, 0],
              [lam, lam, a, 0, 0, 0],
              [0, 0, 0, mu, 0, 0],
              [0, 0, 0, 0, mu, 0],
              [0, 0, 0, 0, 0, mu :: real]]"
  by (simp add: symmetric_def mat_def upt6)

lemma symmetric_isotropic_stiffness_tensor:
  assumes "isotropic_stiffness_tensor pressure density ml = Inr C"
  shows "symmetric C"
  using assms
  by (auto simp add: isotropic_stiffness_tensor_rows[OF isotropic_stiffness_tensor_Inr[OF assms]]
      Let_def symmetric_isotropic_rows)

lemma symmetric_hexagonal_rows:
  "symmetric [[c11, c12, c13, 0, 0, 0],
              [c12, c11, c13, 0, 0, 0],
              [c13, c13, c33, 0, 0, 0],
              [0, 0, 0, c44, 0, 0],
              [0, 0, 0, 0, c44, 0],
              [0, 0, 0, 0, 0, c66 :: real]]"
  by (simp add: symmetric_def mat_def upt6)

lemma symmetric_ice_stiffness: "symmetric (ice_stiffness t p)"
  by (simp add: ice_stiffness_rows Let_def symmetric_hexagonal_rows)

lemma length_ice_stiffness: "length (ice_stiffness t p) = 6"
  by (simp add: ice_stiffness_rows Let_def)

lemma if_chain_diagonal:
  assumes "(if b1 then Inr (eye3_scaled x1, eye3_scaled y1)
            else if b2 then Inr (eye3_scaled x2, eye3_scaled y2)
            else if b3 then Inr (eye3_scaled x3, eye3_scaled y3)
            else if b4 then Inr (eye3_scaled x4, eye3_scaled y4)
            else Inr (eye3_scaled x5, eye3_scaled y5)) = (Inr (P, Cd) :: error + _)"
  shows "\<exists>x y. P = eye3_scaled x \<and> Cd = eye3_scaled y"
  using assms by (auto split: if_splits)

lemma isotropic_permittivity_tensor_diagonal:
  assumes "isotropic_permittivity_tensor temperature porosity water_content material_name = Inr (P, Cd)"
  shows "\<exists>x y. P = eye3_scaled x \<and> Cd = eye3_scaled y"
proof -
  from assms obtain ml where ml: "isotropic_materials material_name = Some ml"
    unfolding isotropic_permittivity_tensor_def by (cases "isotropic_materials material_name") simp_all
  note r = assms[unfolded isotropic_permittivity_tensor_def ml option.case Let_def]
  show ?thesis by (rule if_chain_diagonal[OF r])
qed

lemma symmetric_isotropic_permittivity_tensor:
  assumes "isotropic_permittivity_tensor temperature porosity water_content material_name = Inr (P, Cd)"
  shows "symmetric P \<and> symmetric Cd"
  using isotropic_permittivity_tensor_diagonal[OF assms] by (auto simp add: symmetric_eye3_scaled)

lemma symmetric_ice_permittivity:
  assumes "ice_permittivity tables temperature density center_frequency method = Inr P"
  shows "case P of RealArray A \<Rightarrow> symmetric A | ComplexArray A \<Rightarrow> symmetric A"
  using assms
  by (auto simp add: ice_permittivity_def Let_def bind_err_Inr_iff symmetric_eye3_scaled
      symmetric_eye3_scaled_setitem split: if_splits)

lemma bind_errE:
  assumes "bind_err x f = Inr y"
  obtains v where "x = Inr v" and "f v = Inr y"
  using assms by (auto simp add: bind_err_Inr_iff)

lemma bind_chain_diagonal:
  assumes "bind_err pw (\<lambda>(rho_d, grams_air, grams_water).
             let lwc = f1 grams_water; rho_d = f2 rho_d; T = t
             in bind_err (X lwc rho_d T) (\<lambda>perm.
                  bind_err (Y lwc rho_d) (\<lambda>complex_permittivity.
                    Inr (eye3_scaled (Complex perm complex_permittivity), rho_d))))
           = Inr (P, r)"
  shows "\<exists>z. P = eye3_scaled z"
  using assms by (auto simp add: bind_err_Inr_iff Let_def split: prod.splits)

lemma symmetric_snow_permittivity:
  assumes "snow_permittivity tables density temperature lwc porosity center_frequency method
             = Inr (P, rho_d)"
  shows "symmetric P"
  using bind_chain_diagonal[OF assms[unfolded snow_permittivity_def]]
  by (auto simp add: symmetric_eye3_scaled)

lemma symmetric_voigt_reuss_hill:
  assumes "voigt_reuss_hill C euler = Inr (V, R, H)" and "symmetric C" and "length C = 6"
  shows "symmetric V \<and> symmetric R \<and> symmetric H"
proof -
  from symmetricD[OF assms(2)] assms(3) have C: "mat 6 C" "mat_T C = C" by simp_all
  from voigt_reuss_hill_symmetric[OF assms(1) C] show ?thesis
    by (blast intro: symmetricI)
qed

lemma symmetric_voigt_reuss_hill_dielectric:
  assumes "voigt_reuss_hill_dielectric P Cd euler = Inr r"
    and "symmetric P" and "length P = 3" and "symmetric Cd" and "length Cd = 3"
  shows "symmetric (voigt_permittivity r) \<and> symmetric (reuss_permittivity r) \<and> symmetric (hill_permittivity r)
       \<and> symmetric (voigt_conductivity r) \<and> symmetric (reuss_conductivity r) \<and> symmetric (hill_conductivity r)"
proof -
  from symmetricD[OF assms(2)] assms(3) have P: "mat 3 P" "mat_T P = P" by simp_all
  from symmetricD[OF assms(4)] assms(5) have Cd: "mat 3 Cd" "mat_T Cd = Cd" by simp_all
  from voigt_reuss_hill_dielectric_symmetric[OF assms(1) P Cd] show ?thesis
    by (blast intro: symmetricI)
qed

section \<open>The rows of get_seismic\<close>

lemma np_round_Ints: "np_round x \<in> \<int>"
  by (simp add: np_round_def Let_def)

lemma np_round_nearest: "\<bar>np_round x - x\<bar> \<le> 1 / 2"
proof -
  have "of_int \<lfloor>x\<rfloor> \<le> x" "x < of_int \<lfloor>x\<rfloor> + 1"
    by linarith+
  then show ?thesis
    by (auto simp add: np_round_def Let_def)
qed

lemma getitem_Inr: "getitem xs i = Inr v \<Longrightarrow> i < length xs \<and> v = xs ! i"
  by (auto simp add: getitem_def split: if_splits)

lemma mat6_ice_stiffness: "mat 6 (ice_stiffness t p)"
  using symmetricD(1)[OF symmetric_ice_stiffness] by (simp add: length_ice_stiffness)

lemma mat6_isotropic_stiffness_tensor:
  assumes "isotropic_stiffness_tensor pressure density ml = Inr C"
  shows "mat 6 C"
  using assms
  by (auto simp add: isotropic_stiffness_tensor_rows[OF isotropic_stiffness_tensor_Inr[OF assms]]
      Let_def mat_def)

lemma mat6_seismic_stiffness:
  assumes "seismic_stiffness files material ind density = Inr C"
  shows "mat 6 C"
proof -
  from assms obtain anisotropic name
    where r: "(if anisotropic \<and> name = ''ice1h'' then
         bind_err (getitem (material_angfile material) ind) (\<lambda>angfile.
         bind_err (read_ang files angfile) (\<lambda>euler.
         bind_err (getitem (material_temp material) ind) (\<lambda>temperature.
           let pressure = 0.1 * (1 / 10);
               C = ice_stiffness temperature pressure
           in bind_err (voigt_reuss_hill C euler) (\<lambda>(cvoigt, creuss, C). Inr C))))
       else if \<not> anisotropic \<and> name = ''ice1h'' then
         bind_err (getitem (material_temp material) ind) (\<lambda>temperature.
           Inr (ice_stiffness temperature 0.1))
       else
         (case isotropic_materials name of
            None \<Rightarrow> Inl KeyError
          | Some material_limits \<Rightarrow> isotropic_stiffness_tensor 0.1 density material_limits))
       = Inr C"
    unfolding seismic_stiffness_def by (elim bind_errE)
  consider (aniso) "anisotropic \<and> name = ''ice1h''"
    | (ice) "\<not> (anisotropic \<and> name = ''ice1h'')" "\<not> anisotropic \<and> name = ''ice1h''"
    | (iso) "\<not> (anisotropic \<and> name = ''ice1h'')" "\<not> (\<not> anisotropic \<and> name = ''ice1h'')"
    by blast
  then show ?thesis
  proof cases
    case aniso
    from r[unfolded if_P[OF aniso] Let_def] obtain angfile euler temperature v
      where v: "voigt_reuss_hill (ice_stiffness temperature (0.1 * (1 / 10))) euler = Inr v"
        and c: "(case v of (cvoigt, creuss, C) \<Rightarrow> Inr C) = (Inr C :: error + real list list)"
      by (elim bind_errE)
    obtain V R H where vrh: "v = (V, R, H)" by (cases v)
    from c have "H = C" by (simp add: vrh)
    with voigt_reuss_hill_symmetric[OF v[unfolded vrh] mat6_ice_stiffness
        symmetricD(2)[OF symmetric_ice_stiffness]]
    show ?thesis by simp
  next
    case ice
    from r[unfolded if_not_P[OF ice(1)] if_P[OF ice(2)]] obtain temperature
      where "Inr (ice_stiffness temperature 0.1) = (Inr C :: error + real list list)"
      by (elim bind_errE)
    then show ?thesis using mat6_ice_stiffness by auto
  next
    case iso
    from r[unfolded if_not_P[OF iso(1)] if_not_P[OF iso(2)]] obtain ml
      where "isotropic_stiffness_tensor 0.1 density ml = Inr C"
      by (cases "isotropic_materials name") simp_all
    then show ?thesis by (rule mat6_isotropic_stiffness_tensor)
  qed
qed

lemma seismic_row_Inr:
  assumes "seismic_row files material ind = Inr row"
  shows "\<exists>density grams_air grams_water C.
      porewater_correction (material_temp material ! ind) (material_rho material ! ind)
        (material_porosity material ! ind) (material_lwc material ! ind)
        = Inr (density, grams_air, grams_water)
    \<and> seismic_stiffness files material ind density = Inr C
    \<and> row = map np_round
              [C ! 0 ! 0, C ! 0 ! 1, C ! 0 ! 2, C ! 0 ! 3, C ! 0 ! 4, C ! 0 ! 5,
               C ! 1 ! 1, C ! 1 ! 2, C ! 1 ! 3, C ! 1 ! 4, C ! 1 ! 5,
               C ! 2 ! 2, C ! 2 ! 3, C ! 2 ! 4, C ! 2 ! 5,
               C ! 3 ! 3, C ! 3 ! 4, C ! 3 ! 5,
               C ! 4 ! 4, C ! 4 ! 5,
               C ! 5 ! 5] @ [density]"
proof -
  from assms[unfolded seismic_row_def] obtain temperature rho porosity lwc v C conds
    where g: "getitem (material_temp material) ind = Inr temperature"
      "getitem (material_rho material) ind = Inr rho"
      "getitem (material_porosity material) ind = Inr porosity"
      "getitem (material_lwc material) ind = Inr lwc"
    and pw: "porewater_correction temperature rho porosity lwc = Inr v"
    and rest: "(case v of (density, grams_air, grams_water) \<Rightarrow>
       bind_err (seismic_stiffness files material ind density) (\<lambda>C.
       bind_err (highfreq_stability_conditions C) (\<lambda>conds.
       let C = map (map np_round) C
       in Inr [C ! 0 ! 0, C ! 0 ! 1, C ! 0 ! 2, C ! 0 ! 3, C ! 0 ! 4, C ! 0 ! 5,
               C ! 1 ! 1, C ! 1 ! 2, C ! 1 ! 3, C ! 1 ! 4, C ! 1 ! 5,
               C ! 2 ! 2, C ! 2 ! 3, C ! 2 ! 4, C ! 2 ! 5,
               C ! 3 ! 3, C ! 3 ! 4, C ! 3 ! 5,
               C ! 4 ! 4, C ! 4 ! 5,
               C ! 5 ! 5,
               density]))) = Inr row"
    by (elim bind_errE)
  obtain density grams_air grams_water where v: "v = (density, grams_air, grams_water)"
    by (cases v)
  from rest[unfolded v prod.case] obtain C conds
    where C: "seismic_stiffness files material ind density = Inr C"
      and row: "(let C = map (map np_round) C
       in Inr [C ! 0 ! 0, C ! 0 ! 1, C ! 0 ! 2, C ! 0 ! 3, C ! 0 ! 4, C ! 0 ! 5,
               C ! 1 ! 1, C ! 1 ! 2, C ! 1 ! 3, C ! 1 ! 4, C ! 1 ! 5,
               C ! 2 ! 2, C ! 2 ! 3, C ! 2 ! 4, C ! 2 ! 5,
               C ! 3 ! 3, C ! 3 ! 4, C ! 3 ! 5,
               C ! 4 ! 4, C ! 4 ! 5,
               C ! 5 ! 5,
               density]) = (Inr row :: error + real list)"
    by (elim bind_errE)
  have m: "mat 6 C" by (rule mat6_seismic_stiffness[OF C])
  have nth: "map (map np_round) C ! i ! j = np_round (C ! i ! j)" if "i < 6" "j < 6" for i j
    using that mat_length[OF m] mat_row_length[OF m] by simp
  from row have "row = map np_round
              [C ! 0 ! 0, C ! 0 ! 1, C ! 0 ! 2, C ! 0 ! 3, C ! 0 ! 4, C ! 0 ! 5,
               C ! 1 ! 1, C ! 1 ! 2, C ! 1 ! 3, C ! 1 ! 4, C ! 1 ! 5,
               C ! 2 ! 2, C ! 2 ! 3, C ! 2 ! 4, C ! 2 ! 5,
               C ! 3 ! 3, C ! 3 ! 4, C ! 3 ! 5,
               C ! 4 ! 4, C ! 4 ! 5,
               C ! 5 ! 5] @ [density]"
    by (simp add: Let_def nth eq_commute)
  moreover have "porewater_correction (material_temp material ! ind) (material_rho material ! ind)
        (material_porosity material ! ind) (material_lwc material ! ind)
        = Inr (density, grams_air, grams_water)"
    using g pw v by (auto dest!: getitem_Inr)
  ultimately show ?thesis using C by blast
qed

lemma get_seismic_loop_rows:
  "get_seismic_loop files material inds c = Inr c'
    \<Longrightarrow> (ind \<in> set inds \<longrightarrow> (\<exists>row. seismic_row files material ind = Inr row \<and> c' ind = Some row))
      \<and> (ind \<notin> set inds \<longrightarrow> c' ind = c ind)"
proof (induction inds arbitrary: c)
  case Nil
  then show ?case by simp
next
  case (Cons i inds)
  from Cons.prems obtain row where row: "seismic_row files material i = Inr row"
    and rest: "get_seismic_loop files material inds (c(i \<mapsto> row)) = Inr c'"
    by (auto simp add: bind_err_Inr_iff)
  from Cons.IH[OF rest] row show ?case
    by (cases "ind \<in> set inds") auto
qed

lemma porewater_correction_ice_sample:
  "porewater_correction (-10) 917 0 0 = Inr (917, 14485000000 / 10790539947, 0)"
  by (simp add: porewater_correction_def rho_water_correction_def Let_def)

lemma ice_stiffness_sample:
  "ice_stiffness (-10) 0.1 =
     [[13999385990, 7130522717, 5809612100, 0, 0, 0],
      [7130522717, 13999385990, 5809612100, 0, 0, 0],
      [5809612100, 5809612100, 15100474930, 0, 0, 0],
      [0, 0, 0, 3037277317, 0, 0],
      [0, 0, 0, 0, 3037277317, 0],
      [0, 0, 0, 0, 0, 6868863273 / 2]]"
  by (simp add: ice_stiffness_rows Let_def power2_eq_square)

lemma np_round_of_int: "np_round (of_int z) = of_int z"
  by (simp add: np_round_def Let_def)

lemma np_round_numeral [simp]: "np_round (numeral n) = numeral n"
  using np_round_of_int[of "numeral n"] by simp

lemma np_round_zero [simp]: "np_round 0 = 0"
  using np_round_of_int[of 0] by simp

lemma np_round_tie: "np_round (6868863273 / 2) = 3434431636"
proof -
  have "\<lfloor>6868863273 / 2 :: real\<rfloor> = 3434431636"
    by linarith
  then show ?thesis
    by (simp add: np_round_def Let_def)
qed

lemma seismic_row_ice_sample:
  "seismic_row files
     \<lparr>material_temp = [- 10], material_rho = [917], material_porosity = [0],
      material_lwc = [0], material_is_anisotropic = [False], material_material = [''ice1h''],
      material_angfile = ['''']\<rparr> 0 =
     Inr [13999385990, 7130522717, 5809612100, 0, 0, 0,
          13999385990, 5809612100, 0, 0, 0,
          15100474930, 0, 0, 0,
          3037277317, 0, 0,
          3037277317, 0,
          3434431636,
          917]"
proof -
  have s: "seismic_stiffness files
     \<lparr>material_temp = [- 10], material_rho = [917], material_porosity = [0],
      material_lwc = [0], material_is_anisotropic = [False], material_material = [''ice1h''],
      material_angfile = ['''']\<rparr> 0 917 = Inr (ice_stiffness (-10) 0.1)"
    by (simp add: seismic_stiffness_def getitem_def)
  have h: "\<exists>conds. highfreq_stability_conditions (ice_stiffness (-10) 0.1) = Inr conds"
    by (simp add: ice_stiffness_sample highfreq_stability_conditions_def shape_def Let_def)
  then obtain conds where h: "highfreq_stability_conditions (ice_stiffness (-10) 0.1) = Inr conds" ..
  have g: "getitem (material_temp
     \<lparr>material_temp = [- 10], material_rho = [917], material_porosity = [0],
      material_lwc = [0], material_is_anisotropic = [False], material_material = [''ice1h''],
      material_angfile = ['''']\<rparr>) 0 = Inr (-10)"
    "getitem (material_rho
     \<lparr>material_temp = [- 10], material_rho = [917], material_porosity = [0],
      material_lwc = [0], material_is_anisotropic = [False], material_material = [''ice1h''],
      material_angfile = ['''']\<rparr>) 0 = Inr 917"
    "getitem (material_porosity
     \<lparr>material_temp = [- 10], material_rho = [917], material_porosity = [0],
      material_lwc = [0], material_is_anisotropic = [False], material_material = [''ice1h''],
      material_angfile = ['''']\<rparr>) 0 = Inr 0"
    "getitem (material_lwc
     \<lparr>material_temp = [- 10], material_rho = [917], material_porosity = [0],
      material_lwc = [0], material_is_anisotropic = [False], material_material = [''ice1h''],
      material_angfile = ['''']\<rparr>) 0 = Inr 0"
    by (simp_all add: getitem_def)
  show ?thesis
    unfolding seismic_row_def g bind_err_Inr porewater_correction_ice_sample prod.case s h
    by (simp add: ice_stiffness_sample Let_def np_round_tie)
qed

section \<open>The tensors of get_perm\<close>

lemma ice_permittivity_fujita_diag:
  assumes "ice_permittivity tables temperature density center_frequency ''fujita'' = Inr P"
  shows "\<exists>z w. P = ComplexArray [[z, 0, 0], [0, z, 0], [0, 0, w]]"
  using assms
  by (auto simp add: ice_permittivity_def Let_def bind_err_Inr_iff eye3_scaled_rows setitem_def)

lemma snow_conductivity_diag:
  "snow_conductivity lwc (Some (ComplexArray [[a, 0, 0], [0, b, 0], [0, 0, c]])) (Some f)
     = Inr [[Im a * f * eps0, 0, 0], [0, Im b * f * eps0, 0], [0, 0, Im c * f * eps0]]"
  by (simp add: snow_conductivity_def eye3_times_def shape_def upt3)

lemma np_round3_zero: "np_round3 0 = 0"
  by (simp add: np_round3_def)

lemma snow_permittivity_diagonal:
  assumes "snow_permittivity tables density temperature lwc porosity center_frequency method
             = Inr (P, rho_d)"
  shows "\<exists>z. P = eye3_scaled z"
  by (rule bind_chain_diagonal[OF assms[unfolded snow_permittivity_def]])

lemma dielectric_tensors_diagonal:
  assumes "dielectric_tensors tables f0 material ind = Inr (P, Cd)"
  shows "\<exists>a b c d e f. P = [[a, 0, 0], [0, b, 0], [0, 0, c]]
                     \<and> Cd = [[d, 0, 0], [0, e, 0], [0, 0, f]]"
proof -
  from assms[unfolded dielectric_tensors_def] obtain name
    where r: "(if name = ''ice1h'' then
         bind_err (getitem (material_temp material) ind) (\<lambda>temperature.
         bind_err (getitem (material_rho material) ind) (\<lambda>rho.
         bind_err (ice_permittivity tables temperature rho f0 ''fujita'') (\<lambda>permittivity.
         bind_err (snow_conductivity None (Some permittivity) (Some f0)) (\<lambda>conductivity.
           Inr (real_part permittivity, conductivity)))))
       else if name = ''snow'' then
         bind_err (getitem (material_temp material) ind) (\<lambda>temperature.
         bind_err (getitem (material_lwc material) ind) (\<lambda>lwc.
         bind_err (getitem (material_porosity material) ind) (\<lambda>porosity.
         bind_err (snow_permittivity tables 917 temperature lwc porosity f0 ''shivola-tiuri'')
           (\<lambda>(permittivity, rho_d).
         bind_err (snow_conductivity None (Some (ComplexArray permittivity)) (Some f0))
           (\<lambda>conductivity.
           Inr (real_part (ComplexArray permittivity), conductivity))))))
       else
         bind_err (getitem (material_temp material) ind) (\<lambda>temperature.
         bind_err (getitem (material_porosity material) ind) (\<lambda>porosity.
         bind_err (getitem (material_lwc material) ind) (\<lambda>lwc.
         bind_err (isotropic_permittivity_tensor temperature porosity lwc name)
           (\<lambda>(permittivity, c).
         bind_err (isotropic_permittivity_tensor temperature porosity lwc name)
           (\<lambda>(p, conductivity).
           Inr (map (map np_round3) permittivity, conductivity)))))))
       = Inr (P, Cd)"
    by (elim bind_errE)
  consider (ice) "name = ''ice1h''" | (snow) "name \<noteq> ''ice1h''" "name = ''snow''"
    | (other) "name \<noteq> ''ice1h''" "name \<noteq> ''snow''"
    by blast
  then show ?thesis
  proof cases
    case ice
    from r[unfolded if_P[OF ice]] obtain temperature rho permittivity conductivity
      where p: "ice_permittivity tables temperature rho f0 ''fujita'' = Inr permittivity"
        and c: "snow_conductivity None (Some permittivity) (Some f0) = Inr conductivity"
        and e: "Inr (real_part permittivity, conductivity) = (Inr (P, Cd) :: error + _)"
      by (elim bind_errE)
    from ice_permittivity_fujita_diag[OF p] obtain z w
      where z: "permittivity = ComplexArray [[z, 0, 0], [0, z, 0], [0, 0, w]]" by blast
    from c e show ?thesis
      unfolding z snow_conductivity_diag by (auto simp add: real_part_def)
  next
    case snow
    from r[unfolded if_not_P[OF snow(1)] if_P[OF snow(2)]] obtain temperature lwc porosity v
      where p: "snow_permittivity tables 917 temperature lwc porosity f0 ''shivola-tiuri'' = Inr v"
        and rest: "(case v of (permittivity, rho_d) \<Rightarrow>
           bind_err (snow_conductivity None (Some (ComplexArray permittivity)) (Some f0))
             (\<lambda>conductivity. Inr (real_part (ComplexArray permittivity), conductivity)))
          = Inr (P, Cd)"
      by (elim bind_errE)
    obtain A rho_d where v: "v = (A, rho_d)" by (cases v)
    from snow_permittivity_diagonal[OF p[unfolded v]] obtain z where z: "A = eye3_scaled z"
      by blast
    from rest[unfolded v prod.case z eye3_scaled_rows snow_conductivity_diag bind_err_Inr]
    show ?thesis by (auto simp add: real_part_def)
  next
    case other
    from r[unfolded if_not_P[OF other(1)] if_not_P[OF other(2)]]
    obtain temperature porosity lwc v1 v2
      where p1: "isotropic_permittivity_tensor temperature porosity lwc name = Inr v1"
        and p2: "isotropic_permittivity_tensor temperature porosity lwc name = Inr v2"
        and rest: "(case v1 of (permittivity, c) \<Rightarrow>
            bind_err (isotropic_permittivity_tensor temperature porosity lwc name)
              (\<lambda>(p, conductivity). Inr (map (map np_round3) permittivity, conductivity)))
          = Inr (P, Cd)"
      by (elim bind_errE)
    obtain A B where v1: "v1 = (A, B)" by (cases v1)
    from isotropic_permittivity_tensor_diagonal[OF p1[unfolded v1]] obtain x y
      where xy: "A = eye3_scaled x" "B = eye3_scaled y" by blast
    from rest[unfolded v1 prod.case p1 bind_err_Inr xy eye3_scaled_rows]
    show ?thesis by (auto simp add: np_round3_zero)
  qed
qed

lemma dielectric_tensors_symmetric:
  assumes "dielectric_tensors tables f0 material ind = Inr (P, Cd)"
  shows "symmetric P \<and> length P = 3 \<and> symmetric Cd \<and> length Cd = 3"
  using dielectric_tensors_diagonal[OF assms] by (auto simp add: symmetric_diag3)

lemma granite_permittivity:
  "isotropic_permittivity_tensor 0 0 0 ''granite''
     = Inr (eye3_scaled 4.8, eye3_scaled (4 / 10 ^ 5))"
  by (simp add: isotropic_permittivity_tensor_def granite_limits Let_def)

lemma np_round3_granite: "np_round3 (24 / 5) = 24 / 5"
proof -
  have "np_round (4800 :: real) = 4800"
    using np_round_of_int[of 4800] by simp
  then show ?thesis
    by (simp add: np_round3_def)
qed

lemma dielectric_tensors_granite:
  "dielectric_tensors tables f0
     \<lparr>material_temp = [0], material_rho = [2700], material_porosity = [0],
      material_lwc = [0], material_is_anisotropic = [True], material_material = [''granite''],
      material_angfile = [''euler.ang'']\<rparr> 0
   = Inr ([[4.8, 0, 0], [0, 4.8, 0], [0, 0, 4.8]],
          [[4 / 10 ^ 5, 0, 0], [0, 4 / 10 ^ 5, 0], [0, 0, 4 / 10 ^ 5]])"
  by (simp add: dielectric_tensors_def getitem_def granite_permittivity eye3_scaled_rows
      np_round3_granite np_round3_zero)

lemma ice_permittivity_kovacs:
  "ice_permittivity tables temperature 917 center_frequency ''kovacs''
     = Inr (RealArray (eye3_scaled ((1 + 0.845 * 917)\<^sup>2)))"
  by (simp add: ice_permittivity_def Let_def)

lemma ice_permittivity_fujita_sample:
  "\<exists>P. ice_permittivity \<lparr>A_interp = \<lambda>T. 1 / 10 ^ 3, B_interp = \<lambda>T. 1 / 10 ^ 4, C_interp = \<lambda>T. 1\<rparr>
        (- 10) 917 (10 ^ 9) ''fujita'' = Inr (ComplexArray P)"
  by (simp add: ice_permittivity_def fujita_complex_permittivity_def Let_def)

lemma snow_permittivity_sample:
  "\<exists>P. snow_permittivity \<lparr>A_interp = \<lambda>T. 1 / 10 ^ 3, B_interp = \<lambda>T. 1 / 10 ^ 4, C_interp = \<lambda>T. 1\<rparr>
        917 (- 10) 0 0 (10 ^ 9) ''shivola-tiuri'' = Inr (P, 917 / 1000)"
proof -
  obtain P where P: "ice_permittivity \<lparr>A_interp = \<lambda>T. 1 / 10 ^ 3, B_interp = \<lambda>T. 1 / 10 ^ 4, C_interp = \<lambda>T. 1\<rparr>
        (- 10) 917 (10 ^ 9) ''fujita'' = Inr (ComplexArray P)"
    using ice_permittivity_fujita_sample by blast
  show ?thesis
    unfolding snow_permittivity_def porewater_correction_ice_sample bind_err_Inr prod.case
    by (simp add: Let_def P[simplified])
qed

section \<open>The tensors the pipelines invert\<close>

lemma linalg_inv_diag3:
  assumes "a \<noteq> 0" and "b \<noteq> 0" and "c \<noteq> 0"
  shows "linalg_inv [[a, 0, 0], [0, b, 0], [0, 0, c]]
           = Inr [[1 / a, 0, 0], [0, 1 / b, 0], [0, 0, 1 / c]]"
proof (rule linalg_inv_eqI[where n = 3])
  show "matmul [[1 / a, 0, 0], [0, 1 / b, 0], [0, 0, 1 / c]] [[a, 0, 0], [0, b, 0], [0, 0, c]]
          = eye 3"
    using assms by (simp add: eye3_rows matmul_def shape_def upt3)
qed (simp_all add: mat_def)

lemma linalg_inv_hexagonal:
  fixes a b c d e f :: real
  assumes ab: "a \<noteq> b" and D: "(a + b) * d - 2 * c * c \<noteq> 0" and e: "e \<noteq> 0" and f: "f \<noteq> 0"
  shows "\<exists>S. linalg_inv [[a, b, c, 0, 0, 0], [b, a, c, 0, 0, 0], [c, c, d, 0, 0, 0],
                         [0, 0, 0, e, 0, 0], [0, 0, 0, 0, e, 0], [0, 0, 0, 0, 0, f]] = Inr S"
proof -
  define D where "D = (a + b) * d - 2 * c * c"
  define s11 where "s11 = (a * d - c * c) / ((a - b) * D)"
  define s12 where "s12 = (c * c - b * d) / ((a - b) * D)"
  define s13 where "s13 = - c / D"
  define s33 where "s33 = (a + b) / D"
  have D0: "D \<noteq> 0" using D by (simp add: D_def)
  have ab0: "a - b \<noteq> 0" using ab by simp
  have p0: "(a - b) * D \<noteq> 0" using D0 ab0 by simp
  have e1: "((a * d - c * c) * a + (c * c - b * d) * b) = (a - b) * (D + c * c)"
    by (simp add: D_def algebra_simps)
  have "s11 * a + s12 * b = ((a * d - c * c) * a + (c * c - b * d) * b) / ((a - b) * D)"
    unfolding s11_def s12_def by (simp add: add_divide_distrib)
  also have "\<dots> = ((a - b) * (D + c * c)) / ((a - b) * D)"
    by (simp only: e1)
  also have "\<dots> = (D + c * c) / D"
    using ab0 by simp
  finally have "s11 * a + s12 * b = 1 + c * c / D"
    using D0 by (simp add: add_divide_distrib)
  then have r1: "s11 * a + s12 * b + s13 * c = 1"
    unfolding s13_def by simp
  have e2: "((a * d - c * c) * b + (c * c - b * d) * a) = (a - b) * (c * c)"
    by (simp add: algebra_simps)
  have "s11 * b + s12 * a = ((a * d - c * c) * b + (c * c - b * d) * a) / ((a - b) * D)"
    unfolding s11_def s12_def by (simp add: add_divide_distrib)
  also have "\<dots> = ((a - b) * (c * c)) / ((a - b) * D)"
    by (simp only: e2)
  also have "\<dots> = c * c / D"
    using ab0 by simp
  finally have r2: "s11 * b + s12 * a + s13 * c = 0"
    unfolding s13_def by simp
  have e3: "((a * d - c * c) * c + (c * c - b * d) * c) = (a - b) * (c * d)"
    by (simp add: algebra_simps)
  have "s11 * c + s12 * c = ((a * d - c * c) * c + (c * c - b * d) * c) / ((a - b) * D)"
    unfolding s11_def s12_def by (simp add: add_divide_distrib)
  also have "\<dots> = ((a - b) * (c * d)) / ((a - b) * D)"
    by (simp only: e3)
  also have "\<dots> = c * d / D"
    using ab0 by simp
  finally have r3: "s11 * c + s12 * c + s13 * d = 0"
    unfolding s13_def by simp
  have r3': "s12 * c + s11 * c + s13 * d = 0"
    using r3 by simp
  have r2': "s12 * a + s11 * b + s13 * c = 0"
    using r2 by simp
  have r1': "s12 * b + s11 * a + s13 * c = 1"
    using r1 by simp
  have r4: "s13 * a + s13 * b + s33 * c = 0"
    unfolding s13_def s33_def by (simp add: algebra_simps add_divide_distrib diff_divide_distrib)
  have r4': "s13 * b + s13 * a + s33 * c = 0"
    using r4 by simp
  have "s13 * c + s13 * c + s33 * d = ((a + b) * d - 2 * c * c) / D"
    unfolding s13_def s33_def by (simp add: algebra_simps add_divide_distrib diff_divide_distrib)
  then have r5: "s13 * c + s13 * c + s33 * d = 1"
    using D0 by (simp add: D_def)
  have r5': "2 * (c * s13) + s33 * d = 1"
    using r5 by simp
  have "linalg_inv [[a, b, c, 0, 0, 0], [b, a, c, 0, 0, 0], [c, c, d, 0, 0, 0],
                    [0, 0, 0, e, 0, 0], [0, 0, 0, 0, e, 0], [0, 0, 0, 0, 0, f]]
      = Inr [[s11, s12, s13, 0, 0, 0], [s12, s11, s13, 0, 0, 0], [s13, s13, s33, 0, 0, 0],
             [0, 0, 0, 1 / e, 0, 0], [0, 0, 0, 0, 1 / e, 0], [0, 0, 0, 0, 0, 1 / f]]"
  proof (rule linalg_inv_eqI[where n = 6])
    show "matmul [[s11, s12, s13, 0, 0, 0], [s12, s11, s13, 0, 0, 0], [s13, s13, s33, 0, 0, 0],
             [0, 0, 0, 1 / e, 0, 0], [0, 0, 0, 0, 1 / e, 0], [0, 0, 0, 0, 0, 1 / f]]
            [[a, b, c, 0, 0, 0], [b, a, c, 0, 0, 0], [c, c, d, 0, 0, 0],
                    [0, 0, 0, e, 0, 0], [0, 0, 0, 0, e, 0], [0, 0, 0, 0, 0, f]] = eye 6"
      by (subst matmul_rows6)
         (simp_all add: mat_def eye6_rows r1 r2 r3 r1' r2' r3' r4 r4' r5' e f)
  qed (simp_all add: mat_def)
  then show ?thesis ..
qed

lemma ice_stiffness_invertible:
  fixes t :: real
  assumes lo: "- 273.15 \<le> t" and hi: "t \<le> 0"
  shows "\<exists>S. linalg_inv (ice_stiffness t (0.1 * (1 / 10))) = Inr S"
proof -
  define x where "x = t * t"
  define c11 where "c11 = 136.859634499 - 0.28940 * t - 0.00178270 * x"
  define c12 where "c12 = 69.4707515917 - 0.14673 * t - 0.00090362 * x"
  define c13 where "c13 = 56.40513651 - 0.11916 * t - 0.00073120 * x"
  define c33 where "c33 = 147.654534693 - 0.31129 * t - 0.0018948 * x"
  define c44 where "c44 = 29.7316656917 - 0.062874 * t - 0.00038956 * x"
  have rows: "ice_stiffness t (0.1 * (1 / 10)) =
     [[c11 * 10 ^ 8, c12 * 10 ^ 8, c13 * 10 ^ 8, 0, 0, 0],
      [c12 * 10 ^ 8, c11 * 10 ^ 8, c13 * 10 ^ 8, 0, 0, 0],
      [c13 * 10 ^ 8, c13 * 10 ^ 8, c33 * 10 ^ 8, 0, 0, 0],
      [0, 0, 0, c44 * 10 ^ 8, 0, 0],
      [0, 0, 0, 0, c44 * 10 ^ 8, 0],
      [0, 0, 0, 0, 0, (c11 - c12) / 2 * 10 ^ 8]]"
    by (simp add: ice_stiffness_rows Let_def power2_eq_square
          c11_def c12_def c13_def c33_def c44_def x_def)
  have "0 \<le> (- t) * (t + 273.15)"
    using lo hi by (intro mult_nonneg_nonneg) simp_all
  then have x1: "x \<le> - 273.15 * t"
    by (simp add: x_def algebra_simps)
  have "0 \<le> (t + 81.48) * (t + 81.48)"
    by simp
  then have x2: "0 \<le> x + 162.96 * t + 6638.9904"
    by (simp add: x_def algebra_simps)
  have x0: "0 \<le> x"
    by (simp add: x_def)
  have b44: "17 \<le> c44" unfolding c44_def using x1 lo hi by simp
  have bd: "40 \<le> c11 - c12" unfolding c11_def c12_def using x1 lo hi by simp
  have bs: "125 \<le> c11 + c12" unfolding c11_def c12_def using x1 lo hi by simp
  have b33: "91 \<le> c33" unfolding c33_def using x1 lo hi by simp
  have b13u: "c13 \<le> 61.3" unfolding c13_def using x2 lo hi by simp
  have b13l: "0 \<le> c13" unfolding c13_def using x1 lo hi by simp
  have "125 * 91 \<le> (c11 + c12) * c33"
    using bs b33 by (intro mult_mono) simp_all
  moreover have "c13 * c13 \<le> 61.3 * 61.3"
    using b13u b13l by (intro mult_mono) simp_all
  ultimately have D: "0 < (c11 + c12) * c33 - 2 * c13 * c13"
    by simp
  have eq: "(c11 * 10 ^ 8 + c12 * 10 ^ 8) * (c33 * 10 ^ 8) - 2 * (c13 * 10 ^ 8) * (c13 * 10 ^ 8)
      = ((c11 + c12) * c33 - 2 * c13 * c13) * 10 ^ 16"
    by (simp add: algebra_simps)
  from D have "(c11 + c12) * c33 - 2 * c13 * c13 \<noteq> 0"
    by linarith
  then have "((c11 + c12) * c33 - 2 * c13 * c13) * 10 ^ 16 \<noteq> 0"
    by (simp only: mult_eq_0_iff) simp
  then have D': "(c11 * 10 ^ 8 + c12 * 10 ^ 8) * (c33 * 10 ^ 8) - 2 * (c13 * 10 ^ 8) * (c13 * 10 ^ 8) \<noteq> 0"
    unfolding eq .
  have ab: "c11 * 10 ^ 8 \<noteq> c12 * 10 ^ 8"
    using bd by simp
  have e: "c44 * 10 ^ 8 \<noteq> 0"
    using b44 by simp
  have f: "(c11 - c12) / 2 * 10 ^ 8 \<noteq> 0"
    using bd by simp
  show ?thesis
    unfolding rows by (rule linalg_inv_hexagonal[OF ab D' e f])
qed

lemma voigt_reuss_hill_ice_identity:
  assumes "- 273.15 \<le> t" and "t \<le> 0"
  shows "voigt_reuss_hill (ice_stiffness t (0.1 * (1 / 10))) [[0, 0, 0]]
    = Inr (ice_stiffness t (0.1 * (1 / 10)), ice_stiffness t (0.1 * (1 / 10)),
           ice_stiffness t (0.1 * (1 / 10)))"
proof -
  from ice_stiffness_invertible[OF assms] obtain S
    where "linalg_inv (ice_stiffness t (0.1 * (1 / 10))) = Inr S" ..
  then show ?thesis
    by (rule voigt_reuss_hill_identity) (rule length_ice_stiffness)
qed

lemma read_ang_single_zero_triple:
  "read_ang [''euler.ang'' \<mapsto> [[Num 0, Num 0, Num 0]]] ''euler.ang'' = Inr [[0, 0, 0]]"
  by (simp add: read_ang_def read_ang_array_def shape_def not_nan_def Let_def)

lemma seismic_stiffness_identity_rotation:
  assumes "getitem (material_is_anisotropic material) ind = Inr True"
    and "getitem (material_material material) ind = Inr ''ice1h''"
    and "getitem (material_angfile material) ind = Inr angfile"
    and "read_ang files angfile = Inr [[0, 0, 0]]"
    and "getitem (material_temp material) ind = Inr temperature"
    and "- 273.15 \<le> temperature" and "temperature \<le> 0"
  shows "seismic_stiffness files material ind density
           = Inr (ice_stiffness temperature (0.1 * (1 / 10)))"
  unfolding seismic_stiffness_def assms(1-5) bind_err_Inr Let_def
    voigt_reuss_hill_ice_identity[OF assms(6,7)]
  by simp

section \<open>Properties\<close>

text \<open>
  C1. With the ensemble of the one triple of zero Euler angles the Voigt, the Reuss and
  the Hill average all equal the single-crystal tensor. The homogenization inverts the
  tensor (\<open>np.linalg.inv\<close>), so the statement has five parts: it holds for every
  6 by 6 tensor and every pair of 3 by 3 tensors that can be inverted; the tensor of
  \<open>get_seismic\<close>, \<open>ice_stiffness\<close> at the pressure \<open>0.1 * 1e-1\<close>, can be
  inverted at every temperature from -273.15 to 0 degrees Celsius, so there the
  averages equal it with no further condition, and \<open>get_seismic\<close> passes just this
  tensor on to the rounding; and the tensors of \<open>get_perm\<close> are diagonal, so for
  them it is enough that no diagonal entry is zero.
\<close>

theorem homogenization_identity_rotation:
  "(linalg_inv C = Inr S \<and> length C = 6
      \<longrightarrow> voigt_reuss_hill C [[0, 0, 0]] = Inr (C, C, C))
 \<and> (linalg_inv P = Inr Sp \<and> length P = 3 \<and> linalg_inv Cd = Inr Sc \<and> length Cd = 3
      \<longrightarrow> voigt_reuss_hill_dielectric P Cd [[0, 0, 0]]
           = Inr \<lparr>voigt_permittivity = P, reuss_permittivity = P, hill_permittivity = P,
                  voigt_conductivity = Cd, reuss_conductivity = Cd, hill_conductivity = Cd\<rparr>)
 \<and> (- 273.15 \<le> temperature \<and> temperature \<le> 0
      \<longrightarrow> voigt_reuss_hill (ice_stiffness temperature (0.1 * (1 / 10))) [[0, 0, 0]]
           = Inr (ice_stiffness temperature (0.1 * (1 / 10)),
                  ice_stiffness temperature (0.1 * (1 / 10)),
                  ice_stiffness temperature (0.1 * (1 / 10))))
 \<and> (- 273.15 \<le> temperature \<and> temperature \<le> 0
      \<and> getitem (material_is_anisotropic material) ind = Inr True
      \<and> getitem (material_material material) ind = Inr ''ice1h''
      \<and> getitem (material_angfile material) ind = Inr angfile
      \<and> read_ang files angfile = Inr [[0, 0, 0]]
      \<and> getitem (material_temp material) ind = Inr temperature
      \<longrightarrow> seismic_stiffness files material ind density
           = Inr (ice_stiffness temperature (0.1 * (1 / 10))))
 \<and> (a \<noteq> 0 \<and> b \<noteq> 0 \<and> c \<noteq> 0 \<and> d \<noteq> 0 \<and> e \<noteq> 0 \<and> f \<noteq> 0
      \<longrightarrow> voigt_reuss_hill_dielectric
             [[a, 0, 0], [0, b, 0], [0, 0, c]] [[d, 0, 0], [0, e, 0], [0, 0, f]] [[0, 0, 0]]
           = Inr \<lparr>voigt_permittivity = [[a, 0, 0], [0, b, 0], [0, 0, c]],
                  reuss_permittivity = [[a, 0, 0], [0, b, 0], [0, 0, c]],
                  hill_permittivity = [[a, 0, 0], [0, b, 0], [0, 0, c]],
                  voigt_conductivity = [[d, 0, 0], [0, e, 0], [0, 0, f]],
                  reuss_conductivity = [[d, 0, 0], [0, e, 0], [0, 0, f]],
                  hill_conductivity = [[d, 0, 0], [0, e, 0], [0, 0, f]]\<rparr>)"
proof (intro conjI impI; (elim conjE)?)
  assume "linalg_inv C = Inr S" and "length C = 6"
  then show "voigt_reuss_hill C [[0, 0, 0]] = Inr (C, C, C)"
    by (rule voigt_reuss_hill_identity)
next
  assume "linalg_inv P = Inr Sp" and "length P = 3" and "linalg_inv Cd = Inr Sc"
    and "length Cd = 3"
  then show "voigt_reuss_hill_dielectric P Cd [[0, 0, 0]]
           = Inr \<lparr>voigt_permittivity = P, reuss_permittivity = P, hill_permittivity = P,
                  voigt_conductivity = Cd, reuss_conductivity = Cd, hill_conductivity = Cd\<rparr>"
    by (rule voigt_reuss_hill_dielectric_identity)
next
  assume "- 273.15 \<le> temperature" and "temperature \<le> 0"
  then show "voigt_reuss_hill (ice_stiffness temperature (0.1 * (1 / 10))) [[0, 0, 0]]
           = Inr (ice_stiffness temperature (0.1 * (1 / 10)),
                  ice_stiffness temperature (0.1 * (1 / 10)),
                  ice_stiffness temperature (0.1 * (1 / 10)))"
    by (rule voigt_reuss_hill_ice_identity)
next
  assume "- 273.15 \<le> temperature" and "temperature \<le> 0"
    and "getitem (material_is_anisotropic material) ind = Inr True"
    and "getitem (material_material material) ind = Inr ''ice1h''"
    and "getitem (material_angfile material) ind = Inr angfile"
    and "read_ang files angfile = Inr [[0, 0, 0]]"
    and "getitem (material_temp material) ind = Inr temperature"
  then show "seismic_stiffness files material ind density
           = Inr (ice_stiffness temperature (0.1 * (1 / 10)))"
    by (intro seismic_stiffness_identity_rotation)
next
  assume h: "a \<noteq> 0" "b \<noteq> 0" "c \<noteq> 0" "d \<noteq> 0" "e \<noteq> 0" "f \<noteq> 0"
  show "voigt_reuss_hill_dielectric
             [[a, 0, 0], [0, b, 0], [0, 0, c]] [[d, 0, 0], [0, e, 0], [0, 0, f]] [[0, 0, 0]]
           = Inr \<lparr>voigt_permittivity = [[a, 0, 0], [0, b, 0], [0, 0, c]],
                  reuss_permittivity = [[a, 0, 0], [0, b, 0], [0, 0, c]],
                  hill_permittivity = [[a, 0, 0], [0, b, 0], [0, 0, c]],
                  voigt_conductivity = [[d, 0, 0], [0, e, 0], [0, 0, f]],
                  reuss_conductivity = [[d, 0, 0], [0, e, 0], [0, 0, f]],
                  hill_conductivity = [[d, 0, 0], [0, e, 0], [0, 0, f]]\<rparr>"
    by (rule voigt_reuss_hill_dielectric_identity
          [OF linalg_inv_diag3[OF h(1,2,3)] _ linalg_inv_diag3[OF h(4,5,6)]]) simp_all
qed

theorem homogenization_identity_rotation_witness:
  "voigt_reuss_hill (ice_stiffness 0 0) [[0, 0, 0]]
     = Inr (ice_stiffness 0 0, ice_stiffness 0 0, ice_stiffness 0 0)
 \<and> voigt_reuss_hill_dielectric (eye3_scaled 3.1884) (eye3_scaled (1 / 10 ^ 7)) [[0, 0, 0]]
     = Inr \<lparr>voigt_permittivity = eye3_scaled 3.1884, reuss_permittivity = eye3_scaled 3.1884,
            hill_permittivity = eye3_scaled 3.1884,
            voigt_conductivity = eye3_scaled (1 / 10 ^ 7), reuss_conductivity = eye3_scaled (1 / 10 ^ 7),
            hill_conductivity = eye3_scaled (1 / 10 ^ 7)\<rparr>
 \<and> voigt_reuss_hill (ice_stiffness (- 10) (0.1 * (1 / 10))) [[0, 0, 0]]
     = Inr (ice_stiffness (- 10) (0.1 * (1 / 10)), ice_stiffness (- 10) (0.1 * (1 / 10)),
            ice_stiffness (- 10) (0.1 * (1 / 10)))
 \<and> seismic_stiffness [''euler.ang'' \<mapsto> [[Num 0, Num 0, Num 0]]]
       \<lparr>material_temp = [- 10], material_rho = [917], material_porosity = [0],
        material_lwc = [0], material_is_anisotropic = [True], material_material = [''ice1h''],
        material_angfile = [''euler.ang'']\<rparr> 0 917
     = Inr (ice_stiffness (- 10) (0.1 * (1 / 10)))
 \<and> voigt_reuss_hill_dielectric
       [[3.18, 0, 0], [0, 3.18, 0], [0, 0, 3.21]]
       [[2 / 10 ^ 5, 0, 0], [0, 2 / 10 ^ 5, 0], [0, 0, 3 / 10 ^ 5]] [[0, 0, 0]]
     = Inr \<lparr>voigt_permittivity = [[3.18, 0, 0], [0, 3.18, 0], [0, 0, 3.21]],
            reuss_permittivity = [[3.18, 0, 0], [0, 3.18, 0], [0, 0, 3.21]],
            hill_permittivity = [[3.18, 0, 0], [0, 3.18, 0], [0, 0, 3.21]],
            voigt_conductivity = [[2 / 10 ^ 5, 0, 0], [0, 2 / 10 ^ 5, 0], [0, 0, 3 / 10 ^ 5]],
            reuss_conductivity = [[2 / 10 ^ 5, 0, 0], [0, 2 / 10 ^ 5, 0], [0, 0, 3 / 10 ^ 5]],
            hill_conductivity = [[2 / 10 ^ 5, 0, 0], [0, 2 / 10 ^ 5, 0], [0, 0, 3 / 10 ^ 5]]\<rparr>"
proof -
  have 1: "length (ice_stiffness 0 0) = 6"
    by (simp add: ice_stiffness_0_0)
  have 2: "linalg_inv (eye3_scaled (3.1884 :: real)) = Inr (eye3_scaled (1 / 3.1884))"
    by (rule linalg_inv_eye3_scaled) simp
  have 3: "linalg_inv (eye3_scaled (1 / 10 ^ 7 :: real)) = Inr (eye3_scaled (1 / (1 / 10 ^ 7)))"
    by (rule linalg_inv_eye3_scaled) simp
  have 4: "length (eye3_scaled x) = 3" for x :: real
    by (simp add: eye3_scaled_rows)
  have 5: "getitem [True] 0 = Inr True" "getitem [''ice1h''] 0 = Inr ''ice1h''"
    "getitem [''euler.ang''] 0 = Inr ''euler.ang''" "getitem [- 10 :: real] 0 = Inr (- 10)"
    by (simp_all add: getitem_def)
  have 6: "- 273.15 \<le> (- 10 :: real)" "(- 10 :: real) \<le> 0"
    by simp_all
  have 7: "(3.18 :: real) \<noteq> 0" "(3.21 :: real) \<noteq> 0" "(2 / 10 ^ 5 :: real) \<noteq> 0"
    "(3 / 10 ^ 5 :: real) \<noteq> 0"
    by simp_all
  note inst = homogenization_identity_rotation
    [where C = "ice_stiffness 0 0" and P = "eye3_scaled 3.1884" and Cd = "eye3_scaled (1 / 10 ^ 7)"
       and temperature = "- 10" and files = "[''euler.ang'' \<mapsto> [[Num 0, Num 0, Num 0]]]"
       and angfile = "''euler.ang''" and ind = 0 and density = 917
       and material = "\<lparr>material_temp = [- 10], material_rho = [917], material_porosity = [0],
        material_lwc = [0], material_is_anisotropic = [True], material_material = [''ice1h''],
        material_angfile = [''euler.ang'']\<rparr>"
       and a = "3.18" and b = "3.18" and c = "3.21" and d = "2 / 10 ^ 5" and e = "2 / 10 ^ 5"
       and f = "3 / 10 ^ 5"]
  show ?thesis
    using inst ice_stiffness_0_0_inverse 1 2 3 4 5 6 7 read_ang_single_zero_triple
    by (simp del: fun_upd_apply)
qed

text \<open>
  C2. For every temperature and pressure the tensor of \<open>ice_stiffness\<close> has the five
  constants c11, c12, c13, c33 and c44 given by their quadratic polynomials, each scaled
  by \<open>1e8\<close>, and the remaining entries follow the hexagonal relations c22 = c11,
  c23 = c13, c21 = c12, c55 = c44 and c66 = (c11 - c12)/2 (one-based Voigt indices
  against the zero-based indices of the rows).
\<close>

theorem ice_stiffness_hexagonal:
  fixes t p :: real
  defines "S \<equiv> ice_stiffness t p"
  shows "S ! 0 ! 0 = (136.813 - 0.28940 * t - 0.00178270 * t\<^sup>2 + 4.6648 * p - 0.13501 * p\<^sup>2) * 10 ^ 8
       \<and> S ! 0 ! 1 = (69.4200 - 0.14673 * t - 0.00090362 * t\<^sup>2 + 5.0743 * p + 0.085917 * p\<^sup>2) * 10 ^ 8
       \<and> S ! 0 ! 2 = (56.3410 - 0.11916 * t - 0.00073120 * t\<^sup>2 + 6.4189 * p - 0.52490 * p\<^sup>2) * 10 ^ 8
       \<and> S ! 2 ! 2 = (147.607 - 0.31129 * t - 0.0018948 * t\<^sup>2 + 4.7546 * p - 0.11307 * p\<^sup>2) * 10 ^ 8
       \<and> S ! 3 ! 3 = (29.7260 - 0.062874 * t - 0.00038956 * t\<^sup>2 + 0.5662 * p + 0.036917 * p\<^sup>2) * 10 ^ 8
       \<and> S ! 1 ! 1 = S ! 0 ! 0
       \<and> S ! 1 ! 2 = S ! 0 ! 2
       \<and> S ! 1 ! 0 = S ! 0 ! 1
       \<and> S ! 4 ! 4 = S ! 3 ! 3
       \<and> S ! 5 ! 5 = (S ! 0 ! 0 - S ! 0 ! 1) / 2
       \<and> shape S = (6, 6)"
  unfolding S_def
  by (simp add: ice_stiffness_rows shape_def Let_def)

text \<open>
  C3 (as stated it fails). The claim expects no report on the tensor with
  c00 = c11 = c22 = 3 and c01 = 1, the 6 by 6 isotropic tensor of \<open>\<lambda> = \<mu> = 1\<close>;
  there the function reports conditions 1 and 2, since
  \<open>(1 + 2 \<cdot> 3)\<^sup>2 - 3 \<cdot> 3 = 40 > 0\<close>.
\<close>

theorem highfreq_isotropic_reports_counterexample:
  "\<not> (\<exists>conds. highfreq_stability_conditions
        [[3, 1, 1, 0, 0, 0], [1, 3, 1, 0, 0, 0], [1, 1, 3, 0, 0, 0],
         [0, 0, 0, 1, 0, 0], [0, 0, 0, 0, 1, 0], [0, 0, 0, 0, 0, 1]] = Inr (conds, []))"
  by (simp add: highfreq_isotropic_eval)

text \<open>
  C3 (amended). On every array with at least three rows and columns the function
  returns, its second value is \<open>(c01 + 2 c22)\<^sup>2 - c00 c11\<close>, and the failure of
  condition 2 is reported exactly when that value is positive. On the 3 by 3 isotropic
  tensor of \<open>\<lambda> = \<mu> = 1\<close> in two-dimensional Voigt form (c00 = c11 = 3, c01 = 1
  and the shear entry c22 = 1) the three values are -12, 0 and 0, and no condition is
  reported as failed.
\<close>

theorem highfreq_condition2_report:
  assumes "shape T = (r, c)" and "3 \<le> r" and "3 \<le> c"
  shows "(\<exists>c1 c3 out.
            highfreq_stability_conditions T
              = Inr ((c1, (T ! 0 ! 1 + 2 * T ! 2 ! 2)\<^sup>2 - T ! 0 ! 0 * T ! 1 ! 1, c3), out)
          \<and> (''Failed to pass high frequency stability condition 2.'' \<in> set out
               \<longleftrightarrow> (T ! 0 ! 1 + 2 * T ! 2 ! 2)\<^sup>2 - T ! 0 ! 0 * T ! 1 ! 1 > 0))
       \<and> highfreq_stability_conditions [[3, 1, 0], [1, 3, 0], [0, 0, 1]]
          = Inr ((- 12, 0, 0), [])"
proof
  show "\<exists>c1 c3 out.
            highfreq_stability_conditions T
              = Inr ((c1, (T ! 0 ! 1 + 2 * T ! 2 ! 2)\<^sup>2 - T ! 0 ! 0 * T ! 1 ! 1, c3), out)
          \<and> (''Failed to pass high frequency stability condition 2.'' \<in> set out
               \<longleftrightarrow> (T ! 0 ! 1 + 2 * T ! 2 ! 2)\<^sup>2 - T ! 0 ! 0 * T ! 1 ! 1 > 0)"
    using assms by (simp add: highfreq_stability_conditions_def Let_def)
next
  show "highfreq_stability_conditions [[3, 1, 0], [1, 3, 0], [0, 0, 1]]
          = Inr ((- 12, 0, 0), [])"
    by (rule highfreq_isotropic_2d_eval)
qed

theorem highfreq_condition2_report_witness:
  "shape [[1, 3, 0], [3, 1, 0], [0, 0, 1 :: real]] = (3, 3)
   \<and> (\<exists>c1 c3 out.
         highfreq_stability_conditions [[1, 3, 0], [3, 1, 0], [0, 0, 1]] = Inr ((c1, 24, c3), out)
         \<and> ''Failed to pass high frequency stability condition 2.'' \<in> set out)"
proof -
  have s: "shape [[1, 3, 0], [3, 1, 0], [0, 0, 1 :: real]] = (3, 3)"
    by (simp add: shape_def)
  from highfreq_condition2_report[OF s] show ?thesis
    using s by (simp add: power2_eq_square)
qed

text \<open>
  C4. For every density and every array of limits with the four velocity bounds, the
  velocities are \<open>V = V_min + (2/\<pi>) (V_max - V_min) arctan(pressure)\<close>, and the tensor
  has \<open>\<lambda> + 2\<mu>\<close> on the first three diagonal entries, \<open>\<lambda>\<close> elsewhere in the
  upper-left 3 by 3 block and \<open>\<mu>\<close> on the shear diagonal, with \<open>\<mu> = \<rho> Vs\<^sup>2\<close> and
  \<open>\<lambda> = \<rho> Vp\<^sup>2 - 2\<mu>\<close>. At pressure 0 the velocities are the minima.
\<close>

theorem isotropic_stiffness_tensor_lame:
  assumes "4 \<le> length ml"
  shows "isotropic_stiffness_tensor pressure density ml =
          (let Vp = ml ! 0 + (2 / pi) * (ml ! 1 - ml ! 0) * arctan pressure;
               Vs = ml ! 2 + (2 / pi) * (ml ! 3 - ml ! 2) * arctan pressure;
               mu = density * Vs\<^sup>2;
               lam = density * Vp\<^sup>2 - 2 * mu
           in Inr [[lam + 2 * mu, lam, lam, 0, 0, 0],
                   [lam, lam + 2 * mu, lam, 0, 0, 0],
                   [lam, lam, lam + 2 * mu, 0, 0, 0],
                   [0, 0, 0, mu, 0, 0],
                   [0, 0, 0, 0, mu, 0],
                   [0, 0, 0, 0, 0, mu]])
       \<and> isotropic_stiffness_tensor 0 density ml =
          (let Vp = ml ! 0;
               Vs = ml ! 2;
               mu = density * Vs\<^sup>2;
               lam = density * Vp\<^sup>2 - 2 * mu
           in Inr [[lam + 2 * mu, lam, lam, 0, 0, 0],
                   [lam, lam + 2 * mu, lam, 0, 0, 0],
                   [lam, lam, lam + 2 * mu, 0, 0, 0],
                   [0, 0, 0, mu, 0, 0],
                   [0, 0, 0, 0, mu, 0],
                   [0, 0, 0, 0, 0, mu]])"
  by (simp add: isotropic_stiffness_tensor_rows[OF assms] Let_def)

theorem isotropic_stiffness_tensor_lame_witness:
  "isotropic_materials ''granite''
     = Some [4500, 6000, 2500, 3300, 4.8, 18.9, 4 / 10 ^ 5, 2.5 / 10 ^ 4]
   \<and> isotropic_stiffness_tensor 0 2700 [4500, 6000, 2500, 3300, 4.8, 18.9, 4 / 10 ^ 5, 2.5 / 10 ^ 4]
     = Inr [[54675000000, 20925000000, 20925000000, 0, 0, 0],
            [20925000000, 54675000000, 20925000000, 0, 0, 0],
            [20925000000, 20925000000, 54675000000, 0, 0, 0],
            [0, 0, 0, 16875000000, 0, 0],
            [0, 0, 0, 0, 16875000000, 0],
            [0, 0, 0, 0, 0, 16875000000]]"
  using isotropic_stiffness_tensor_lame[of
      "[4500, 6000, 2500, 3300, 4.8, 18.9, 4 / 10 ^ 5, 2.5 / 10 ^ 4]" 0 2700]
  by (simp add: granite_limits Let_def)

text \<open>
  C5 (the code differs). With a complex 3 by 3 permittivity whose imaginary diagonal is
  1 and the frequency \<open>10\<^sup>7\<close> Hz, the returned diagonal is \<open>1 \<cdot> 10\<^sup>7 \<cdot> eps0\<close>: the
  frequency itself multiplies, not the angular frequency \<open>2\<pi> \<cdot> 10\<^sup>7\<close> of the claim.
\<close>

theorem snow_conductivity_uses_plain_frequency:
  "snow_conductivity lwc (Some (ComplexArray (eye3_scaled (Complex 3 1)))) (Some (10 ^ 7))
     = Inr (eye3_scaled (1 * 10 ^ 7 * eps0))
   \<and> eye3_scaled (1 * 10 ^ 7 * eps0) \<noteq> eye3_scaled (1 * (2 * pi * 10 ^ 7) * eps0)"
proof -
  have "2 * pi \<noteq> 1"
    using pi_ge_two by linarith
  then have "eye3_scaled (1 * 10 ^ 7 * eps0) \<noteq> eye3_scaled (1 * (2 * pi * 10 ^ 7) * eps0)"
    by (simp add: eye3_scaled_rows eps0_def)
  then show ?thesis
    using snow_conductivity_complex_eval by blast
qed

text \<open>
  C6 (the code differs). The catalog key is \<open>dry_sand\<close>, the branch with the 55 percent
  cap tests for \<open>dry sand\<close>: for \<open>dry_sand\<close> the default branch with the 3 percent cap
  runs, for every temperature, porosity and water content. At porosity 55 the
  permittivity diagonal is 35.9, where the 55 percent cap would give the catalog
  maximum 4.7; the name with a space is no key of the catalog.
\<close>

theorem dry_sand_takes_default_cap:
  "isotropic_permittivity_tensor temperature porosity water_content ''dry_sand''
     = Inr (eye3_scaled ((4.7 - 2.9) / 3 * porosity + 2.9),
            eye3_scaled ((1 / 10 ^ 3 - 1 / 10 ^ 3) / 3 * porosity + 1 / 10 ^ 3))
   \<and> isotropic_permittivity_tensor 0 55 0 ''dry_sand''
     = Inr (eye3_scaled 35.9, eye3_scaled (1 / 10 ^ 3))
   \<and> eye3_scaled (35.9 :: real) \<noteq> eye3_scaled (2.9 + ((4.7 - 2.9) / 55) * 55)
   \<and> isotropic_permittivity_tensor temperature porosity water_content ''dry sand''
     = Inl KeyError"
  by (simp add: isotropic_permittivity_tensor_def dry_sand_limits
      dry_sand_with_space_is_no_key Let_def eye3_scaled_rows)

text \<open>
  C7 (as stated it fails). A table of two rows and four columns is returned with its
  four columns: the cut to three columns is taken only when the table has more than
  three rows. And a table of four rows whose first column is NaN comes back with two
  columns per row: no error reports that fewer than three usable columns are left.
\<close>

theorem read_ang_untrimmed_counterexample:
  "read_ang_array [[Num 1, Num 2, Num 3, Num 4], [Num 5, Num 6, Num 7, Num 8]]
     = Inr [[1, 2, 3, 4], [5, 6, 7, 8]]
   \<and> read_ang_array [[NaN, Num 2, Num 3, Num 4], [NaN, Num 6, Num 7, Num 8],
                     [NaN, Num 1, Num 2, Num 3], [NaN, Num 4, Num 5, Num 6]]
     = Inr [[2, 3], [6, 7], [1, 2], [4, 5]]"
  by (simp add: read_ang_short_table read_ang_nan_column)

text \<open>
  C7 (amended). For every table with more than three rows in which every row has the
  same number \<open>k\<close> of entries other than NaN among its first three columns,
  \<open>read_ang\<close> returns one row per table row, holding exactly those \<open>k\<close> entries: the
  Euler triple of the first three columns when \<open>k = 3\<close>, and fewer columns, without
  an error, when \<open>k < 3\<close>.
\<close>

theorem read_ang_first_three_columns:
  assumes "3 < length table"
    and "\<forall>row\<in>set table. length (not_nan (slice 0 3 row)) = k"
  shows "read_ang_array table = Inr (map (\<lambda>row. not_nan (slice 0 3 row)) table)"
  by (rule read_ang_array_rows[OF assms])

theorem read_ang_first_three_columns_witness:
  "read_ang_array [[Num 1, Num 2, Num 3, Num 4], [Num 5, Num 6, Num 7, NaN],
                   [Num 0, Num 1, Num 2, Num 9], [Num 3, Num 4, Num 5, NaN]]
     = Inr [[1, 2, 3], [5, 6, 7], [0, 1, 2], [3, 4, 5]]"
proof -
  let ?T = "[[Num 1, Num 2, Num 3, Num 4], [Num 5, Num 6, Num 7, NaN],
             [Num 0, Num 1, Num 2, Num 9], [Num 3, Num 4, Num 5, NaN]]"
  have 1: "3 < length ?T" by simp
  have 2: "\<forall>row\<in>set ?T. length (not_nan (slice 0 3 row)) = 3"
    by (simp add: slice_0_3 not_nan_def)
  show ?thesis
    using read_ang_first_three_columns[OF 1 2] by (simp add: slice_0_3 not_nan_def)
qed

text \<open>
  C8 (the code differs). Without a complex permittivity (none given, or a real array)
  \<open>snow_conductivity\<close> raises \<open>NameError\<close> for every liquid water content and
  frequency.
\<close>

theorem snow_conductivity_real_branch_raises:
  "snow_conductivity lwc None frequency = Inl NameError
   \<and> snow_conductivity lwc (Some (RealArray P)) frequency = Inl NameError
   \<and> snow_conductivity (Some 5) None (Some (10 ^ 7)) = Inl NameError"
  by (simp add: snow_conductivity_def)

text \<open>
  C9. Every tensor the five builders return is symmetric, for all their arguments:
  \<open>isotropic_stiffness_tensor\<close>, \<open>ice_stiffness\<close>, both tensors of
  \<open>isotropic_permittivity_tensor\<close>, the real or complex tensor of
  \<open>ice_permittivity\<close> and the tensor of \<open>snow_permittivity\<close>. So are the Voigt,
  Reuss and Hill averages of the homogenizations, for every array of Euler angles:
  those of \<open>get_seismic\<close>, taken of the tensor of ice, and those of \<open>get_perm\<close>,
  taken of the permittivity and conductivity it computes for a material, which are
  symmetric themselves. Symmetric means square with \<open>T[i,j] = T[j,i]\<close> for all
  indices; the arithmetic is that of the real numbers.
\<close>

theorem core_tensors_symmetric:
  "(\<forall>pressure density material_limits C.
      isotropic_stiffness_tensor pressure density material_limits = Inr C \<longrightarrow> symmetric C)
 \<and> (\<forall>temperature pressure. symmetric (ice_stiffness temperature pressure))
 \<and> (\<forall>temperature porosity water_content material_name permittivity conductivity.
      isotropic_permittivity_tensor temperature porosity water_content material_name
        = Inr (permittivity, conductivity)
      \<longrightarrow> symmetric permittivity \<and> symmetric conductivity)
 \<and> (\<forall>tables temperature density center_frequency method P.
      ice_permittivity tables temperature density center_frequency method = Inr (RealArray P)
      \<longrightarrow> symmetric P)
 \<and> (\<forall>tables temperature density center_frequency method P.
      ice_permittivity tables temperature density center_frequency method = Inr (ComplexArray P)
      \<longrightarrow> symmetric P)
 \<and> (\<forall>tables density temperature lwc porosity center_frequency method permittivity rho_d.
      snow_permittivity tables density temperature lwc porosity center_frequency method
        = Inr (permittivity, rho_d)
      \<longrightarrow> symmetric permittivity)
 \<and> (\<forall>temperature pressure euler cvoigt creuss C.
      voigt_reuss_hill (ice_stiffness temperature pressure) euler = Inr (cvoigt, creuss, C)
      \<longrightarrow> symmetric cvoigt \<and> symmetric creuss \<and> symmetric C)
 \<and> (\<forall>tables f0 material ind permittivity conductivity euler r.
      dielectric_tensors tables f0 material ind = Inr (permittivity, conductivity)
      \<and> voigt_reuss_hill_dielectric permittivity conductivity euler = Inr r
      \<longrightarrow> symmetric permittivity \<and> symmetric conductivity
        \<and> symmetric (voigt_permittivity r) \<and> symmetric (reuss_permittivity r)
        \<and> symmetric (hill_permittivity r)
        \<and> symmetric (voigt_conductivity r) \<and> symmetric (reuss_conductivity r)
        \<and> symmetric (hill_conductivity r))"
proof (intro conjI allI impI)
  fix pressure density material_limits C
  assume "isotropic_stiffness_tensor pressure density material_limits = Inr C"
  then show "symmetric C"
    by (rule symmetric_isotropic_stiffness_tensor)
next
  fix temperature pressure :: real
  show "symmetric (ice_stiffness temperature pressure)"
    by (rule symmetric_ice_stiffness)
next
  fix temperature porosity water_content material_name permittivity conductivity
  assume h: "isotropic_permittivity_tensor temperature porosity water_content material_name
        = Inr (permittivity, conductivity)"
  from symmetric_isotropic_permittivity_tensor[OF h]
  show "symmetric permittivity" "symmetric conductivity"
    by simp_all
next
  fix tables temperature density center_frequency meth P
  assume "ice_permittivity tables temperature density center_frequency meth = Inr (RealArray P)"
  from symmetric_ice_permittivity[OF this] show "symmetric P"
    by simp
next
  fix tables temperature density center_frequency meth P
  assume "ice_permittivity tables temperature density center_frequency meth
            = Inr (ComplexArray P)"
  from symmetric_ice_permittivity[OF this] show "symmetric P"
    by simp
next
  fix tables density temperature lwc porosity center_frequency meth permittivity rho_d
  assume "snow_permittivity tables density temperature lwc porosity center_frequency meth
        = Inr (permittivity, rho_d)"
  then show "symmetric permittivity"
    by (rule symmetric_snow_permittivity)
next
  fix temperature pressure euler cvoigt creuss C
  assume h: "voigt_reuss_hill (ice_stiffness temperature pressure) euler
               = Inr (cvoigt, creuss, C)"
  from symmetric_voigt_reuss_hill[OF h symmetric_ice_stiffness length_ice_stiffness]
  show "symmetric cvoigt" "symmetric creuss" "symmetric C"
    by simp_all
next
  fix tables f0 material ind permittivity conductivity euler r
  assume h: "dielectric_tensors tables f0 material ind = Inr (permittivity, conductivity)
      \<and> voigt_reuss_hill_dielectric permittivity conductivity euler = Inr r"
  from dielectric_tensors_symmetric[OF h[THEN conjunct1]]
  have s: "symmetric permittivity" "length permittivity = 3"
    "symmetric conductivity" "length conductivity = 3"
    by simp_all
  from symmetric_voigt_reuss_hill_dielectric[OF h[THEN conjunct2] s]
  show "symmetric permittivity" "symmetric conductivity"
    "symmetric (voigt_permittivity r)" "symmetric (reuss_permittivity r)"
    "symmetric (hill_permittivity r)"
    "symmetric (voigt_conductivity r)" "symmetric (reuss_conductivity r)"
    "symmetric (hill_conductivity r)"
    using s by simp_all
qed

theorem core_tensors_symmetric_witness:
  "isotropic_stiffness_tensor 0 2700 [4500, 6000, 2500, 3300, 4.8, 18.9, 4 / 10 ^ 5, 2.5 / 10 ^ 4]
     = Inr [[54675000000, 20925000000, 20925000000, 0, 0, 0],
            [20925000000, 54675000000, 20925000000, 0, 0, 0],
            [20925000000, 20925000000, 54675000000, 0, 0, 0],
            [0, 0, 0, 16875000000, 0, 0],
            [0, 0, 0, 0, 16875000000, 0],
            [0, 0, 0, 0, 0, 16875000000]]
 \<and> symmetric [[54675000000 :: real, 20925000000, 20925000000, 0, 0, 0],
            [20925000000, 54675000000, 20925000000, 0, 0, 0],
            [20925000000, 20925000000, 54675000000, 0, 0, 0],
            [0, 0, 0, 16875000000, 0, 0],
            [0, 0, 0, 0, 16875000000, 0],
            [0, 0, 0, 0, 0, 16875000000]]
 \<and> symmetric (ice_stiffness (- 10) 0.1)
 \<and> isotropic_permittivity_tensor 0 0 0 ''granite''
     = Inr (eye3_scaled 4.8, eye3_scaled (4 / 10 ^ 5))
 \<and> symmetric (eye3_scaled (4.8 :: real)) \<and> symmetric (eye3_scaled (4 / 10 ^ 5 :: real))
 \<and> ice_permittivity \<lparr>A_interp = \<lambda>T. 1 / 10 ^ 3, B_interp = \<lambda>T. 1 / 10 ^ 4, C_interp = \<lambda>T. 1\<rparr>
       (- 10) 917 (10 ^ 9) ''kovacs'' = Inr (RealArray (eye3_scaled ((1 + 0.845 * 917)\<^sup>2)))
 \<and> symmetric (eye3_scaled ((1 + 0.845 * 917 :: real)\<^sup>2))
 \<and> (\<exists>P. ice_permittivity \<lparr>A_interp = \<lambda>T. 1 / 10 ^ 3, B_interp = \<lambda>T. 1 / 10 ^ 4, C_interp = \<lambda>T. 1\<rparr>
          (- 10) 917 (10 ^ 9) ''fujita'' = Inr (ComplexArray P) \<and> symmetric P)
 \<and> (\<exists>P. snow_permittivity \<lparr>A_interp = \<lambda>T. 1 / 10 ^ 3, B_interp = \<lambda>T. 1 / 10 ^ 4, C_interp = \<lambda>T. 1\<rparr>
          917 (- 10) 0 0 (10 ^ 9) ''shivola-tiuri'' = Inr (P, 917 / 1000) \<and> symmetric P)
 \<and> voigt_reuss_hill (ice_stiffness 0 0) [[0, 0, 0]]
     = Inr (ice_stiffness 0 0, ice_stiffness 0 0, ice_stiffness 0 0)
 \<and> symmetric (ice_stiffness 0 0)
 \<and> dielectric_tensors \<lparr>A_interp = \<lambda>T. 1 / 10 ^ 3, B_interp = \<lambda>T. 1 / 10 ^ 4, C_interp = \<lambda>T. 1\<rparr> (10 ^ 9)
       \<lparr>material_temp = [0], material_rho = [2700], material_porosity = [0],
        material_lwc = [0], material_is_anisotropic = [True], material_material = [''granite''],
        material_angfile = [''euler.ang'']\<rparr> 0
     = Inr ([[4.8, 0, 0], [0, 4.8, 0], [0, 0, 4.8]],
            [[4 / 10 ^ 5, 0, 0], [0, 4 / 10 ^ 5, 0], [0, 0, 4 / 10 ^ 5]])
 \<and> voigt_reuss_hill_dielectric [[4.8, 0, 0], [0, 4.8, 0], [0, 0, 4.8]]
       [[4 / 10 ^ 5, 0, 0], [0, 4 / 10 ^ 5, 0], [0, 0, 4 / 10 ^ 5]] [[0, 0, 0]]
     = Inr \<lparr>voigt_permittivity = [[4.8, 0, 0], [0, 4.8, 0], [0, 0, 4.8]], reuss_permittivity = [[4.8, 0, 0], [0, 4.8, 0], [0, 0, 4.8]],
              hill_permittivity = [[4.8, 0, 0], [0, 4.8, 0], [0, 0, 4.8]],
              voigt_conductivity = [[4 / 10 ^ 5, 0, 0], [0, 4 / 10 ^ 5, 0], [0, 0, 4 / 10 ^ 5]],
              reuss_conductivity = [[4 / 10 ^ 5, 0, 0], [0, 4 / 10 ^ 5, 0], [0, 0, 4 / 10 ^ 5]],
              hill_conductivity = [[4 / 10 ^ 5, 0, 0], [0, 4 / 10 ^ 5, 0], [0, 0, 4 / 10 ^ 5]]\<rparr>
 \<and> symmetric [[4.8 :: real, 0, 0], [0, 4.8, 0], [0, 0, 4.8]]
 \<and> symmetric [[4 / 10 ^ 5 :: real, 0, 0], [0, 4 / 10 ^ 5, 0], [0, 0, 4 / 10 ^ 5]]"
proof -
  note all = core_tensors_symmetric
  note t1 = all[THEN conjunct1, rule_format]
  note t2 = all[THEN conjunct2, THEN conjunct1, rule_format]
  note t3 = all[THEN conjunct2, THEN conjunct2, THEN conjunct1, rule_format]
  note t4 = all[THEN conjunct2, THEN conjunct2, THEN conjunct2, THEN conjunct1, rule_format]
  note t5 = all[THEN conjunct2, THEN conjunct2, THEN conjunct2, THEN conjunct2, THEN conjunct1,
      rule_format]
  note t6 = all[THEN conjunct2, THEN conjunct2, THEN conjunct2, THEN conjunct2, THEN conjunct2,
      THEN conjunct1, rule_format]
  note t7 = all[THEN conjunct2, THEN conjunct2, THEN conjunct2, THEN conjunct2, THEN conjunct2,
      THEN conjunct2, THEN conjunct1, rule_format]
  note t8 = all[THEN conjunct2, THEN conjunct2, THEN conjunct2, THEN conjunct2, THEN conjunct2,
      THEN conjunct2, THEN conjunct2, rule_format]
  have g: "isotropic_stiffness_tensor 0 2700
      [4500, 6000, 2500, 3300, 4.8, 18.9, 4 / 10 ^ 5, 2.5 / 10 ^ 4]
     = Inr [[54675000000, 20925000000, 20925000000, 0, 0, 0],
            [20925000000, 54675000000, 20925000000, 0, 0, 0],
            [20925000000, 20925000000, 54675000000, 0, 0, 0],
            [0, 0, 0, 16875000000, 0, 0],
            [0, 0, 0, 0, 16875000000, 0],
            [0, 0, 0, 0, 0, 16875000000]]"
    by (simp add: isotropic_stiffness_tensor_rows Let_def)
  have v: "voigt_reuss_hill (ice_stiffness 0 0) [[0, 0, 0]]
     = Inr (ice_stiffness 0 0, ice_stiffness 0 0, ice_stiffness 0 0)"
    by (rule voigt_reuss_hill_identity[OF ice_stiffness_0_0_inverse]) (simp add: ice_stiffness_0_0)
  have d: "voigt_reuss_hill_dielectric [[4.8, 0, 0], [0, 4.8, 0], [0, 0, 4.8]]
       [[4 / 10 ^ 5, 0, 0], [0, 4 / 10 ^ 5, 0], [0, 0, 4 / 10 ^ 5]] [[0, 0, 0]]
     = Inr \<lparr>voigt_permittivity = [[4.8, 0, 0], [0, 4.8, 0], [0, 0, 4.8]], reuss_permittivity = [[4.8, 0, 0], [0, 4.8, 0], [0, 0, 4.8]],
              hill_permittivity = [[4.8, 0, 0], [0, 4.8, 0], [0, 0, 4.8]],
              voigt_conductivity = [[4 / 10 ^ 5, 0, 0], [0, 4 / 10 ^ 5, 0], [0, 0, 4 / 10 ^ 5]],
              reuss_conductivity = [[4 / 10 ^ 5, 0, 0], [0, 4 / 10 ^ 5, 0], [0, 0, 4 / 10 ^ 5]],
              hill_conductivity = [[4 / 10 ^ 5, 0, 0], [0, 4 / 10 ^ 5, 0], [0, 0, 4 / 10 ^ 5]]\<rparr>"
    by (rule voigt_reuss_hill_dielectric_identity[OF linalg_inv_diag3 _ linalg_inv_diag3])
       simp_all
  obtain Pf where Pf: "ice_permittivity \<lparr>A_interp = \<lambda>T. 1 / 10 ^ 3, B_interp = \<lambda>T. 1 / 10 ^ 4, C_interp = \<lambda>T. 1\<rparr>
          (- 10) 917 (10 ^ 9) ''fujita'' = Inr (ComplexArray Pf)"
    using ice_permittivity_fujita_sample by blast
  obtain Ps where Ps: "snow_permittivity \<lparr>A_interp = \<lambda>T. 1 / 10 ^ 3, B_interp = \<lambda>T. 1 / 10 ^ 4, C_interp = \<lambda>T. 1\<rparr>
          917 (- 10) 0 0 (10 ^ 9) ''shivola-tiuri'' = Inr (Ps, 917 / 1000)"
    using snow_permittivity_sample by blast
  note dt = dielectric_tensors_granite[of "\<lparr>A_interp = \<lambda>T. 1 / 10 ^ 3, B_interp = \<lambda>T. 1 / 10 ^ 4, C_interp = \<lambda>T. 1\<rparr>" "10 ^ 9"]
  from t8[OF conjI[OF dt d]]
  have s8: "symmetric [[4.8 :: real, 0, 0], [0, 4.8, 0], [0, 0, 4.8]]"
    "symmetric [[4 / 10 ^ 5 :: real, 0, 0], [0, 4 / 10 ^ 5, 0], [0, 0, 4 / 10 ^ 5]]"
    by simp_all
  from t3[OF granite_permittivity]
  have s3: "symmetric (eye3_scaled (4.8 :: real))" "symmetric (eye3_scaled (4 / 10 ^ 5 :: real))"
    by simp_all
  from t7[OF v] have s7: "symmetric (ice_stiffness 0 0)"
    by simp
  show ?thesis
    using g t1[OF g] t2[of "- 10" "0.1"] granite_permittivity s3
      ice_permittivity_kovacs[of "\<lparr>A_interp = \<lambda>T. 1 / 10 ^ 3, B_interp = \<lambda>T. 1 / 10 ^ 4, C_interp = \<lambda>T. 1\<rparr>" "- 10" "10 ^ 9"]
      t4[OF ice_permittivity_kovacs[of "\<lparr>A_interp = \<lambda>T. 1 / 10 ^ 3, B_interp = \<lambda>T. 1 / 10 ^ 4, C_interp = \<lambda>T. 1\<rparr>" "- 10" "10 ^ 9"]]
      Pf t5[OF Pf] Ps t6[OF Ps] v s7 dt d s8
    by (intro conjI exI[of _ Pf] exI[of _ Ps])
qed

text \<open>
  C10. Whenever \<open>get_seismic\<close> returns, the row it stores for a material holds the 21
  upper-triangular entries of the stiffness tensor, each passed through \<open>np.round\<close>
  and hence an integer, followed by the corrected density of
  \<open>porewater_correction\<close> as it is, not rounded. The run on one sample of ice at
  -10 degrees shows both: the entry c66 = 3434431636.5 is stored as 3434431636
  (\<open>np.round\<close> rounds a half to the even neighbour), the density 917 unchanged.
\<close>

theorem get_seismic_rounds_tensor_only:
  assumes "get_seismic files stiffness_coefficients material = Inr coefficients"
    and "ind < length (material_temp material)"
  shows "\<exists>density grams_air grams_water C row.
      porewater_correction (material_temp material ! ind) (material_rho material ! ind)
        (material_porosity material ! ind) (material_lwc material ! ind)
        = Inr (density, grams_air, grams_water)
    \<and> seismic_stiffness files material ind density = Inr C
    \<and> coefficients ind = Some row
    \<and> row = map np_round
              [C ! 0 ! 0, C ! 0 ! 1, C ! 0 ! 2, C ! 0 ! 3, C ! 0 ! 4, C ! 0 ! 5,
               C ! 1 ! 1, C ! 1 ! 2, C ! 1 ! 3, C ! 1 ! 4, C ! 1 ! 5,
               C ! 2 ! 2, C ! 2 ! 3, C ! 2 ! 4, C ! 2 ! 5,
               C ! 3 ! 3, C ! 3 ! 4, C ! 3 ! 5,
               C ! 4 ! 4, C ! 4 ! 5,
               C ! 5 ! 5] @ [density]
    \<and> list_all (\<lambda>x. x \<in> \<int>) (take 21 row)
    \<and> length row = 22
    \<and> row ! 21 = density"
proof -
  have "ind \<in> set [0..<length (material_temp material)]"
    using assms(2) by simp
  with get_seismic_loop_rows[OF assms(1)[unfolded get_seismic_def], of ind]
  obtain row where row: "seismic_row files material ind = Inr row"
    and c: "coefficients ind = Some row"
    by blast
  from seismic_row_Inr[OF row] obtain density grams_air grams_water C
    where pw: "porewater_correction (material_temp material ! ind) (material_rho material ! ind)
        (material_porosity material ! ind) (material_lwc material ! ind)
        = Inr (density, grams_air, grams_water)"
      and C: "seismic_stiffness files material ind density = Inr C"
      and r: "row = map np_round
              [C ! 0 ! 0, C ! 0 ! 1, C ! 0 ! 2, C ! 0 ! 3, C ! 0 ! 4, C ! 0 ! 5,
               C ! 1 ! 1, C ! 1 ! 2, C ! 1 ! 3, C ! 1 ! 4, C ! 1 ! 5,
               C ! 2 ! 2, C ! 2 ! 3, C ! 2 ! 4, C ! 2 ! 5,
               C ! 3 ! 3, C ! 3 ! 4, C ! 3 ! 5,
               C ! 4 ! 4, C ! 4 ! 5,
               C ! 5 ! 5] @ [density]"
    by blast
  have "list_all (\<lambda>x. x \<in> \<int>) (take 21 row)" "length row = 22" "row ! 21 = density"
    unfolding r by (simp_all add: np_round_Ints)
  with pw C c r show ?thesis by blast
qed

theorem get_seismic_rounds_tensor_only_witness:
  "get_seismic (\<lambda>f. None) Map.empty
     \<lparr>material_temp = [- 10], material_rho = [917], material_porosity = [0],
      material_lwc = [0], material_is_anisotropic = [False], material_material = [''ice1h''],
      material_angfile = ['''']\<rparr>
     = Inr [0 \<mapsto> [13999385990, 7130522717, 5809612100, 0, 0, 0,
                     13999385990, 5809612100, 0, 0, 0,
                     15100474930, 0, 0, 0,
                     3037277317, 0, 0,
                     3037277317, 0,
                     3434431636,
                     917]]
   \<and> (\<exists>grams_air grams_water C.
        porewater_correction (-10) 917 0 0 = Inr (917, grams_air, grams_water)
      \<and> seismic_stiffness (\<lambda>f. None)
     \<lparr>material_temp = [- 10], material_rho = [917], material_porosity = [0],
      material_lwc = [0], material_is_anisotropic = [False], material_material = [''ice1h''],
      material_angfile = ['''']\<rparr> 0 917 = Inr C
      \<and> np_round (C ! 5 ! 5) = 3434431636)"
proof -
  have len: "length (material_temp
     \<lparr>material_temp = [- 10], material_rho = [917], material_porosity = [0],
      material_lwc = [0], material_is_anisotropic = [False], material_material = [''ice1h''],
      material_angfile = ['''']\<rparr>) = 1"
    by simp
  have run: "get_seismic (\<lambda>f. None) Map.empty
     \<lparr>material_temp = [- 10], material_rho = [917], material_porosity = [0],
      material_lwc = [0], material_is_anisotropic = [False], material_material = [''ice1h''],
      material_angfile = ['''']\<rparr>
     = Inr [0 \<mapsto> [13999385990, 7130522717, 5809612100, 0, 0, 0,
                     13999385990, 5809612100, 0, 0, 0,
                     15100474930, 0, 0, 0,
                     3037277317, 0, 0,
                     3037277317, 0,
                     3434431636,
                     917]]"
    by (simp add: get_seismic_def len seismic_row_ice_sample)
  have ind: "0 < length (material_temp
     \<lparr>material_temp = [- 10], material_rho = [917], material_porosity = [0],
      material_lwc = [0], material_is_anisotropic = [False], material_material = [''ice1h''],
      material_angfile = ['''']\<rparr>)"
    by (simp add: len)
  from get_seismic_rounds_tensor_only[OF run ind] run show ?thesis
    by auto
qed

end
